(* ===== verification/Go_Prelude.thy ===== *)
theory Go_Prelude
  imports
    Main
    "HOL-Library.Word"
    "HOL-Library.Multiset"
    "HOL-Library.Finite_Map"
    "HOL-Library.Char_ord"
    "HOL-Library.List_Lexorder"
    "HOL-Library.Sublist"
begin

text \<open>
  Shared vocabulary of the development: Go error values and panics, the type of a
  Go function that has effects (a state transformer that returns either a failure or
  a value), and the combinators the translated functions are written with. Every
  construct of \<^verbatim>\<open>src/cmd/client/sandbox.go\<close> that is not a plain expression has one
  combinator here:
  \<^item> \<^verbatim>\<open>return err\<close> is \<open>return_err\<close>, a nil-pointer dereference is \<open>panic\<close>;
  \<^item> \<^verbatim>\<open>x, err := f(); if err != nil { return err }\<close> is \<open>bind\<close>;
  \<^item> a statement followed by another is \<open>seq\<close>, a statement list is \<open>block\<close>;
  \<^item> \<^verbatim>\<open>*p\<close> is \<open>deref\<close>, \<^verbatim>\<open>if p != nil { ... *p ... }\<close> is \<open>if_set\<close>,
    \<^verbatim>\<open>if c { ... }\<close> is \<open>if_then\<close>;
  \<^item> \<^verbatim>\<open>for _, x := range xs { ... }\<close> over a slice is \<open>for_each\<close>;
  \<^item> \<^verbatim>\<open>defer cleanup()\<close> is \<open>deferred\<close>: the clean-up runs on every way out, a panic
    included;
  \<^item> \<^verbatim>\<open>if err != nil { return fmt.Errorf("...: %v", err) }\<close> is \<open>wrap_err\<close>.
  The lemmas are the monad laws, the rules that run a combinator on a state
  (collected in \<open>prog_simps\<close>) and the rules that lift a state predicate or a state
  relation through the combinators (\<open>steps_in\<close>, collected in \<open>preserves_intros\<close>).
\<close>

named_theorems prog_simps \<open>rules that run a program combinator on a state\<close>
named_theorems preserves_intros \<open>rules that lift a state relation through the combinators\<close>

section \<open>Go errors and panics\<close>

text \<open>
  A Go \<^verbatim>\<open>error\<close> is an interface value: a dynamic type and a message. The dynamic
  types that reach this program are the strings built by \<^verbatim>\<open>fmt.Errorf\<close>, the status
  errors of the gRPC client, and the errors of the two helpers of package main that
  load the configuration and open the connection.
\<close>

datatype error =
    ErrorString string
  | RpcError string
  | ConfigError string
  | ConnError string

text \<open>The method \<^verbatim>\<open>Error() string\<close>.\<close>

fun Error :: "error \<Rightarrow> string" where
  "Error (ErrorString s) = s"
| "Error (RpcError s) = s"
| "Error (ConfigError s) = s"
| "Error (ConnError s) = s"

text \<open>
  \<^verbatim>\<open>fmt.Errorf(prefix + "%v", err)\<close>: the result is a new error string; of the
  operand only the message is kept.
\<close>

definition Errorf :: "string \<Rightarrow> error \<Rightarrow> error" where
  "Errorf pre e = ErrorString (pre @ Error e)"

text \<open>
  A function either returns normally, returns a non-nil error, or panics. The only
  panic this program can raise is the run-time error of a nil-pointer dereference.
\<close>

datatype failure = Err error | Panic

type_synonym 'a result = "failure + 'a"

type_synonym ('w, 'a) prog = "'w \<Rightarrow> 'a result \<times> 'w"

section \<open>Combinators\<close>

definition ret :: "'a \<Rightarrow> ('w, 'a) prog" where
  "ret x = (\<lambda>w. (Inr x, w))"

definition fail_with :: "failure \<Rightarrow> ('w, 'a) prog" where
  "fail_with f = (\<lambda>w. (Inl f, w))"

abbreviation return_err :: "error \<Rightarrow> ('w, 'a) prog" where
  "return_err e \<equiv> fail_with (Err e)"

abbreviation panic :: "('w, 'a) prog" where
  "panic \<equiv> fail_with Panic"

definition bind :: "('w, 'a) prog \<Rightarrow> ('a \<Rightarrow> ('w, 'b) prog) \<Rightarrow> ('w, 'b) prog" where
  "bind m f = (\<lambda>w. case m w of (Inl e, w') \<Rightarrow> (Inl e, w') | (Inr x, w') \<Rightarrow> f x w')"

definition seq :: "('w, unit) prog \<Rightarrow> ('w, 'a) prog \<Rightarrow> ('w, 'a) prog" where
  "seq m n = bind m (\<lambda>_. n)"

definition modify :: "('w \<Rightarrow> 'w) \<Rightarrow> ('w, unit) prog" where
  "modify f = (\<lambda>w. (Inr (), f w))"

definition deref :: "'a option \<Rightarrow> ('w, 'a) prog" where
  "deref p = (case p of None \<Rightarrow> panic | Some x \<Rightarrow> ret x)"

definition if_then :: "bool \<Rightarrow> ('w, unit) prog \<Rightarrow> ('w, unit) prog" where
  "if_then c m = (if c then m else ret ())"

definition if_set :: "'a option \<Rightarrow> ('a \<Rightarrow> ('w, unit) prog) \<Rightarrow> ('w, unit) prog" where
  "if_set p f = (case p of None \<Rightarrow> ret () | Some x \<Rightarrow> f x)"

primrec block :: "('w, unit) prog list \<Rightarrow> ('w, unit) prog" where
  "block [] = ret ()"
| "block (m # ms) = seq m (block ms)"

primrec for_each :: "'a list \<Rightarrow> ('a \<Rightarrow> ('w, unit) prog) \<Rightarrow> ('w, unit) prog" where
  "for_each [] f = ret ()"
| "for_each (x # xs) f = seq (f x) (for_each xs f)"

definition deferred :: "('w \<Rightarrow> 'w) \<Rightarrow> ('w, 'a) prog \<Rightarrow> ('w, 'a) prog" where
  "deferred cleanup m = (\<lambda>w. case m w of (r, w') \<Rightarrow> (r, cleanup w'))"

definition wrap_err :: "string \<Rightarrow> ('w, 'a) prog \<Rightarrow> ('w, 'a) prog" where
  "wrap_err pre m =
     (\<lambda>w. case m w of
        (Inl (Err e), w') \<Rightarrow> (Inl (Err (Errorf pre e)), w')
      | (r, w') \<Rightarrow> (r, w'))"

text \<open>The outcome of a run, and the state it ends in.\<close>

definition outcome :: "('w, 'a) prog \<Rightarrow> 'w \<Rightarrow> 'a result" where
  "outcome m w = fst (m w)"

definition final :: "('w, 'a) prog \<Rightarrow> 'w \<Rightarrow> 'w" where
  "final m w = snd (m w)"

fun returns :: "'a result \<Rightarrow> bool" where
  "returns (Inr _) = True"
| "returns (Inl _) = False"

fun panics :: "'a result \<Rightarrow> bool" where
  "panics (Inl Panic) = True"
| "panics _ = False"

section \<open>Running the combinators\<close>

lemma ret_apply [prog_simps]: "ret x w = (Inr x, w)"
  by (simp add: ret_def)

lemma fail_with_apply [prog_simps]: "fail_with f w = (Inl f, w)"
  by (simp add: fail_with_def)

lemma modify_apply [prog_simps]: "modify f w = (Inr (), f w)"
  by (simp add: modify_def)

lemma bind_apply_Inr: "m w = (Inr x, w') \<Longrightarrow> bind m f w = f x w'"
  by (simp add: bind_def)

lemma bind_apply_Inl: "m w = (Inl e, w') \<Longrightarrow> bind m f w = (Inl e, w')"
  by (simp add: bind_def)

lemma bind_apply [prog_simps]:
  "bind m f w = (case m w of (Inl e, w') \<Rightarrow> (Inl e, w') | (Inr x, w') \<Rightarrow> f x w')"
  by (simp add: bind_def)

lemma seq_apply [prog_simps]:
  "seq m n w = (case m w of (Inl e, w') \<Rightarrow> (Inl e, w') | (Inr _, w') \<Rightarrow> n w')"
  by (simp add: seq_def bind_def)

lemma seq_apply_Inr: "m w = (Inr x, w') \<Longrightarrow> seq m n w = n w'"
  by (simp add: seq_def bind_apply_Inr)

lemma seq_apply_Inl: "m w = (Inl e, w') \<Longrightarrow> seq m n w = (Inl e, w')"
  by (simp add: seq_def bind_apply_Inl)

lemma deref_simps [prog_simps, simp]:
  "deref None = panic"
  "deref (Some x) = ret x"
  by (simp_all add: deref_def)

lemma if_then_simps [prog_simps, simp]:
  "if_then True m = m"
  "if_then False m = ret ()"
  by (simp_all add: if_then_def)

lemma if_set_simps [prog_simps, simp]:
  "if_set None f = ret ()"
  "if_set (Some x) f = f x"
  by (simp_all add: if_set_def)

lemma deferred_apply [prog_simps]:
  "deferred cleanup m w = (fst (m w), cleanup (snd (m w)))"
  by (simp add: deferred_def split: prod.splits)

lemma wrap_err_apply [prog_simps]:
  "wrap_err pre m w =
     (case fst (m w) of
        Inl (Err e) \<Rightarrow> (Inl (Err (Errorf pre e)), snd (m w))
      | _ \<Rightarrow> m w)"
  by (simp add: wrap_err_def split: prod.splits sum.splits failure.splits)

lemma outcome_final: "m w = (outcome m w, final m w)"
  by (simp add: outcome_def final_def)

section \<open>Monad laws\<close>

lemma bind_ret_left [simp]: "bind (ret x) f = f x"
  by (rule ext) (simp add: bind_def ret_def)

lemma bind_ret_right [simp]: "bind m ret = m"
  by (rule ext) (simp add: bind_def ret_def split: prod.splits sum.splits)

lemma bind_assoc: "bind (bind m f) g = bind m (\<lambda>x. bind (f x) g)"
  by (rule ext) (simp add: bind_def split: prod.splits sum.splits)

lemma bind_fail_with [simp]: "bind (fail_with e) f = fail_with e"
  by (rule ext) (simp add: bind_def fail_with_def)

lemma seq_ret_left [simp]: "seq (ret ()) n = n"
  by (simp add: seq_def)

lemma seq_ret_right [simp]: "seq m (ret ()) = m"
  by (rule ext) (simp add: seq_def bind_def ret_def split: prod.splits sum.splits)

lemma seq_fail_with [simp]: "seq (fail_with e) n = fail_with e"
  by (simp add: seq_def)

lemma seq_assoc: "seq (seq m n) k = seq m (seq n k)"
  by (simp add: seq_def bind_assoc)

lemma bind_seq: "bind (seq m n) f = seq m (bind n f)"
  by (simp add: seq_def bind_assoc)

lemma block_append: "block (ms @ ns) = seq (block ms) (block ns)"
  by (induction ms) (simp_all add: seq_assoc)

lemma block_single [simp]: "block [m] = m"
  by simp

lemma for_each_append: "for_each (xs @ ys) f = seq (for_each xs f) (for_each ys f)"
  by (induction xs) (simp_all add: seq_assoc)

lemma for_each_block: "for_each xs f = block (map f xs)"
  by (induction xs) simp_all

lemma wrap_err_ret [simp]: "wrap_err pre (ret x) = ret x"
  by (rule ext) (simp add: wrap_err_def ret_def)

lemma wrap_err_return_err [simp]:
  "wrap_err pre (return_err e) = return_err (Errorf pre e)"
  by (rule ext) (simp add: wrap_err_def fail_with_def)

lemma wrap_err_panic [simp]: "wrap_err pre panic = panic"
  by (rule ext) (simp add: wrap_err_def fail_with_def)

section \<open>Lifting a state relation through the combinators\<close>

text \<open>
  \<open>steps_in R m\<close>: whatever the outcome, a run of \<open>m\<close> takes a state to an
  \<open>R\<close>-related state. With a reflexive and transitive \<open>R\<close> (the standard output only
  grows, the connection count is unchanged, the service is untouched) the property is
  inherited by every program built from programs that have it.
\<close>

definition steps_in :: "('w \<Rightarrow> 'w \<Rightarrow> bool) \<Rightarrow> ('w, 'a) prog \<Rightarrow> bool" where
  "steps_in R m \<longleftrightarrow> (\<forall>w. R w (snd (m w)))"

lemma steps_inI: "(\<And>w. R w (snd (m w))) \<Longrightarrow> steps_in R m"
  by (simp add: steps_in_def)

lemma steps_inD: "steps_in R m \<Longrightarrow> R w (snd (m w))"
  by (simp add: steps_in_def)

lemma steps_in_ret [preserves_intros]: "reflp R \<Longrightarrow> steps_in R (ret x)"
  by (simp add: steps_in_def ret_def reflpD)

lemma steps_in_fail_with [preserves_intros]: "reflp R \<Longrightarrow> steps_in R (fail_with f)"
  by (simp add: steps_in_def fail_with_def reflpD)

lemma steps_in_bind [preserves_intros]:
  assumes "transp R" and "steps_in R m" and "\<And>x. steps_in R (f x)"
  shows "steps_in R (bind m f)"
proof (rule steps_inI)
  fix w
  obtain r w' where mw: "m w = (r, w')" by (cases "m w")
  with assms(2) have R1: "R w w'" by (auto dest: steps_inD [where w = w])
  show "R w (snd (bind m f w))"
  proof (cases r)
    case (Inl e)
    with mw R1 show ?thesis by (simp add: bind_apply_Inl)
  next
    case (Inr x)
    from assms(3) have "R w' (snd (f x w'))" by (rule steps_inD)
    with R1 assms(1) have "R w (snd (f x w'))" by (blast dest: transpD)
    with mw Inr show ?thesis by (simp add: bind_apply_Inr)
  qed
qed

lemma steps_in_seq [preserves_intros]:
  "transp R \<Longrightarrow> steps_in R m \<Longrightarrow> steps_in R n \<Longrightarrow> steps_in R (seq m n)"
  by (simp add: seq_def steps_in_bind)

lemma steps_in_deref [preserves_intros]: "reflp R \<Longrightarrow> steps_in R (deref p)"
  by (cases p) (simp_all add: steps_in_ret steps_in_fail_with)

lemma steps_in_if_then [preserves_intros]:
  "reflp R \<Longrightarrow> steps_in R m \<Longrightarrow> steps_in R (if_then c m)"
  by (cases c) (simp_all add: steps_in_ret)

lemma steps_in_if_set [preserves_intros]:
  "reflp R \<Longrightarrow> (\<And>x. steps_in R (f x)) \<Longrightarrow> steps_in R (if_set p f)"
  by (cases p) (simp_all add: steps_in_ret)

lemma steps_in_block:
  "reflp R \<Longrightarrow> transp R \<Longrightarrow> (\<And>m. m \<in> set ms \<Longrightarrow> steps_in R m) \<Longrightarrow> steps_in R (block ms)"
  by (induction ms) (simp_all add: steps_in_ret steps_in_seq)

lemma steps_in_for_each [preserves_intros]:
  "reflp R \<Longrightarrow> transp R \<Longrightarrow> (\<And>x. steps_in R (f x)) \<Longrightarrow> steps_in R (for_each xs f)"
  by (induction xs) (simp_all add: steps_in_ret steps_in_seq)

lemma snd_wrap_err [simp]: "snd (wrap_err pre m w) = snd (m w)"
  by (simp add: wrap_err_def split: prod.splits sum.splits failure.splits)

lemma steps_in_wrap_err [preserves_intros]: "steps_in R m \<Longrightarrow> steps_in R (wrap_err pre m)"
  by (simp add: steps_in_def)

lemma steps_in_modify: "(\<And>w. R w (f w)) \<Longrightarrow> steps_in R (modify f)"
  by (simp add: steps_in_def modify_def)

section \<open>Lists, options and strings\<close>

text \<open>The line feed that ends every line of output, and the tab of an indented one.\<close>

definition LF :: char where
  "LF = CHR 0x0A"

definition TAB :: char where
  "TAB = CHR 0x09"

lemma LF_neq_TAB [simp]: "LF \<noteq> TAB" "TAB \<noteq> LF"
  by (simp_all add: LF_def TAB_def)

lemma prefix_append_trans: "prefix a b \<Longrightarrow> prefix a (b @ c)"
  by (simp add: prefix_def) auto

lemma mset_concat_map_perm:
  "mset xs = mset ys \<Longrightarrow> mset (map f xs) = mset (map f ys)"
  by (metis mset_map)

end
