(* ===== verification/Fmt.thy ===== *)
theory Fmt
  imports Go_Prelude
begin

text \<open>
  The part of Go's \<^verbatim>\<open>fmt\<close> package that \<^verbatim>\<open>sandbox.go\<close> uses, as pure functions into
  strings: the verbs \<^verbatim>\<open>%s\<close> and \<^verbatim>\<open>%v\<close> applied to a string, to a \<^verbatim>\<open>uint32\<close> (the
  attempt counter, printed in decimal) and to a value or pointer with a
  \<^verbatim>\<open>String()\<close> method (the sandbox state and the creation time). A format string is
  kept as the list of its pieces, literal text and verbs with their operands, so that
  \<^verbatim>\<open>fmt.Printf("Name: %s\n", x)\<close> is \<open>Sprintf [Lit ''Name: '', Verb_s (Str x), Lit [LF]]\<close>.
  The lemmas: decimal rendering is injective (it has a parser as left inverse), uses
  digits only and at most ten of them for a 32-bit value; \<open>Sprintf\<close> distributes over
  append; text made of lines that contain no line feed splits back into these lines.
\<close>

section \<open>Decimal rendering of unsigned integers\<close>

definition digit_char :: "nat \<Rightarrow> char" where
  "digit_char d = ''0123456789'' ! d"

fun decimal :: "nat \<Rightarrow> string" where
  "decimal n = (if n < 10 then [digit_char n] else decimal (n div 10) @ [digit_char (n mod 10)])"

declare decimal.simps [simp del]

definition is_digit :: "char \<Rightarrow> bool" where
  "is_digit c \<longleftrightarrow> c \<in> set ''0123456789''"

definition digit_val :: "char \<Rightarrow> nat" where
  "digit_val c = of_char c - 48"

text \<open>The reference parser: the value of a non-empty string of digits.\<close>

definition parse_step :: "nat option \<Rightarrow> char \<Rightarrow> nat option" where
  "parse_step acc c =
     (case acc of
        None \<Rightarrow> None
      | Some a \<Rightarrow> if is_digit c then Some (10 * a + digit_val c) else None)"

definition parse_decimal :: "string \<Rightarrow> nat option" where
  "parse_decimal s = (if s = [] then None else foldl parse_step (Some 0) s)"

lemma digit_cases:
  assumes "d < (10::nat)"
  obtains "d = 0" | "d = 1" | "d = 2" | "d = 3" | "d = 4"
    | "d = 5" | "d = 6" | "d = 7" | "d = 8" | "d = 9"
proof -
  from assms have "d = 0 \<or> d = 1 \<or> d = 2 \<or> d = 3 \<or> d = 4
      \<or> d = 5 \<or> d = 6 \<or> d = 7 \<or> d = 8 \<or> d = 9"
    by presburger
  with that show thesis by blast
qed

lemma is_digit_digit_char [simp]: "d < 10 \<Longrightarrow> is_digit (digit_char d)"
  by (erule digit_cases) (simp_all add: is_digit_def digit_char_def)

lemma digit_val_digit_char [simp]: "d < 10 \<Longrightarrow> digit_val (digit_char d) = d"
  by (erule digit_cases) (simp_all add: digit_val_def digit_char_def)

lemma digit_char_neq_LF [simp]: "d < 10 \<Longrightarrow> digit_char d \<noteq> LF"
  by (erule digit_cases) (simp_all add: digit_char_def LF_def)

lemma digit_char_zero_iff: "d < 10 \<Longrightarrow> digit_char d = CHR ''0'' \<longleftrightarrow> d = 0"
  by (erule digit_cases) (simp_all add: digit_char_def)

lemma decimal_small [simp]: "n < 10 \<Longrightarrow> decimal n = [digit_char n]"
  by (simp add: decimal.simps)

lemma decimal_large: "\<not> n < 10 \<Longrightarrow> decimal n = decimal (n div 10) @ [digit_char (n mod 10)]"
  by (subst decimal.simps) simp

lemma decimal_nonempty [simp]: "decimal n \<noteq> []"
  by (subst decimal.simps) simp

lemma decimal_digits: "c \<in> set (decimal n) \<Longrightarrow> is_digit c"
proof (induction n rule: decimal.induct)
  case (1 n)
  show ?case
  proof (cases "n < 10")
    case True
    with "1.prems" show ?thesis by simp
  next
    case False
    with "1.prems" "1.IH" show ?thesis by (auto simp: decimal_large)
  qed
qed

lemma is_digit_neq_LF: "is_digit c \<Longrightarrow> c \<noteq> LF"
  by (auto simp: is_digit_def LF_def)

lemma LF_notin_decimal [simp]: "LF \<notin> set (decimal n)"
  using decimal_digits is_digit_neq_LF by blast

lemma foldl_parse_step_decimal:
  "foldl parse_step (Some a) (decimal n) = Some (a * 10 ^ length (decimal n) + n)"
proof (induction n arbitrary: a rule: decimal.induct)
  case (1 n)
  show ?case
  proof (cases "n < 10")
    case True
    then show ?thesis by (simp add: parse_step_def)
  next
    case False
    with "1.IH" [of a] show ?thesis
      by (simp add: decimal_large parse_step_def algebra_simps)
  qed
qed

lemma parse_decimal_decimal: "parse_decimal (decimal n) = Some n"
  by (simp add: parse_decimal_def foldl_parse_step_decimal)

lemma decimal_inj: "decimal m = decimal n \<Longrightarrow> m = n"
  by (metis option.inject parse_decimal_decimal)

lemma length_decimal_le: "0 < k \<Longrightarrow> n < 10 ^ k \<Longrightarrow> length (decimal n) \<le> k"
proof (induction n arbitrary: k rule: decimal.induct)
  case (1 n)
  show ?case
  proof (cases "n < 10")
    case True
    with "1.prems" show ?thesis by simp
  next
    case False
    with "1.prems" obtain j where k: "k = Suc j" and j: "0 < j"
      by (cases k; cases "k - 1") auto
    from "1.prems" k have "n div 10 < 10 ^ j"
      by (simp add: less_mult_imp_div_less mult.commute)
    with "1.IH" [OF False j] have "length (decimal (n div 10)) \<le> j" .
    with False k show ?thesis by (simp add: decimal_large)
  qed
qed

lemma decimal_no_leading_zero: "\<not> n < 10 \<Longrightarrow> hd (decimal n) \<noteq> CHR ''0''"
proof (induction n rule: decimal.induct)
  case (1 n)
  show ?case
  proof (cases "n div 10 < 10")
    case True
    with "1.prems" have "n div 10 \<noteq> 0" by simp
    with True "1.prems" show ?thesis
      by (simp add: decimal_large digit_char_zero_iff)
  next
    case False
    with "1.IH" "1.prems" have "hd (decimal (n div 10)) \<noteq> CHR ''0''" by simp
    with "1.prems" show ?thesis by (simp add: decimal_large)
  qed
qed

section \<open>Operands, verbs and format strings\<close>

text \<open>
  The operand kinds the program prints. \<open>Stringer\<close> is a value with a \<^verbatim>\<open>String()\<close>
  method, given by the text the method returns, or a nil pointer to one: \<^verbatim>\<open>fmt\<close>
  recovers from the panic of calling the method through a nil pointer and prints
  \<^verbatim>\<open><nil>\<close>.
\<close>

datatype operand =
    Str string
  | Uint32 "32 word"
  | Stringer "string option"

datatype piece = Lit string | Verb_s operand | Verb_v operand

fun format_v :: "operand \<Rightarrow> string" where
  "format_v (Str s) = s"
| "format_v (Uint32 n) = decimal (unat n)"
| "format_v (Stringer None) = ''<nil>''"
| "format_v (Stringer (Some s)) = s"

text \<open>\<^verbatim>\<open>%s\<close> of an integer is a bad verb, which \<^verbatim>\<open>fmt\<close> reports in the output.\<close>

fun format_s :: "operand \<Rightarrow> string" where
  "format_s (Uint32 n) = ''%!s(uint32='' @ decimal (unat n) @ '')''"
| "format_s x = format_v x"

fun format_piece :: "piece \<Rightarrow> string" where
  "format_piece (Lit s) = s"
| "format_piece (Verb_s x) = format_s x"
| "format_piece (Verb_v x) = format_v x"

definition Sprintf :: "piece list \<Rightarrow> string" where
  "Sprintf ps = concat (map format_piece ps)"

definition Sprintln :: "string \<Rightarrow> string" where
  "Sprintln s = s @ [LF]"

lemma Sprintf_Nil [simp]: "Sprintf [] = []"
  by (simp add: Sprintf_def)

lemma Sprintf_Cons [simp]: "Sprintf (p # ps) = format_piece p @ Sprintf ps"
  by (simp add: Sprintf_def)

lemma Sprintf_append: "Sprintf (ps @ qs) = Sprintf ps @ Sprintf qs"
  by (simp add: Sprintf_def)

lemma length_format_v_Uint32: "length (format_v (Uint32 n)) \<le> 10"
proof -
  have "unat n < 2 ^ 32" using unsigned_less [of n] by simp
  then have "unat n < 10 ^ 10" by simp
  then show ?thesis by (simp add: length_decimal_le)
qed

lemma format_v_Uint32_inj: "format_v (Uint32 m) = format_v (Uint32 n) \<Longrightarrow> m = n"
  by (auto dest!: decimal_inj simp: word_unat_eq_iff)

section \<open>Lines of text\<close>

definition unlines :: "string list \<Rightarrow> string" where
  "unlines ls = concat (map Sprintln ls)"

text \<open>
  Splitting at line feeds: the lines that are terminated, and the unterminated rest.
\<close>

fun split_lines :: "string \<Rightarrow> string \<Rightarrow> string list \<times> string" where
  "split_lines cur [] = ([], cur)"
| "split_lines cur (c # cs) =
     (if c = LF then (case split_lines [] cs of (ls, r) \<Rightarrow> (cur # ls, r))
      else split_lines (cur @ [c]) cs)"

definition lines_of :: "string \<Rightarrow> string list" where
  "lines_of s = fst (split_lines [] s)"

lemma unlines_Nil [simp]: "unlines [] = []"
  by (simp add: unlines_def)

lemma unlines_Cons [simp]: "unlines (l # ls) = l @ LF # unlines ls"
  by (simp add: unlines_def Sprintln_def)

lemma unlines_append: "unlines (ks @ ls) = unlines ks @ unlines ls"
  by (simp add: unlines_def)

lemma split_lines_line:
  "LF \<notin> set l \<Longrightarrow>
   split_lines cur (l @ LF # s) = (case split_lines [] s of (ls, r) \<Rightarrow> ((cur @ l) # ls, r))"
  by (induction l arbitrary: cur) auto

lemma split_lines_unlines:
  "\<forall>l \<in> set ls. LF \<notin> set l \<Longrightarrow> split_lines [] (unlines ls) = (ls, [])"
  by (induction ls) (simp_all add: split_lines_line)

lemma lines_of_unlines: "\<forall>l \<in> set ls. LF \<notin> set l \<Longrightarrow> lines_of (unlines ls) = ls"
  by (simp add: lines_of_def split_lines_unlines)

end
