(* ===== verification/Runtime_API.thy ===== *)
theory Runtime_API
  imports Fmt
begin

text \<open>
  The protocol types of the runtime service (package \<^verbatim>\<open>pb\<close>, imported by
  \<^verbatim>\<open>sandbox.go\<close> as \<^verbatim>\<open>k8s.io/kubernetes/pkg/kubelet/api/v1alpha1/runtime\<close>) as far as
  the client reads or writes them, and the client interface
  \<^verbatim>\<open>pb.RuntimeServiceClient\<close>. The package is not part of the sources; the types follow
  sections 3 and 6 of the specification and the field accesses in \<^verbatim>\<open>sandbox.go\<close>.

  Every field the Go code tests against \<^verbatim>\<open>nil\<close> or dereferences is an \<open>option\<close>:
  \<open>None\<close> is the nil pointer (or the nil map). A sandbox summary (\<open>PodSandbox\<close>, an
  item of a list response) and a sandbox status (\<open>PodSandboxStatus_pb\<close>) have the same
  leading fields; the status is the record extension with the network and Linux detail,
  so the selectors \<open>Id\<close>, \<open>Metadata\<close>, \<open>State\<close>, \<open>CreatedAt\<close>, \<open>Labels\<close> and
  \<open>Annotations\<close> apply to both, as the same field names do in Go. A type whose Go
  name is also the name of a function of \<^verbatim>\<open>sandbox.go\<close> or of a field carries the
  suffix \<open>_pb\<close>.

  The service is a record of five functions on a service state \<open>'s\<close>: each takes
  the request and the state and returns the response or an error, and the new state.
\<close>

section \<open>Messages\<close>

type_synonym gomap = "(string, string) fmap"

record PodSandboxMetadata =
  Name :: "string option"
  Uid :: "string option"
  Namespace :: "string option"
  Attempt :: "32 word option"

text \<open>
  The configuration of a sandbox. The client touches only the name in its metadata;
  the other fields stand for the settings it passes through unchanged.
\<close>

record PodSandboxConfig =
  Metadata :: "PodSandboxMetadata option"
  Hostname :: "string option"
  LogDirectory :: "string option"
  Labels :: "gomap option"
  Annotations :: "gomap option"

datatype PodSandBoxState = UNKNOWN | READY | NOT_READY

text \<open>The method \<^verbatim>\<open>String()\<close> of the state: its symbolic name.\<close>

fun State_String :: "PodSandBoxState \<Rightarrow> string" where
  "State_String UNKNOWN = ''UNKNOWN''"
| "State_String READY = ''READY''"
| "State_String NOT_READY = ''NOT_READY''"

record PodSandboxNetworkStatus =
  Ip :: "string option"

record Namespace_pb =
  Network :: "string option"

record LinuxPodSandboxStatus =
  Namespaces :: "Namespace_pb option"

record PodSandbox =
  Id :: "string option"
  Metadata :: "PodSandboxMetadata option"
  State :: "PodSandBoxState option"
  CreatedAt :: "64 word option"
  Labels :: "gomap option"
  Annotations :: "gomap option"

record PodSandboxStatus_pb = PodSandbox +
  Network :: "PodSandboxNetworkStatus option"
  Linux :: "LinuxPodSandboxStatus option"

section \<open>Requests and responses\<close>

record RunPodSandboxRequest =
  Config :: "PodSandboxConfig option"

record RunPodSandboxResponse =
  PodSandboxId :: "string option"

record StopPodSandboxRequest =
  Stop_PodSandboxId :: "string option"

datatype StopPodSandboxResponse = StopPodSandboxResponse

record RemovePodSandboxRequest =
  Remove_PodSandboxId :: "string option"

datatype RemovePodSandboxResponse = RemovePodSandboxResponse

record PodSandboxStatusRequest =
  Status_PodSandboxId :: "string option"

record PodSandboxStatusResponse =
  Status :: "PodSandboxStatus_pb option"

record PodSandboxFilter =
  Filter_Id :: "string option"
  Filter_State :: "PodSandBoxState option"
  Filter_LabelSelector :: "gomap option"

record ListPodSandboxRequest =
  Filter :: "PodSandboxFilter option"

record ListPodSandboxResponse =
  Items :: "PodSandbox list"

section \<open>The client interface\<close>

type_synonym ('s, 'req, 'resp) rpc = "'req \<Rightarrow> 's \<Rightarrow> (error + 'resp) \<times> 's"

record 's RuntimeServiceClient =
  RunPodSandbox_rpc :: "('s, RunPodSandboxRequest, RunPodSandboxResponse) rpc"
  StopPodSandbox_rpc :: "('s, StopPodSandboxRequest, StopPodSandboxResponse) rpc"
  RemovePodSandbox_rpc :: "('s, RemovePodSandboxRequest, RemovePodSandboxResponse) rpc"
  PodSandboxStatus_rpc :: "('s, PodSandboxStatusRequest, PodSandboxStatusResponse) rpc"
  ListPodSandbox_rpc :: "('s, ListPodSandboxRequest, ListPodSandboxResponse) rpc"

section \<open>Facts about the messages\<close>

lemma State_String_inj: "State_String a = State_String b \<Longrightarrow> a = b"
  by (cases a; cases b) simp_all

lemma LF_notin_State_String [simp]: "LF \<notin> set (State_String s)"
  by (cases s) (simp_all add: LF_def)

text \<open>
  The states form an enumeration; \<open>State_of_name\<close> searches it for the state with a
  given name, so that a state can be read back from the line that shows it.
\<close>

instantiation PodSandBoxState :: enum
begin

definition enum_PodSandBoxState :: "PodSandBoxState list" where
  "enum_PodSandBoxState = [UNKNOWN, READY, NOT_READY]"

definition enum_all_PodSandBoxState :: "(PodSandBoxState \<Rightarrow> bool) \<Rightarrow> bool" where
  "enum_all_PodSandBoxState P \<longleftrightarrow> P UNKNOWN \<and> P READY \<and> P NOT_READY"

definition enum_ex_PodSandBoxState :: "(PodSandBoxState \<Rightarrow> bool) \<Rightarrow> bool" where
  "enum_ex_PodSandBoxState P \<longleftrightarrow> P UNKNOWN \<or> P READY \<or> P NOT_READY"

instance
proof
  have univ: "(UNIV :: PodSandBoxState set) = {UNKNOWN, READY, NOT_READY}"
    using PodSandBoxState.exhaust by auto
  show "(UNIV :: PodSandBoxState set) = set enum_class.enum"
    by (simp add: univ enum_PodSandBoxState_def)
  show "distinct (enum_class.enum :: PodSandBoxState list)"
    by (simp add: enum_PodSandBoxState_def)
  show "enum_class.enum_all P = Ball (UNIV :: PodSandBoxState set) P" for P
    by (simp add: univ enum_all_PodSandBoxState_def)
  show "enum_class.enum_ex P = Bex (UNIV :: PodSandBoxState set) P" for P
    by (simp add: univ enum_ex_PodSandBoxState_def)
qed

end

definition State_of_name :: "string \<Rightarrow> PodSandBoxState option" where
  "State_of_name x = find (\<lambda>s. State_String s = x) enum_class.enum"

lemma State_of_name_String [simp]: "State_of_name (State_String s) = Some s"
  by (cases s) (simp_all add: State_of_name_def enum_PodSandBoxState_def)

lemma State_of_name_Some: "State_of_name x = Some s \<longleftrightarrow> State_String s = x"
  by (cases s) (auto simp: State_of_name_def enum_PodSandBoxState_def split: if_splits)

text \<open>
  The summary of a status: the status without its network and Linux detail.
\<close>

definition summary_of :: "PodSandboxStatus_pb \<Rightarrow> PodSandbox" where
  "summary_of st = PodSandbox.truncate st"

lemma summary_of_simps [simp]:
  "Id (summary_of st) = Id st"
  "PodSandbox.Metadata (summary_of st) = PodSandbox.Metadata st"
  "State (summary_of st) = State st"
  "CreatedAt (summary_of st) = CreatedAt st"
  "PodSandbox.Labels (summary_of st) = PodSandbox.Labels st"
  "PodSandbox.Annotations (summary_of st) = PodSandbox.Annotations st"
  by (simp_all add: summary_of_def PodSandbox.truncate_def)

end
