(* ===== verification/Cli.thy ===== *)
theory Cli
  imports Go_Prelude
begin

text \<open>
  The part of the command-line framework (\<^verbatim>\<open>github.com/urfave/cli\<close>) that the commands
  of \<^verbatim>\<open>sandbox.go\<close> rely on: flag declarations with their default values, and the
  context an action receives, from which it reads a flag by name
  (\<^verbatim>\<open>context.String("id")\<close>, \<^verbatim>\<open>context.Bool("quiet")\<close>). Parsing of the argument vector
  is the framework's; the context holds its result, the values given on the command
  line by flag name. A flag that was not given has its declared default, a name that
  is not declared reads as the zero value.
\<close>

datatype Flag =
    StringFlag string string string
  | BoolFlag string string

fun flag_Name :: "Flag \<Rightarrow> string" where
  "flag_Name (StringFlag n v u) = n"
| "flag_Name (BoolFlag n u) = n"

text \<open>The text of a flag's default value.\<close>

fun flag_Value :: "Flag \<Rightarrow> string" where
  "flag_Value (StringFlag n v u) = v"
| "flag_Value (BoolFlag n u) = ''false''"

record Context =
  declared :: "Flag list"
  given :: "(string \<times> string) list"

definition lookup_flag :: "Context \<Rightarrow> string \<Rightarrow> string option" where
  "lookup_flag ctx name =
     (case find (\<lambda>f. flag_Name f = name) (declared ctx) of
        None \<Rightarrow> None
      | Some f \<Rightarrow> (case map_of (given ctx) name of None \<Rightarrow> Some (flag_Value f) | Some v \<Rightarrow> Some v))"

definition ctx_String :: "Context \<Rightarrow> string \<Rightarrow> string" where
  "ctx_String ctx name = (case lookup_flag ctx name of None \<Rightarrow> [] | Some v \<Rightarrow> v)"

definition ctx_Bool :: "Context \<Rightarrow> string \<Rightarrow> bool" where
  "ctx_Bool ctx name = (lookup_flag ctx name = Some ''true'')"

lemma lookup_flag_not_given:
  "map_of (given ctx) name = None \<Longrightarrow>
   lookup_flag ctx name = map_option flag_Value (find (\<lambda>f. flag_Name f = name) (declared ctx))"
  by (simp add: lookup_flag_def split: option.splits)

lemma lookup_flag_given:
  "map_of (given ctx) name = Some v \<Longrightarrow> find (\<lambda>f. flag_Name f = name) (declared ctx) = Some f \<Longrightarrow>
   lookup_flag ctx name = Some v"
  by (simp add: lookup_flag_def)

lemma ctx_String_undeclared:
  "name \<notin> flag_Name ` set (declared ctx) \<Longrightarrow> ctx_String ctx name = []"
proof -
  assume "name \<notin> flag_Name ` set (declared ctx)"
  then have "find (\<lambda>f. flag_Name f = name) (declared ctx) = None"
    by (auto simp: find_None_iff)
  then show ?thesis by (simp add: ctx_String_def lookup_flag_def)
qed

end
