(* ===== verification/World.thy ===== *)
theory World
  imports Runtime_API Cli
begin

text \<open>
  Everything outside the program that a run of the client reads or changes, as one
  record, and the primitive operations on it. The fields:
  \<^item> \<open>stdout\<close>: the bytes written to standard output so far;
  \<^item> \<open>server\<close>, \<open>remote\<close>: the state of the runtime service and its behaviour (what a
    client made by \<^verbatim>\<open>pb.NewRuntimeServiceClient\<close> reaches); \<open>rpc_calls\<close> counts the
    requests issued;
  \<^item> \<open>dial\<close>, \<open>open_conns\<close>: the error \<^verbatim>\<open>getClientConnection\<close> would fail with, if any, and
    the number of connections that are open;
  \<^item> \<open>files\<close>: what \<^verbatim>\<open>loadPodSandboxConfig\<close> yields for a path, an error for a missing
    or malformed file;
  \<^item> \<open>map_order\<close>, \<open>ranges\<close>: the order in which the Go runtime visits the entries of a
    map in the \<open>k\<close>-th \<^verbatim>\<open>range\<close> statement of the run, and the number of such statements
    executed so far. Go leaves that order unspecified; a world is \<open>valid_map_order\<close> when
    every order it chooses lists each entry of the map exactly once;
  \<^item> \<open>local_time\<close>: the text of \<^verbatim>\<open>time.Unix(sec, 0)\<close> in the local time zone.
  The lemmas run each primitive on a world, merge adjacent print statements
  (\<open>print_fusion\<close>), and lift the frame relations through the primitives: \<open>stdout_grows\<close>
  (the output is only appended to), \<open>env_same\<close> (the environment of the run is left
  alone), \<open>prints_only\<close> (so is the service) and \<open>calls_at_most\<close> (the number of
  requests). The last section compares the orders in which a map can be visited.
  The helpers \<^verbatim>\<open>getClientConnection\<close> and \<^verbatim>\<open>loadPodSandboxConfig\<close> belong to package main
  but are defined outside \<^verbatim>\<open>sandbox.go\<close>; they are modelled by their contract in
  sections 4.1 and 7 of the specification.
\<close>

section \<open>The world\<close>

record 's world =
  stdout :: string
  server :: 's
  remote :: "'s RuntimeServiceClient"
  rpc_calls :: nat
  dial :: "error option"
  open_conns :: nat
  files :: "string \<Rightarrow> error + PodSandboxConfig"
  ranges :: nat
  map_order :: "nat \<Rightarrow> gomap \<Rightarrow> (string \<times> string) list"
  local_time :: "64 word \<Rightarrow> string"

type_synonym ('s, 'a) io = "('s world, 'a) prog"

named_theorems print_fusion \<open>equations that merge adjacent print statements into one\<close>

definition range_order :: "gomap \<Rightarrow> (string \<times> string) list \<Rightarrow> bool" where
  "range_order m kvs \<longleftrightarrow> distinct (map fst kvs) \<and> fmap_of_list kvs = m"

definition valid_map_order :: "'s world \<Rightarrow> bool" where
  "valid_map_order w \<longleftrightarrow> (\<forall>k m. range_order m (map_order w k m))"

section \<open>Primitive operations\<close>

definition gets :: "('w \<Rightarrow> 'a) \<Rightarrow> ('w, 'a) prog" where
  "gets f = (\<lambda>w. (Inr (f w), w))"

definition Print :: "string \<Rightarrow> ('s, unit) io" where
  "Print s = modify (\<lambda>w. w\<lparr>stdout := stdout w @ s\<rparr>)"

definition Printf :: "piece list \<Rightarrow> ('s, unit) io" where
  "Printf ps = Print (Sprintf ps)"

definition Println :: "string \<Rightarrow> ('s, unit) io" where
  "Println s = Print (Sprintln s)"

text \<open>
  \<^verbatim>\<open>time.Unix(sec, 0)\<close>: the time value is represented by the text its \<^verbatim>\<open>String()\<close>
  method gives in the local zone of the process.
\<close>

definition Unix :: "64 word \<Rightarrow> ('s, string) io" where
  "Unix sec = gets (\<lambda>w. local_time w sec)"

text \<open>\<^verbatim>\<open>for k, v := range m { body }\<close> over a map.\<close>

definition range_map :: "gomap \<Rightarrow> (string \<Rightarrow> string \<Rightarrow> ('s, unit) io) \<Rightarrow> ('s, unit) io" where
  "range_map m body =
     bind (gets (\<lambda>w. map_order w (ranges w) m)) (\<lambda>kvs.
     seq (modify (\<lambda>w. w\<lparr>ranges := Suc (ranges w)\<rparr>))
         (for_each kvs (\<lambda>(k, v). body k v)))"

text \<open>One request to the service: a method of the client applied to a request.\<close>

definition call :: "('s, 'req, 'resp) rpc \<Rightarrow> 'req \<Rightarrow> ('s, 'resp) io" where
  "call method req =
     (\<lambda>w. case method req (server w) of
        (Inl e, s') \<Rightarrow> (Inl (Err e), w\<lparr>server := s', rpc_calls := Suc (rpc_calls w)\<rparr>)
      | (Inr r, s') \<Rightarrow> (Inr r, w\<lparr>server := s', rpc_calls := Suc (rpc_calls w)\<rparr>))"

definition loadPodSandboxConfig :: "string \<Rightarrow> ('s, PodSandboxConfig) io" where
  "loadPodSandboxConfig path =
     (\<lambda>w. case files w path of Inl e \<Rightarrow> (Inl (Err e), w) | Inr config \<Rightarrow> (Inr config, w))"

datatype ClientConn = ClientConn

definition getClientConnection :: "Context \<Rightarrow> ('s, ClientConn) io" where
  "getClientConnection ctx =
     (\<lambda>w. case dial w of
        Some e \<Rightarrow> (Inl (Err e), w)
      | None \<Rightarrow> (Inr ClientConn, w\<lparr>open_conns := Suc (open_conns w)\<rparr>))"

definition Close :: "ClientConn \<Rightarrow> 's world \<Rightarrow> 's world" where
  "Close conn w = w\<lparr>open_conns := open_conns w - 1\<rparr>"

definition NewRuntimeServiceClient :: "ClientConn \<Rightarrow> ('s, 's RuntimeServiceClient) io" where
  "NewRuntimeServiceClient conn = gets remote"

section \<open>Running the primitives\<close>

lemma gets_apply [prog_simps]: "gets f w = (Inr (f w), w)"
  by (simp add: gets_def)

lemma Print_apply [prog_simps]: "Print s w = (Inr (), w\<lparr>stdout := stdout w @ s\<rparr>)"
  by (simp add: Print_def modify_def)

lemma Printf_apply [prog_simps]: "Printf ps w = (Inr (), w\<lparr>stdout := stdout w @ Sprintf ps\<rparr>)"
  by (simp add: Printf_def Print_apply)

lemma Println_apply [prog_simps]: "Println s w = (Inr (), w\<lparr>stdout := stdout w @ s @ [LF]\<rparr>)"
  by (simp add: Println_def Sprintln_def Print_apply)

lemma Unix_apply [prog_simps]: "Unix sec w = (Inr (local_time w sec), w)"
  by (simp add: Unix_def gets_def)

lemma call_apply [prog_simps]:
  "call method req w =
     (case fst (method req (server w)) of Inl e \<Rightarrow> Inl (Err e) | Inr r \<Rightarrow> Inr r,
      w\<lparr>server := snd (method req (server w)), rpc_calls := Suc (rpc_calls w)\<rparr>)"
  by (simp add: call_def split: prod.splits sum.splits)

lemma loadPodSandboxConfig_apply [prog_simps]:
  "loadPodSandboxConfig path w =
     (case files w path of Inl e \<Rightarrow> Inl (Err e) | Inr config \<Rightarrow> Inr config, w)"
  by (simp add: loadPodSandboxConfig_def split: sum.splits)

lemma getClientConnection_apply [prog_simps]:
  "getClientConnection ctx w =
     (case dial w of
        Some e \<Rightarrow> (Inl (Err e), w)
      | None \<Rightarrow> (Inr ClientConn, w\<lparr>open_conns := Suc (open_conns w)\<rparr>))"
  by (simp add: getClientConnection_def)

lemma NewRuntimeServiceClient_apply [prog_simps]:
  "NewRuntimeServiceClient conn w = (Inr (remote w), w)"
  by (simp add: NewRuntimeServiceClient_def gets_def)

lemma range_map_apply [prog_simps]:
  "range_map m body w =
     for_each (map_order w (ranges w) m) (\<lambda>(k, v). body k v) (w\<lparr>ranges := Suc (ranges w)\<rparr>)"
  by (simp add: range_map_def bind_apply seq_apply gets_def modify_def)

lemma call_bind_apply:
  "bind (call method req) f w =
     (case method req (server w) of
        (Inl e, s') \<Rightarrow> (Inl (Err e), w\<lparr>server := s', rpc_calls := Suc (rpc_calls w)\<rparr>)
      | (Inr r, s') \<Rightarrow> f r (w\<lparr>server := s', rpc_calls := Suc (rpc_calls w)\<rparr>))"
  by (simp add: bind_apply call_def split: prod.splits sum.splits)

section \<open>Adjacent print statements merge\<close>

lemma Printf_eq_Print [print_fusion]: "Printf ps = Print (Sprintf ps)"
  by (simp add: Printf_def)

lemma Println_eq_Print [print_fusion]: "Println s = Print (s @ [LF])"
  by (simp add: Println_def Sprintln_def)

lemma seq_Print_Print [print_fusion]: "seq (Print a) (Print b) = Print (a @ b)"
  by (rule ext) (simp add: seq_apply Print_apply)

lemma Print_Nil: "Print [] = ret ()"
  by (rule ext) (simp add: ret_apply Print_apply)

lemma ret_eq_Print [print_fusion]: "ret () = Print []"
  by (simp add: Print_Nil)

lemma if_set_Print [print_fusion]:
  "if_set p (\<lambda>x. Print (g x)) = Print (case p of None \<Rightarrow> [] | Some x \<Rightarrow> g x)"
  by (cases p) (simp_all add: Print_Nil)

lemma for_each_Print [print_fusion]: "for_each xs (\<lambda>x. Print (g x)) = Print (concat (map g xs))"
  by (induction xs) (simp_all add: Print_Nil seq_Print_Print)

lemma world_stdout_idem [simp]: "w\<lparr>stdout := stdout w @ []\<rparr> = w"
  by simp

section \<open>Frames: what a run leaves unchanged\<close>

definition unchanged :: "('w \<Rightarrow> 'a) \<Rightarrow> 'w \<Rightarrow> 'w \<Rightarrow> bool" where
  "unchanged f w w' \<longleftrightarrow> f w' = f w"

definition stdout_grows :: "'s world \<Rightarrow> 's world \<Rightarrow> bool" where
  "stdout_grows w w' \<longleftrightarrow> prefix (stdout w) (stdout w')"

lemma reflp_unchanged [simp, intro]: "reflp (unchanged f)"
  by (simp add: reflp_def unchanged_def)

lemma transp_unchanged [simp, intro]: "transp (unchanged f)"
  by (simp add: transp_def unchanged_def)

lemma reflp_stdout_grows [simp, intro]: "reflp stdout_grows"
  by (simp add: reflp_def stdout_grows_def)

lemma transp_stdout_grows [simp, intro]: "transp stdout_grows"
  by (auto simp: transp_def stdout_grows_def)

lemma steps_in_gets [preserves_intros]: "reflp R \<Longrightarrow> steps_in R (gets f)"
  by (simp add: steps_in_def gets_def reflpD)

lemma steps_in_Unix [preserves_intros]: "reflp R \<Longrightarrow> steps_in R (Unix sec)"
  by (simp add: Unix_def steps_in_gets)

lemma steps_in_NewRuntimeServiceClient [preserves_intros]:
  "reflp R \<Longrightarrow> steps_in R (NewRuntimeServiceClient conn)"
  by (simp add: NewRuntimeServiceClient_def steps_in_gets)

lemma steps_in_loadPodSandboxConfig [preserves_intros]:
  "reflp R \<Longrightarrow> steps_in R (loadPodSandboxConfig path)"
  by (simp add: steps_in_def loadPodSandboxConfig_apply reflpD)

text \<open>Printing appends to the standard output and changes nothing else.\<close>

lemma stdout_grows_Print [preserves_intros]: "steps_in stdout_grows (Print s)"
  by (simp add: steps_in_def stdout_grows_def Print_apply)

lemma stdout_grows_Printf [preserves_intros]: "steps_in stdout_grows (Printf ps)"
  by (simp add: Printf_def stdout_grows_Print)

lemma stdout_grows_Println [preserves_intros]: "steps_in stdout_grows (Println s)"
  by (simp add: Println_def stdout_grows_Print)

lemma stdout_grows_call [preserves_intros]: "steps_in stdout_grows (call method req)"
  by (simp add: steps_in_def stdout_grows_def call_apply)

lemma stdout_grows_range_map [preserves_intros]:
  assumes "\<And>k v. steps_in stdout_grows (body k v)"
  shows "steps_in stdout_grows (range_map m body)"
proof (rule steps_inI)
  fix w :: "'a world"
  let ?w = "w\<lparr>ranges := Suc (ranges w)\<rparr>"
  have "steps_in stdout_grows (for_each (map_order w (ranges w) m) (\<lambda>(k, v). body k v))"
    by (intro steps_in_for_each) (auto simp: assms split: prod.splits)
  then have "stdout_grows ?w (snd (range_map m body w))"
    by (simp add: range_map_apply steps_inD)
  then show "stdout_grows w (snd (range_map m body w))"
    by (simp add: stdout_grows_def)
qed

lemma stdout_grows_getClientConnection [preserves_intros]:
  "steps_in stdout_grows (getClientConnection ctx)"
  by (simp add: steps_in_def stdout_grows_def getClientConnection_apply split: option.splits)

lemma steps_in_case_prod [preserves_intros]:
  "(\<And>a b. steps_in R (f a b)) \<Longrightarrow> steps_in R (case_prod f p)"
  by (cases p) simp

text \<open>
  The environment of a run: what no statement of \<^verbatim>\<open>sandbox.go\<close> but the opening and
  closing of the connection changes. \<open>prints_only\<close> adds the service: a run that only
  prints leaves the service state and the request counter alone.
\<close>

definition env_same :: "'s world \<Rightarrow> 's world \<Rightarrow> bool" where
  "env_same w w' \<longleftrightarrow>
     open_conns w' = open_conns w \<and> dial w' = dial w \<and> files w' = files w \<and>
     remote w' = remote w \<and> local_time w' = local_time w \<and> map_order w' = map_order w"

definition prints_only :: "'s world \<Rightarrow> 's world \<Rightarrow> bool" where
  "prints_only w w' \<longleftrightarrow> env_same w w' \<and> server w' = server w \<and> rpc_calls w' = rpc_calls w"

text \<open>\<open>calls_at_most n\<close>: a run issues at most \<open>n\<close> requests.\<close>

definition calls_at_most :: "nat \<Rightarrow> 's world \<Rightarrow> 's world \<Rightarrow> bool" where
  "calls_at_most n w w' \<longleftrightarrow> rpc_calls w' \<le> rpc_calls w + n"

lemma reflp_env_same [simp, intro]: "reflp env_same"
  by (simp add: reflp_def env_same_def)

lemma transp_env_same [simp, intro]: "transp env_same"
  by (simp add: transp_def env_same_def)

lemma reflp_prints_only [simp, intro]: "reflp prints_only"
  by (simp add: reflp_def prints_only_def env_same_def)

lemma transp_prints_only [simp, intro]: "transp prints_only"
  by (simp add: transp_def prints_only_def env_same_def)

lemma prints_only_Print [preserves_intros]: "steps_in prints_only (Print s)"
  by (simp add: steps_in_def prints_only_def env_same_def Print_apply)

lemma prints_only_Printf [preserves_intros]: "steps_in prints_only (Printf ps)"
  by (simp add: Printf_def prints_only_Print)

lemma prints_only_Println [preserves_intros]: "steps_in prints_only (Println s)"
  by (simp add: Println_def prints_only_Print)

lemma steps_in_weaken: "steps_in R m \<Longrightarrow> (\<And>w w'. R w w' \<Longrightarrow> S w w') \<Longrightarrow> steps_in S m"
  by (simp add: steps_in_def)

lemma env_same_Print [preserves_intros]: "steps_in env_same (Print s)"
  by (rule steps_in_weaken [OF prints_only_Print]) (simp add: prints_only_def)

lemma env_same_Printf [preserves_intros]: "steps_in env_same (Printf ps)"
  by (simp add: Printf_def env_same_Print)

lemma env_same_Println [preserves_intros]: "steps_in env_same (Println s)"
  by (simp add: Println_def env_same_Print)

lemma env_same_call [preserves_intros]: "steps_in env_same (call method req)"
  by (simp add: steps_in_def env_same_def call_apply)

lemma steps_in_range_map:
  assumes body: "\<And>k v. steps_in R (body k v)" and "reflp R" and "transp R"
    and bump: "\<And>w. R w (w\<lparr>ranges := Suc (ranges w)\<rparr>)"
  shows "steps_in R (range_map m body)"
proof (rule steps_inI)
  fix w :: "'a world"
  let ?w = "w\<lparr>ranges := Suc (ranges w)\<rparr>"
  have "steps_in R (for_each (map_order w (ranges w) m) (\<lambda>(k, v). body k v))"
    by (intro steps_in_for_each steps_in_case_prod body assms)
  then have "R ?w (snd (range_map m body w))"
    by (simp add: range_map_apply steps_inD)
  with bump [of w] \<open>transp R\<close> show "R w (snd (range_map m body w))"
    by (blast dest: transpD)
qed

lemma env_same_range_map [preserves_intros]:
  "(\<And>k v. steps_in env_same (body k v)) \<Longrightarrow> steps_in env_same (range_map m body)"
  by (rule steps_in_range_map) (simp_all add: env_same_def)

lemma prints_only_range_map [preserves_intros]:
  "(\<And>k v. steps_in prints_only (body k v)) \<Longrightarrow> steps_in prints_only (range_map m body)"
  by (rule steps_in_range_map) (simp_all add: prints_only_def env_same_def)

lemmas frame_intros =
  preserves_intros reflp_env_same transp_env_same reflp_prints_only transp_prints_only
  reflp_stdout_grows transp_stdout_grows reflp_unchanged transp_unchanged

section \<open>Orders of a map\<close>

text \<open>
  Any two orders that list each entry of a map once are permutations of each other;
  sorting by key is one of them.
\<close>

text \<open>The text a run appends to the standard output.\<close>

definition output_of :: "('s, 'a) io \<Rightarrow> 's world \<Rightarrow> string" where
  "output_of m w = drop (length (stdout w)) (stdout (snd (m w)))"

lemma range_order_sorted_list [simp]: "range_order m (sorted_list_of_fmap m)"
proof -
  have "map fst (sorted_list_of_fmap m) = sorted_list_of_fset (fmdom m)"
    by (simp add: sorted_list_of_fmap_def comp_def)
  moreover have "fmap_of_list (sorted_list_of_fmap m) = m"
    by (rule fmap_ext) (simp add: fmlookup_of_list)
  ultimately show ?thesis
    by (simp add: range_order_def sorted_list_of_fset.rep_eq)
qed

lemma range_order_set:
  assumes "range_order m kvs"
  shows "set kvs = {(k, v). fmlookup m k = Some v}"
proof -
  from assms have d: "distinct (map fst kvs)" and m: "fmap_of_list kvs = m"
    by (simp_all add: range_order_def)
  from m have "fmlookup m = map_of kvs"
    by (auto simp: fmlookup_of_list)
  with d show ?thesis
    by (auto simp: map_of_eq_Some_iff)
qed

lemma range_order_mset:
  assumes "range_order m kvs" and "range_order m kvs'"
  shows "mset kvs = mset kvs'"
proof -
  from assms have "distinct kvs" "distinct kvs'"
    by (auto simp: range_order_def distinct_map)
  moreover from assms have "set kvs = set kvs'"
    by (simp add: range_order_set)
  ultimately show ?thesis
    by (simp add: set_eq_iff_mset_eq_distinct)
qed

lemma valid_map_order_mset:
  "valid_map_order w \<Longrightarrow> mset (map_order w k m) = mset (sorted_list_of_fmap m)"
  by (rule range_order_mset [of m]) (simp_all add: valid_map_order_def)

lemma valid_map_order_empty: "valid_map_order w \<Longrightarrow> map_order w k fmempty = []"
  using range_order_set [of fmempty "map_order w k fmempty"] by (simp add: valid_map_order_def)

end
