(* ===== verification/Stand_In.thy ===== *)
theory Stand_In
  imports World
begin

text \<open>
  A stand-in for the runtime service, as section 8 of the specification asks for to
  test the client: its state is the list of the requests it has received, in order,
  and it answers each method with a reply fixed in advance. With it the requests a
  run issues can be read off the final state, and counted. The theory also holds a
  world built on the stand-in (\<open>test_world\<close>), with one configuration file, a map
  order that sorts the entries by key and a clock that prints the seconds, and the
  messages the concrete instances of the theorems are stated on.
\<close>

section \<open>The stand-in\<close>

datatype request =
    Run_req RunPodSandboxRequest
  | Stop_req StopPodSandboxRequest
  | Remove_req RemovePodSandboxRequest
  | Status_req PodSandboxStatusRequest
  | List_req ListPodSandboxRequest

record replies =
  on_run :: "error + RunPodSandboxResponse"
  on_stop :: "error + StopPodSandboxResponse"
  on_remove :: "error + RemovePodSandboxResponse"
  on_status :: "error + PodSandboxStatusResponse"
  on_list :: "error + ListPodSandboxResponse"

definition answer :: "('req \<Rightarrow> request) \<Rightarrow> error + 'resp \<Rightarrow> (request list, 'req, 'resp) rpc" where
  "answer tag reply req log = (reply, log @ [tag req])"

definition stand_in :: "replies \<Rightarrow> request list RuntimeServiceClient" where
  "stand_in rs =
     \<lparr>RunPodSandbox_rpc = answer Run_req (on_run rs),
      StopPodSandbox_rpc = answer Stop_req (on_stop rs),
      RemovePodSandbox_rpc = answer Remove_req (on_remove rs),
      PodSandboxStatus_rpc = answer Status_req (on_status rs),
      ListPodSandbox_rpc = answer List_req (on_list rs)\<rparr>"

lemma stand_in_simps [simp]:
  "RunPodSandbox_rpc (stand_in rs) req log = (on_run rs, log @ [Run_req req])"
  "StopPodSandbox_rpc (stand_in rs) sreq log = (on_stop rs, log @ [Stop_req sreq])"
  "RemovePodSandbox_rpc (stand_in rs) rreq log = (on_remove rs, log @ [Remove_req rreq])"
  "PodSandboxStatus_rpc (stand_in rs) preq log = (on_status rs, log @ [Status_req preq])"
  "ListPodSandbox_rpc (stand_in rs) lreq log = (on_list rs, log @ [List_req lreq])"
  by (simp_all add: stand_in_def answer_def)

section \<open>Test data\<close>

definition test_metadata :: PodSandboxMetadata where
  "test_metadata = \<lparr>Name = Some ''A'', Uid = Some ''u-1'', Namespace = Some ''default'',
     Attempt = Some 1\<rparr>"

definition test_labels :: gomap where
  "test_labels = fmap_of_list [(''tier'', ''front''), (''app'', ''web'')]"

definition test_config :: PodSandboxConfig where
  "test_config =
     \<lparr>PodSandboxConfig.Metadata = Some test_metadata, Hostname = Some ''host'',
      LogDirectory = None, PodSandboxConfig.Labels = Some test_labels,
      PodSandboxConfig.Annotations = None\<rparr>"

text \<open>A configuration file without the metadata section.\<close>

definition bare_config :: PodSandboxConfig where
  "bare_config =
     \<lparr>PodSandboxConfig.Metadata = None, Hostname = None, LogDirectory = None,
      PodSandboxConfig.Labels = None, PodSandboxConfig.Annotations = None\<rparr>"

definition test_files :: "string \<Rightarrow> error + PodSandboxConfig" where
  "test_files path =
     (if path = ''config.json'' then Inr test_config
      else if path = ''bare.json'' then Inr bare_config
      else Inl (ConfigError (''open '' @ path @ '': no such file or directory'')))"

definition test_clock :: "64 word \<Rightarrow> string" where
  "test_clock sec = decimal (unat sec) @ '' s''"

definition test_world :: "replies \<Rightarrow> request list world" where
  "test_world rs =
     \<lparr>stdout = [], server = [], remote = stand_in rs, rpc_calls = 0, dial = None,
      open_conns = 0, files = test_files, ranges = 0,
      map_order = (\<lambda>k. sorted_list_of_fmap), local_time = test_clock\<rparr>"

text \<open>The messages of the service: a full status, and summaries for a list.\<close>

definition test_status :: PodSandboxStatus_pb where
  "test_status =
     \<lparr>Id = Some ''p1'', Metadata = Some test_metadata, State = Some READY,
      CreatedAt = Some 0, Labels = Some test_labels, Annotations = None,
      Network = Some \<lparr>Ip = Some ''10.0.0.2''\<rparr>,
      Linux = Some \<lparr>Namespaces = Some \<lparr>Namespace_pb.Network = Some ''/proc/7/ns/net''\<rparr>\<rparr>\<rparr>"

definition test_pod :: "string \<Rightarrow> PodSandbox" where
  "test_pod x =
     \<lparr>Id = Some x, Metadata = None, State = Some READY, CreatedAt = Some 0, Labels = None,
      Annotations = None\<rparr>"

definition ok_replies :: replies where
  "ok_replies =
     \<lparr>on_run = Inr \<lparr>PodSandboxId = Some ''p1''\<rparr>,
      on_stop = Inr StopPodSandboxResponse,
      on_remove = Inr RemovePodSandboxResponse,
      on_status = Inr \<lparr>Status = Some test_status\<rparr>,
      on_list = Inr \<lparr>Items = [test_pod ''s1'', test_pod ''s2'']\<rparr>\<rparr>"

definition failing_replies :: replies where
  "failing_replies =
     \<lparr>on_run = Inl (RpcError ''rpc error: sandbox exists''),
      on_stop = Inl (RpcError ''rpc error: no such sandbox''),
      on_remove = Inl (RpcError ''rpc error: no such sandbox''),
      on_status = Inl (RpcError ''rpc error: no such sandbox''),
      on_list = Inl (RpcError ''rpc error: unavailable'')\<rparr>"

lemma test_labels_sorted [simp]:
  "sorted_list_of_fmap test_labels = [(''app'', ''web''), (''tier'', ''front'')]"
  unfolding test_labels_def by code_simp

lemma test_world_simps [simp]:
  "stdout (test_world rs) = []"
  "server (test_world rs) = []"
  "remote (test_world rs) = stand_in rs"
  "rpc_calls (test_world rs) = 0"
  "dial (test_world rs) = None"
  "open_conns (test_world rs) = 0"
  "files (test_world rs) = test_files"
  "ranges (test_world rs) = 0"
  "map_order (test_world rs) k = sorted_list_of_fmap"
  "local_time (test_world rs) = test_clock"
  by (simp_all add: test_world_def)

lemma valid_map_order_test_world [simp]: "valid_map_order (test_world rs)"
  by (simp add: valid_map_order_def)

lemma test_clock_0 [simp]: "test_clock 0 = ''0 s''"
  by (simp add: test_clock_def digit_char_def)

end
