(* ===== verification/Request_Spec.thy ===== *)
theory Request_Spec
  imports Stand_In
begin

text \<open>
  The request builder of section 4.1 of the specification, as pure functions: the
  configuration a create request carries (\<open>named_config\<close>), the value of a flag with
  its default (\<open>arg\<close>), and the request a command line gives rise to, if any
  (\<open>build_request\<close>). Theory \<open>Sandbox\<close> shows that the operations send these requests,
  theory \<open>Session\<close> that whole command lines do.
\<close>

text \<open>
  The name override: a non-empty name replaces the name in the metadata, the empty
  name leaves the configuration as loaded. With a name and no metadata there is no
  configuration to send.
\<close>

definition named_config :: "string \<Rightarrow> PodSandboxConfig \<Rightarrow> PodSandboxConfig option" where
  "named_config name config =
     (if name = [] then Some config
      else map_option (\<lambda>md. config\<lparr>PodSandboxConfig.Metadata := Some (md\<lparr>Name := Some name\<rparr>)\<rparr>)
             (PodSandboxConfig.Metadata config))"

definition arg :: "(string \<times> string) list \<Rightarrow> string \<Rightarrow> string \<Rightarrow> string" where
  "arg args name dflt = (case map_of args name of None \<Rightarrow> dflt | Some v \<Rightarrow> v)"

definition build_request ::
  "(string \<Rightarrow> error + PodSandboxConfig) \<Rightarrow> string \<Rightarrow> (string \<times> string) list \<Rightarrow> request option" where
  "build_request fs name args =
     (if name = ''create'' then
        (case fs (arg args ''config'' ''config.json'') of
           Inl e \<Rightarrow> None
         | Inr config \<Rightarrow>
             map_option (\<lambda>c. Run_req \<lparr>Config = Some c\<rparr>) (named_config (arg args ''name'' []) config))
      else if name = ''stop'' then
        (if arg args ''id'' [] = [] then None
         else Some (Stop_req \<lparr>Stop_PodSandboxId = Some (arg args ''id'' [])\<rparr>))
      else if name = ''remove'' then
        (if arg args ''id'' [] = [] then None
         else Some (Remove_req \<lparr>Remove_PodSandboxId = Some (arg args ''id'' [])\<rparr>))
      else if name = ''status'' then
        (if arg args ''id'' [] = [] then None
         else Some (Status_req \<lparr>Status_PodSandboxId = Some (arg args ''id'' [])\<rparr>))
      else if name = ''list'' then Some (List_req \<lparr>Filter = None\<rparr>)
      else None)"

definition sent :: "request option \<Rightarrow> request list" where
  "sent q = (case q of None \<Rightarrow> [] | Some x \<Rightarrow> [x])"

lemma sent_simps [simp]: "sent None = []" "sent (Some q) = [q]"
  by (simp_all add: sent_def)

lemma named_config_empty [simp]: "named_config [] config = Some config"
  by (simp add: named_config_def)

lemma named_config_keeps_fields:
  "named_config name config = Some c \<Longrightarrow>
   Hostname c = Hostname config \<and> LogDirectory c = LogDirectory config \<and>
   PodSandboxConfig.Labels c = PodSandboxConfig.Labels config \<and>
   PodSandboxConfig.Annotations c = PodSandboxConfig.Annotations config"
  by (auto simp: named_config_def split: if_splits)

section \<open>Well-formed requests\<close>

text \<open>
  What the contract of the service requires of a request (section 6 of the
  specification): a create request carries a configuration, a stop, remove or status
  request carries an identifier that is not empty, a list request carries no filter.
  Every request of \<open>build_request\<close> is of this kind.
\<close>

fun wf_request :: "request \<Rightarrow> bool" where
  "wf_request (Run_req r) \<longleftrightarrow> Config r \<noteq> None"
| "wf_request (Stop_req r) \<longleftrightarrow> (\<exists>x. Stop_PodSandboxId r = Some x \<and> x \<noteq> [])"
| "wf_request (Remove_req r) \<longleftrightarrow> (\<exists>x. Remove_PodSandboxId r = Some x \<and> x \<noteq> [])"
| "wf_request (Status_req r) \<longleftrightarrow> (\<exists>x. Status_PodSandboxId r = Some x \<and> x \<noteq> [])"
| "wf_request (List_req r) \<longleftrightarrow> Filter r = None"

lemma wf_sent_Run_req [simp]:
  "list_all wf_request (sent (map_option (\<lambda>c. Run_req \<lparr>Config = Some c\<rparr>) x))"
  by (cases x) simp_all

lemma wf_build_request: "list_all wf_request (sent (build_request fs name args))"
  by (simp add: build_request_def split: sum.split)

end
