(* ===== verification/Render_Spec.thy ===== *)
theory Render_Spec
  imports Runtime_API
begin

text \<open>
  The output the client promises for a status and for a list of summaries, as pure
  functions from the response to the list of lines (section 4.2 of the specification,
  rules 1 to 7). The functions know nothing of printing, of panics or of the order in
  which statements run: an absent field contributes no line. They take as arguments
  what the environment decides: the text of a time stamp in the local zone, and the
  order in which the entries of each map are visited.
\<close>

section \<open>Lines of one record\<close>

definition field_line :: "string \<Rightarrow> string option \<Rightarrow> string list" where
  "field_line label v = (case v of None \<Rightarrow> [] | Some x \<Rightarrow> [label @ '': '' @ x])"

definition Metadata_lines :: "PodSandboxMetadata option \<Rightarrow> string list" where
  "Metadata_lines md =
     (case md of
        None \<Rightarrow> []
      | Some m \<Rightarrow>
          field_line ''Name'' (Name m) @
          field_line ''UID'' (Uid m) @
          field_line ''Namespace'' (Namespace m) @
          field_line ''Attempt'' (map_option (\<lambda>a. decimal (unat a)) (Attempt m)))"

definition entry_line :: "string \<times> string \<Rightarrow> string" where
  "entry_line kv = TAB # fst kv @ '' -> '' @ snd kv"

definition map_lines :: "string \<Rightarrow> (string \<times> string) list option \<Rightarrow> string list" where
  "map_lines header kvs = (case kvs of None \<Rightarrow> [] | Some es \<Rightarrow> header # map entry_line es)"

text \<open>The network namespace path of a status, if every level down to it is present.\<close>

definition netns_of :: "PodSandboxStatus_pb \<Rightarrow> string option" where
  "netns_of st =
     (case Linux st of
        None \<Rightarrow> None
      | Some l \<Rightarrow> (case Namespaces l of None \<Rightarrow> None | Some ns \<Rightarrow> Namespace_pb.Network ns))"

definition ip_of :: "PodSandboxStatus_pb \<Rightarrow> string option" where
  "ip_of st = (case Network st of None \<Rightarrow> None | Some n \<Rightarrow> Ip n)"

text \<open>
  The lines common to a summary and a status: identifier, metadata, state and creation
  time; and the two map sections that end both.
\<close>

definition head_lines :: "(64 word \<Rightarrow> string) \<Rightarrow> 'a PodSandbox_scheme \<Rightarrow> string list" where
  "head_lines lt pod =
     field_line ''ID'' (Id pod) @
     Metadata_lines (Metadata pod) @
     field_line ''Status'' (map_option State_String (State pod)) @
     field_line ''Created'' (map_option lt (CreatedAt pod))"

definition tail_lines ::
  "(string \<times> string) list option \<Rightarrow> (string \<times> string) list option \<Rightarrow> string list" where
  "tail_lines ls as = map_lines ''Labels:'' ls @ map_lines ''Annotations:'' as"

definition status_lines ::
  "(64 word \<Rightarrow> string) \<Rightarrow> (string \<times> string) list option \<Rightarrow> (string \<times> string) list option \<Rightarrow>
   PodSandboxStatus_pb \<Rightarrow> string list" where
  "status_lines lt ls as st =
     head_lines lt st @
     field_line ''Network namespace'' (netns_of st) @
     field_line ''IP Address'' (ip_of st) @
     tail_lines ls as"

definition summary_lines ::
  "(64 word \<Rightarrow> string) \<Rightarrow> (string \<times> string) list option \<Rightarrow> (string \<times> string) list option \<Rightarrow>
   PodSandbox \<Rightarrow> string list" where
  "summary_lines lt ls as pod = head_lines lt pod @ tail_lines ls as"

text \<open>
  The run visits the maps of a record in order, labels before annotations, and each
  visit of a map that is not nil is one \<^verbatim>\<open>range\<close> statement: the orders come from the
  environment as a function of the statement's number.
\<close>

definition n_ranges :: "gomap option \<Rightarrow> nat" where
  "n_ranges m = (case m of None \<Rightarrow> 0 | Some _ \<Rightarrow> 1)"

definition n_maps :: "'a PodSandbox_scheme \<Rightarrow> nat" where
  "n_maps pod = n_ranges (Labels pod) + n_ranges (Annotations pod)"

type_synonym order = "nat \<Rightarrow> gomap \<Rightarrow> (string \<times> string) list"

definition labels_at :: "order \<Rightarrow> nat \<Rightarrow> 'a PodSandbox_scheme \<Rightarrow> (string \<times> string) list option" where
  "labels_at ord k pod = map_option (ord k) (Labels pod)"

definition annotations_at :: "order \<Rightarrow> nat \<Rightarrow> 'a PodSandbox_scheme \<Rightarrow> (string \<times> string) list option" where
  "annotations_at ord k pod = map_option (ord (k + n_ranges (Labels pod))) (Annotations pod)"

text \<open>
  The lines of a list of summaries, given the lines of one summary: the summaries in
  the order of the response, the \<open>k\<close>-th \<^verbatim>\<open>range\<close> statement of the run taking its order
  from \<open>ord k\<close>.
\<close>

fun pods_lines ::
  "((string \<times> string) list option \<Rightarrow> (string \<times> string) list option \<Rightarrow> PodSandbox \<Rightarrow> string list) \<Rightarrow>
   order \<Rightarrow> nat \<Rightarrow> PodSandbox list \<Rightarrow> string list" where
  "pods_lines one ord k [] = []"
| "pods_lines one ord k (pod # pods) =
     one (labels_at ord k pod) (annotations_at ord k pod) pod @
     pods_lines one ord (k + n_maps pod) pods"

definition list_lines :: "(64 word \<Rightarrow> string) \<Rightarrow> order \<Rightarrow> nat \<Rightarrow> PodSandbox list \<Rightarrow> string list" where
  "list_lines lt = pods_lines (summary_lines lt)"

text \<open>Quiet mode: the identifier alone.\<close>

definition id_line :: "PodSandbox \<Rightarrow> string list" where
  "id_line pod = (case Id pod of None \<Rightarrow> [] | Some x \<Rightarrow> [x])"

definition quiet_lines :: "PodSandbox list \<Rightarrow> string list" where
  "quiet_lines pods = concat (map id_line pods)"

section \<open>Facts about the lines\<close>

lemma field_line_simps [simp]:
  "field_line label None = []"
  "field_line label (Some x) = [label @ '': '' @ x]"
  by (simp_all add: field_line_def)

lemma map_lines_simps [simp]:
  "map_lines header None = []"
  "map_lines header (Some es) = header # map entry_line es"
  by (simp_all add: map_lines_def)

lemma quiet_lines_simps [simp]:
  "quiet_lines [] = []"
  "quiet_lines (pod # pods) = id_line pod @ quiet_lines pods"
  by (simp_all add: quiet_lines_def)

lemma quiet_lines_append: "quiet_lines (ps @ qs) = quiet_lines ps @ quiet_lines qs"
  by (simp add: quiet_lines_def)

lemma length_field_line: "length (field_line label v) = (if v = None then 0 else 1)"
  by (cases v) simp_all

lemma length_Metadata_lines: "length (Metadata_lines md) \<le> 4"
  by (simp add: Metadata_lines_def length_field_line split: option.splits)

lemma length_map_lines:
  "length (map_lines header kvs) = (case kvs of None \<Rightarrow> 0 | Some es \<Rightarrow> Suc (length es))"
  by (cases kvs) simp_all

lemma pods_lines_cong:
  "(\<And>ls as pod. pod \<in> set pods \<Longrightarrow> one ls as pod = one' ls as pod) \<Longrightarrow>
   pods_lines one ord k pods = pods_lines one' ord k pods"
  by (induction pods arbitrary: k) simp_all

lemma pods_lines_append:
  "pods_lines one ord k (ps @ qs) =
     pods_lines one ord k ps @ pods_lines one ord (k + sum_list (map n_maps ps)) qs"
  by (induction ps arbitrary: k) (simp_all add: add.assoc)

lemma mset_map_lines_perm:
  "mset es = mset es' \<Longrightarrow> mset (map_lines header (Some es)) = mset (map_lines header (Some es'))"
  by (simp add: mset_concat_map_perm)

lemma head_lines_summary_of [simp]: "head_lines lt (summary_of st) = head_lines lt st"
  by (simp add: head_lines_def)

text \<open>
  A status without network and Linux detail renders as its summary does
  (section 3: a summary has the shape of a status without that detail).
\<close>

lemma status_lines_summary:
  "Linux st = None \<Longrightarrow> Network st = None \<Longrightarrow>
   status_lines lt ls as st = summary_lines lt ls as (summary_of st)"
  by (simp add: status_lines_def summary_lines_def netns_of_def ip_of_def)

end
