(* ===== verification/Sandbox.thy ===== *)
theory Sandbox
  imports Request_Spec Render_Spec
begin

text \<open>
  The five operations of \<^verbatim>\<open>src/cmd/client/sandbox.go\<close>: \<open>RunPodSandbox\<close>,
  \<open>StopPodSandbox\<close>, \<open>RemovePodSandbox\<close>, \<open>PodSandboxStatus\<close> and \<open>ListPodSandboxes\<close>,
  each a function from the client and the arguments to a program on the world. The
  print statements that the status and the list output share are definitions of their
  own (\<open>print_ID\<close>, \<open>print_Metadata\<close>, \<open>print_Created\<close>, \<open>print_map\<close>), used by both as
  the Go code repeats them. A dereference of a pointer the code does not test is
  \<open>deref\<close>, which panics on \<open>None\<close>.

  The lemmas run each group of statements on an arbitrary world and give the result
  on every branch: the outcome (return, error, panic) and the text appended to the
  standard output, in terms of the lines of theory \<open>Render_Spec\<close> and of the requests
  of theory \<open>Request_Spec\<close>. The frame lemmas say what a run leaves unchanged. The
  last two sections state the properties of the operations and of their output, each
  with an instance on the test world of theory \<open>Stand_In\<close>.
\<close>

section \<open>Print statements\<close>

definition print_ID :: "string option \<Rightarrow> ('s, unit) io" where
  "print_ID p = bind (deref p) (\<lambda>x. Printf [Lit ''ID: '', Verb_s (Str x), Lit [LF]])"

definition print_Metadata :: "PodSandboxMetadata option \<Rightarrow> ('s, unit) io" where
  "print_Metadata md =
     if_set md (\<lambda>m. block
       [if_set (Name m) (\<lambda>x. Printf [Lit ''Name: '', Verb_s (Str x), Lit [LF]]),
        if_set (Uid m) (\<lambda>x. Printf [Lit ''UID: '', Verb_s (Str x), Lit [LF]]),
        if_set (Namespace m) (\<lambda>x. Printf [Lit ''Namespace: '', Verb_s (Str x), Lit [LF]]),
        if_set (Attempt m) (\<lambda>x. Printf [Lit ''Attempt: '', Verb_v (Uint32 x), Lit [LF]])])"

definition print_State :: "PodSandBoxState option \<Rightarrow> ('s, unit) io" where
  "print_State s = Printf [Lit ''Status: '', Verb_s (Stringer (map_option State_String s)), Lit [LF]]"

definition print_Created :: "64 word \<Rightarrow> ('s, unit) io" where
  "print_Created sec =
     bind (Unix sec) (\<lambda>ctm. Printf [Lit ''Created: '', Verb_v (Stringer (Some ctm)), Lit [LF]])"

definition print_Linux :: "LinuxPodSandboxStatus \<Rightarrow> ('s, unit) io" where
  "print_Linux l =
     bind (deref (Namespaces l)) (\<lambda>ns.
     bind (deref (Namespace_pb.Network ns)) (\<lambda>x.
     Printf [Lit ''Network namespace: '', Verb_s (Str x), Lit [LF]]))"

definition print_Network :: "PodSandboxNetworkStatus \<Rightarrow> ('s, unit) io" where
  "print_Network n =
     bind (deref (Ip n)) (\<lambda>x. Printf [Lit ''IP Address: '', Verb_v (Str x), Lit [LF]])"

definition print_entry :: "string \<Rightarrow> string \<Rightarrow> ('s, unit) io" where
  "print_entry k v = Printf [Lit [TAB], Verb_s (Str k), Lit '' -> '', Verb_s (Str v), Lit [LF]]"

definition print_map :: "string \<Rightarrow> gomap option \<Rightarrow> ('s, unit) io" where
  "print_map header labels =
     if_set labels (\<lambda>m. seq (Println header) (range_map m print_entry))"

section \<open>The operations\<close>

definition override_name :: "string \<Rightarrow> PodSandboxConfig \<Rightarrow> ('s, PodSandboxConfig) io" where
  "override_name name config =
     (if name \<noteq> [] then
        bind (deref (PodSandboxConfig.Metadata config)) (\<lambda>md.
        ret (config\<lparr>PodSandboxConfig.Metadata := Some (md\<lparr>Name := Some name\<rparr>)\<rparr>))
      else ret config)"

definition RunPodSandbox :: "'s RuntimeServiceClient \<Rightarrow> string \<Rightarrow> string \<Rightarrow> ('s, unit) io" where
  "RunPodSandbox client path name =
     bind (loadPodSandboxConfig path) (\<lambda>config.
     bind (override_name name config) (\<lambda>config.
     bind (call (RunPodSandbox_rpc client) \<lparr>Config = Some config\<rparr>) (\<lambda>r.
     bind (deref (PodSandboxId r)) Println)))"

definition StopPodSandbox :: "'s RuntimeServiceClient \<Rightarrow> string \<Rightarrow> ('s, unit) io" where
  "StopPodSandbox client ID =
     (if ID = [] then return_err (ErrorString ''ID cannot be empty'')
      else bind (call (StopPodSandbox_rpc client) \<lparr>Stop_PodSandboxId = Some ID\<rparr>) (\<lambda>_.
           Println ID))"

definition RemovePodSandbox :: "'s RuntimeServiceClient \<Rightarrow> string \<Rightarrow> ('s, unit) io" where
  "RemovePodSandbox client ID =
     (if ID = [] then return_err (ErrorString ''ID cannot be empty'')
      else bind (call (RemovePodSandbox_rpc client) \<lparr>Remove_PodSandboxId = Some ID\<rparr>) (\<lambda>_.
           Println ID))"

definition print_status :: "PodSandboxStatus_pb option \<Rightarrow> ('s, unit) io" where
  "print_status status =
     bind (deref status) (\<lambda>st. block
       [print_ID (Id st),
        print_Metadata (Metadata st),
        if_set (State st) (\<lambda>s. print_State (Some s)),
        if_set (CreatedAt st) print_Created,
        if_set (Linux st) print_Linux,
        if_set (Network st) print_Network,
        print_map ''Labels:'' (Labels st),
        print_map ''Annotations:'' (Annotations st)])"

definition PodSandboxStatus :: "'s RuntimeServiceClient \<Rightarrow> string \<Rightarrow> ('s, unit) io" where
  "PodSandboxStatus client ID =
     (if ID = [] then return_err (ErrorString ''ID cannot be empty'')
      else bind (call (PodSandboxStatus_rpc client) \<lparr>Status_PodSandboxId = Some ID\<rparr>) (\<lambda>r.
           print_status (Status r)))"

definition print_pod :: "bool \<Rightarrow> PodSandbox \<Rightarrow> ('s, unit) io" where
  "print_pod quiet pod =
     (if quiet then bind (deref (Id pod)) Println
      else block
        [print_ID (Id pod),
         print_Metadata (Metadata pod),
         print_State (State pod),
         bind (deref (CreatedAt pod)) print_Created,
         print_map ''Labels:'' (Labels pod),
         print_map ''Annotations:'' (Annotations pod)])"

definition ListPodSandboxes :: "'s RuntimeServiceClient \<Rightarrow> bool \<Rightarrow> ('s, unit) io" where
  "ListPodSandboxes client quiet =
     bind (call (ListPodSandbox_rpc client) \<lparr>Filter = None\<rparr>) (\<lambda>r.
     for_each (Items r) (print_pod quiet))"

section \<open>When the dereferences are safe\<close>

text \<open>
  The code dereferences some pointers without a test. These predicates say of a
  response that every such pointer is set; where one is not, the run panics.
\<close>

definition Linux_ok :: "LinuxPodSandboxStatus option \<Rightarrow> bool" where
  "Linux_ok l =
     (case l of
        None \<Rightarrow> True
      | Some x \<Rightarrow> (case Namespaces x of None \<Rightarrow> False | Some ns \<Rightarrow> Namespace_pb.Network ns \<noteq> None))"

definition Network_ok :: "PodSandboxNetworkStatus option \<Rightarrow> bool" where
  "Network_ok n = (case n of None \<Rightarrow> True | Some x \<Rightarrow> Ip x \<noteq> None)"

definition status_ok :: "PodSandboxStatus_pb \<Rightarrow> bool" where
  "status_ok st \<longleftrightarrow> Id st \<noteq> None \<and> Linux_ok (Linux st) \<and> Network_ok (Network st)"

definition pod_ok :: "PodSandbox \<Rightarrow> bool" where
  "pod_ok pod \<longleftrightarrow> Id pod \<noteq> None \<and> CreatedAt pod \<noteq> None"

definition may_panic :: "bool \<Rightarrow> unit result" where
  "may_panic ok = (if ok then Inr () else Inl Panic)"

text \<open>
  What the list output prints for a summary: as \<open>summary_lines\<close>, but the state line is
  printed also for a nil state, as \<^verbatim>\<open>Status: <nil>\<close>.
\<close>

definition State_line :: "PodSandBoxState option \<Rightarrow> string" where
  "State_line s = ''Status: '' @ (case s of None \<Rightarrow> ''<nil>'' | Some x \<Rightarrow> State_String x)"

definition pod_lines ::
  "(64 word \<Rightarrow> string) \<Rightarrow> (string \<times> string) list option \<Rightarrow> (string \<times> string) list option \<Rightarrow>
   PodSandbox \<Rightarrow> string list" where
  "pod_lines lt ls as pod =
     field_line ''ID'' (Id pod) @ Metadata_lines (Metadata pod) @ [State_line (State pod)] @
     field_line ''Created'' (map_option lt (CreatedAt pod)) @ tail_lines ls as"

lemma netns_of_not_ok [simp]: "\<not> Linux_ok (Linux st) \<Longrightarrow> netns_of st = None"
  by (simp add: Linux_ok_def netns_of_def split: option.splits)

lemma ip_of_not_ok [simp]: "\<not> Network_ok (Network st) \<Longrightarrow> ip_of st = None"
  by (simp add: Network_ok_def ip_of_def split: option.splits)

lemma pod_lines_summary_lines:
  "State pod \<noteq> None \<Longrightarrow> pod_lines lt ls as pod = summary_lines lt ls as pod"
  by (auto simp: pod_lines_def summary_lines_def head_lines_def State_line_def)

section \<open>Running the print statements\<close>

lemma print_ID_apply:
  "print_ID p w = (may_panic (p \<noteq> None), w\<lparr>stdout := stdout w @ unlines (field_line ''ID'' p)\<rparr>)"
  by (cases p) (simp_all add: print_ID_def may_panic_def fail_with_apply Printf_apply)

lemma print_Metadata_eq: "print_Metadata md = Print (unlines (Metadata_lines md))"
  by (simp add: print_Metadata_def Metadata_lines_def print_fusion unlines_append
      split: option.splits)

lemma print_State_eq: "print_State s = Print (unlines [State_line s])"
  by (cases s) (simp_all add: print_State_def State_line_def print_fusion)

lemma if_set_print_State:
  "if_set s (\<lambda>x. print_State (Some x)) =
     Print (unlines (field_line ''Status'' (map_option State_String s)))"
  by (cases s) (simp_all add: print_State_eq State_line_def Print_Nil)

lemma print_Created_apply:
  "print_Created sec w = Print (unlines (field_line ''Created'' (Some (local_time w sec)))) w"
  by (simp add: print_Created_def bind_apply Unix_apply Printf_apply Print_apply)

lemma if_set_print_Created:
  "if_set t print_Created w =
     Print (unlines (field_line ''Created'' (map_option (local_time w) t))) w"
  by (cases t) (simp_all add: print_Created_apply Print_apply ret_apply)

lemma if_set_print_Linux:
  "if_set (Linux st) print_Linux w =
     (may_panic (Linux_ok (Linux st)),
      w\<lparr>stdout := stdout w @ unlines (field_line ''Network namespace'' (netns_of st))\<rparr>)"
  by (auto simp: print_Linux_def Linux_ok_def netns_of_def may_panic_def ret_apply
      fail_with_apply bind_apply Printf_apply split: option.splits)

lemma if_set_print_Network:
  "if_set (Network st) print_Network w =
     (may_panic (Network_ok (Network st)),
      w\<lparr>stdout := stdout w @ unlines (field_line ''IP Address'' (ip_of st))\<rparr>)"
  by (auto simp: print_Network_def Network_ok_def ip_of_def may_panic_def ret_apply
      fail_with_apply bind_apply Printf_apply split: option.splits)

lemma for_each_print_entry:
  "for_each kvs (\<lambda>(k, v). print_entry k v) = Print (unlines (map entry_line kvs))"
  by (induction kvs)
    (simp_all add: print_entry_def entry_line_def print_fusion split: prod.splits)

lemma range_map_print_entry:
  "range_map m print_entry w =
     (Inr (), w\<lparr>stdout := stdout w @ unlines (map entry_line (map_order w (ranges w) m)),
                ranges := Suc (ranges w)\<rparr>)"
  by (simp add: range_map_apply for_each_print_entry Print_apply)

lemma print_map_apply:
  "print_map header m w =
     (Inr (),
      w\<lparr>stdout := stdout w @ unlines (map_lines header (map_option (map_order w (ranges w)) m)),
        ranges := ranges w + n_ranges m\<rparr>)"
  by (cases m)
    (simp_all add: print_map_def n_ranges_def ret_apply seq_apply Println_apply
      range_map_print_entry)

lemmas print_applies =
  print_ID_apply print_Metadata_eq if_set_print_State print_Created_apply
  if_set_print_Created if_set_print_Linux if_set_print_Network print_map_apply Print_apply

lemmas lines_defs =
  status_lines_def head_lines_def tail_lines_def pod_lines_def labels_at_def annotations_at_def
  n_maps_def

section \<open>Running the status and the list output\<close>

lemma print_status_None: "print_status None = panic"
  by (simp add: print_status_def)

lemma print_status_Some:
  "print_status (Some st) w =
     (if Id st = None then (Inl Panic, w)
      else if \<not> Linux_ok (Linux st) then
        (Inl Panic, w\<lparr>stdout := stdout w @ unlines (head_lines (local_time w) st)\<rparr>)
      else if \<not> Network_ok (Network st) then
        (Inl Panic, w\<lparr>stdout := stdout w @ unlines (head_lines (local_time w) st @
           field_line ''Network namespace'' (netns_of st))\<rparr>)
      else
        (Inr (), w\<lparr>stdout := stdout w @
           unlines (status_lines (local_time w) (labels_at (map_order w) (ranges w) st)
             (annotations_at (map_order w) (ranges w) st) st),
           ranges := ranges w + n_maps st\<rparr>))"
  by (simp add: print_status_def seq_apply print_applies may_panic_def lines_defs unlines_append)

lemma print_pod_quiet_apply:
  "print_pod True pod w =
     (may_panic (Id pod \<noteq> None), w\<lparr>stdout := stdout w @ unlines (id_line pod)\<rparr>)"
  by (cases "Id pod")
    (simp_all add: print_pod_def id_line_def may_panic_def fail_with_apply Println_apply)

lemma print_pod_full_apply:
  "print_pod False pod w =
     (if Id pod = None then (Inl Panic, w)
      else if CreatedAt pod = None then
        (Inl Panic, w\<lparr>stdout := stdout w @ unlines (field_line ''ID'' (Id pod) @
           Metadata_lines (Metadata pod) @ [State_line (State pod)])\<rparr>)
      else
        (Inr (), w\<lparr>stdout := stdout w @
           unlines (pod_lines (local_time w) (labels_at (map_order w) (ranges w) pod)
             (annotations_at (map_order w) (ranges w) pod) pod),
           ranges := ranges w + n_maps pod\<rparr>))"
  by (cases "CreatedAt pod")
    (simp_all add: print_pod_def seq_apply bind_apply print_applies print_State_eq
      fail_with_apply may_panic_def lines_defs unlines_append)

lemma for_each_print_pod_quiet:
  "for_each pods (print_pod True) w =
     (may_panic (list_all (\<lambda>pod. Id pod \<noteq> None) pods),
      w\<lparr>stdout := stdout w @ unlines (quiet_lines (takeWhile (\<lambda>pod. Id pod \<noteq> None) pods))\<rparr>)"
proof (induction pods arbitrary: w)
  case Nil
  show ?case by (simp add: ret_apply may_panic_def)
next
  case (Cons pod pods)
  then show ?case
    by (cases "Id pod")
      (simp_all add: seq_apply print_pod_quiet_apply may_panic_def id_line_def unlines_append)
qed

lemma for_each_print_pod_full:
  "list_all pod_ok pods \<Longrightarrow>
   for_each pods (print_pod False) w =
     (Inr (),
      w\<lparr>stdout := stdout w @
          unlines (pods_lines (pod_lines (local_time w)) (map_order w) (ranges w) pods),
        ranges := ranges w + sum_list (map n_maps pods)\<rparr>)"
proof (induction pods arbitrary: w)
  case Nil
  show ?case by (simp add: ret_apply)
next
  case (Cons pod pods)
  then show ?case
    by (simp add: seq_apply print_pod_full_apply pod_ok_def unlines_append add.assoc)
qed

lemma for_each_print_pod_panics:
  "\<not> list_all pod_ok pods \<Longrightarrow> fst (for_each pods (print_pod False) w) = Inl Panic"
proof (induction pods arbitrary: w)
  case Nil
  then show ?case by simp
next
  case (Cons pod pods)
  then show ?case
    by (cases "pod_ok pod") (auto simp: seq_apply print_pod_full_apply pod_ok_def)
qed

section \<open>Running the operations\<close>

lemma override_name_apply:
  "override_name name config w =
     (if name = [] then (Inr config, w)
      else case PodSandboxConfig.Metadata config of
          None \<Rightarrow> (Inl Panic, w)
        | Some md \<Rightarrow>
            (Inr (config\<lparr>PodSandboxConfig.Metadata := Some (md\<lparr>Name := Some name\<rparr>)\<rparr>), w))"
  by (simp add: override_name_def ret_apply fail_with_apply split: option.splits)

lemma StopPodSandbox_apply:
  "StopPodSandbox client ID w =
     (if ID = [] then (Inl (Err (ErrorString ''ID cannot be empty'')), w)
      else case StopPodSandbox_rpc client \<lparr>Stop_PodSandboxId = Some ID\<rparr> (server w) of
          (Inl e, s') \<Rightarrow> (Inl (Err e), w\<lparr>server := s', rpc_calls := Suc (rpc_calls w)\<rparr>)
        | (Inr r, s') \<Rightarrow>
            (Inr (), w\<lparr>stdout := stdout w @ ID @ [LF], server := s',
                       rpc_calls := Suc (rpc_calls w)\<rparr>))"
  by (simp add: StopPodSandbox_def fail_with_apply call_bind_apply Println_apply
      split: prod.splits sum.splits)

lemma RemovePodSandbox_apply:
  "RemovePodSandbox client ID w =
     (if ID = [] then (Inl (Err (ErrorString ''ID cannot be empty'')), w)
      else case RemovePodSandbox_rpc client \<lparr>Remove_PodSandboxId = Some ID\<rparr> (server w) of
          (Inl e, s') \<Rightarrow> (Inl (Err e), w\<lparr>server := s', rpc_calls := Suc (rpc_calls w)\<rparr>)
        | (Inr r, s') \<Rightarrow>
            (Inr (), w\<lparr>stdout := stdout w @ ID @ [LF], server := s',
                       rpc_calls := Suc (rpc_calls w)\<rparr>))"
  by (simp add: RemovePodSandbox_def fail_with_apply call_bind_apply Println_apply
      split: prod.splits sum.splits)

lemma PodSandboxStatus_apply:
  "PodSandboxStatus client ID w =
     (if ID = [] then (Inl (Err (ErrorString ''ID cannot be empty'')), w)
      else case PodSandboxStatus_rpc client \<lparr>Status_PodSandboxId = Some ID\<rparr> (server w) of
          (Inl e, s') \<Rightarrow> (Inl (Err e), w\<lparr>server := s', rpc_calls := Suc (rpc_calls w)\<rparr>)
        | (Inr r, s') \<Rightarrow>
            print_status (Status r) (w\<lparr>server := s', rpc_calls := Suc (rpc_calls w)\<rparr>))"
  by (simp add: PodSandboxStatus_def fail_with_apply call_bind_apply)

lemma ListPodSandboxes_apply:
  "ListPodSandboxes client quiet w =
     (case ListPodSandbox_rpc client \<lparr>Filter = None\<rparr> (server w) of
        (Inl e, s') \<Rightarrow> (Inl (Err e), w\<lparr>server := s', rpc_calls := Suc (rpc_calls w)\<rparr>)
      | (Inr r, s') \<Rightarrow>
          for_each (Items r) (print_pod quiet) (w\<lparr>server := s', rpc_calls := Suc (rpc_calls w)\<rparr>))"
  by (simp add: ListPodSandboxes_def call_bind_apply)

lemma override_name_eq: "override_name name config = deref (named_config name config)"
  by (cases "PodSandboxConfig.Metadata config") (simp_all add: override_name_def named_config_def)

lemma deref_bind_apply:
  "bind (deref p) f w = (case p of None \<Rightarrow> (Inl Panic, w) | Some x \<Rightarrow> f x w)"
  by (cases p) (simp_all add: fail_with_apply)

lemma RunPodSandbox_apply:
  "RunPodSandbox client path name w =
     (case files w path of
        Inl e \<Rightarrow> (Inl (Err e), w)
      | Inr config \<Rightarrow>
          (case named_config name config of
             None \<Rightarrow> (Inl Panic, w)
           | Some c \<Rightarrow>
               (case RunPodSandbox_rpc client \<lparr>Config = Some c\<rparr> (server w) of
                  (Inl e, s') \<Rightarrow> (Inl (Err e), w\<lparr>server := s', rpc_calls := Suc (rpc_calls w)\<rparr>)
                | (Inr r, s') \<Rightarrow>
                    (case PodSandboxId r of
                       None \<Rightarrow> (Inl Panic, w\<lparr>server := s', rpc_calls := Suc (rpc_calls w)\<rparr>)
                     | Some x \<Rightarrow>
                         (Inr (), w\<lparr>stdout := stdout w @ x @ [LF], server := s',
                                    rpc_calls := Suc (rpc_calls w)\<rparr>)))))"
  by (simp add: RunPodSandbox_def override_name_eq bind_apply [of "loadPodSandboxConfig path"]
      loadPodSandboxConfig_apply deref_bind_apply call_bind_apply Println_apply
      split: sum.split option.split prod.split)

section \<open>Frames of the operations\<close>

lemmas print_defs =
  print_ID_def print_Metadata_def print_State_def print_Created_def print_Linux_def
  print_Network_def print_entry_def print_map_def print_status_def print_pod_def

lemmas operation_defs =
  RunPodSandbox_def StopPodSandbox_def RemovePodSandbox_def PodSandboxStatus_def
  ListPodSandboxes_def override_name_def

lemma prints_only_print_status: "steps_in prints_only (print_status status)"
  unfolding print_defs block.simps by (intro frame_intros)

lemma prints_only_print_pod: "steps_in prints_only (print_pod quiet pod)"
  unfolding print_defs block.simps by (cases quiet) (simp_all, (intro frame_intros)+)

lemma stdout_grows_print_status: "steps_in stdout_grows (print_status status)"
  unfolding print_defs block.simps by (intro frame_intros)

lemma stdout_grows_print_pod: "steps_in stdout_grows (print_pod quiet pod)"
  unfolding print_defs block.simps by (cases quiet) (simp_all, (intro frame_intros)+)

lemma env_same_print_status: "steps_in env_same (print_status status)"
  by (rule steps_in_weaken [OF prints_only_print_status]) (simp add: prints_only_def)

lemma env_same_print_pod: "steps_in env_same (print_pod quiet pod)"
  by (rule steps_in_weaken [OF prints_only_print_pod]) (simp add: prints_only_def)

lemma stdout_grows_operations:
  "steps_in stdout_grows (RunPodSandbox client path name)"
  "steps_in stdout_grows (StopPodSandbox client ID)"
  "steps_in stdout_grows (RemovePodSandbox client ID)"
  "steps_in stdout_grows (PodSandboxStatus client ID)"
  "steps_in stdout_grows (ListPodSandboxes client quiet)"
  unfolding operation_defs
  by (auto intro!: frame_intros stdout_grows_print_status stdout_grows_print_pod)

lemma env_same_operations:
  "steps_in env_same (RunPodSandbox client path name)"
  "steps_in env_same (StopPodSandbox client ID)"
  "steps_in env_same (RemovePodSandbox client ID)"
  "steps_in env_same (PodSandboxStatus client ID)"
  "steps_in env_same (ListPodSandboxes client quiet)"
  unfolding operation_defs
  by (auto intro!: frame_intros env_same_print_status env_same_print_pod)

section \<open>Requests per run\<close>

lemma prints_only_for_each_print_pod: "steps_in prints_only (for_each pods (print_pod quiet))"
  by (intro steps_in_for_each prints_only_print_pod) simp_all

lemma rpc_calls_prints_only: "steps_in prints_only m \<Longrightarrow> rpc_calls (snd (m w)) = rpc_calls w"
  by (auto dest: steps_inD [of _ _ w] simp: prints_only_def)

lemma one_call_operations:
  "steps_in (calls_at_most (Suc 0)) (RunPodSandbox client path name)"
  "steps_in (calls_at_most (Suc 0)) (StopPodSandbox client ID)"
  "steps_in (calls_at_most (Suc 0)) (RemovePodSandbox client ID)"
  "steps_in (calls_at_most (Suc 0)) (PodSandboxStatus client ID)"
  "steps_in (calls_at_most (Suc 0)) (ListPodSandboxes client quiet)"
proof -
  show "steps_in (calls_at_most (Suc 0)) (RunPodSandbox client path name)"
    by (simp add: steps_in_def calls_at_most_def RunPodSandbox_apply
        split: sum.split option.split prod.split)
  show "steps_in (calls_at_most (Suc 0)) (StopPodSandbox client ID)"
    by (simp add: steps_in_def calls_at_most_def StopPodSandbox_apply
        split: sum.split prod.split)
  show "steps_in (calls_at_most (Suc 0)) (RemovePodSandbox client ID)"
    by (simp add: steps_in_def calls_at_most_def RemovePodSandbox_apply
        split: sum.split prod.split)
  show "steps_in (calls_at_most (Suc 0)) (PodSandboxStatus client ID)"
    by (simp add: steps_in_def calls_at_most_def PodSandboxStatus_apply
        rpc_calls_prints_only [OF prints_only_print_status] split: sum.split prod.split)
  show "steps_in (calls_at_most (Suc 0)) (ListPodSandboxes client quiet)"
    by (simp add: steps_in_def calls_at_most_def ListPodSandboxes_apply
        rpc_calls_prints_only [OF prints_only_for_each_print_pod] split: sum.split prod.split)
qed

section \<open>Properties of the operations\<close>

text \<open>
  C1: For a non-empty identifier, when the service answers the status request with a
  status whose identifier is set and whose Linux and network detail, where present, have
  their inner pointers set, \<open>PodSandboxStatus\<close> returns without error after exactly one
  request and appends to the standard output exactly the lines of the rendering
  specification \<open>status_lines\<close>: the identifier, the metadata fields that are set, the
  state, the creation time, the network namespace, the address, then the labels and
  the annotations in the order the two \<^verbatim>\<open>range\<close> statements visit them.
\<close>

theorem PodSandboxStatus_renders:
  assumes "ID \<noteq> []"
    and "PodSandboxStatus_rpc client \<lparr>Status_PodSandboxId = Some ID\<rparr> (server w) = (Inr r, s')"
    and "Status r = Some st" and "status_ok st"
  shows "PodSandboxStatus client ID w =
     (Inr (),
      w\<lparr>stdout := stdout w @
           unlines (status_lines (local_time w) (labels_at (map_order w) (ranges w) st)
             (annotations_at (map_order w) (ranges w) st) st),
        server := s', rpc_calls := Suc (rpc_calls w), ranges := ranges w + n_maps st\<rparr>)"
  using assms
  by (simp add: PodSandboxStatus_apply print_status_Some status_ok_def lines_defs)

lemmas test_data_defs =
  ok_replies_def failing_replies_def test_status_def test_pod_def test_metadata_def
  test_config_def bare_config_def test_files_def

lemmas render_defs =
  status_lines_def head_lines_def tail_lines_def summary_lines_def pod_lines_def
  Metadata_lines_def field_line_def map_lines_def entry_line_def netns_of_def ip_of_def
  labels_at_def annotations_at_def n_maps_def n_ranges_def State_line_def id_line_def

theorem PodSandboxStatus_renders_witness:
  "PodSandboxStatus (stand_in ok_replies) ''p1'' (test_world ok_replies) =
     (Inr (),
      (test_world ok_replies)
        \<lparr>stdout := unlines
           [''ID: p1'', ''Name: A'', ''UID: u-1'', ''Namespace: default'', ''Attempt: 1'',
            ''Status: READY'', ''Created: 0 s'', ''Network namespace: /proc/7/ns/net'',
            ''IP Address: 10.0.0.2'', ''Labels:'', TAB # ''app -> web'', TAB # ''tier -> front''],
         server := [Status_req \<lparr>Status_PodSandboxId = Some ''p1''\<rparr>],
         rpc_calls := 1, ranges := 1\<rparr>)"
  using PodSandboxStatus_renders [of "''p1''" "stand_in ok_replies" "test_world ok_replies"
      "\<lparr>Status = Some test_status\<rparr>" "[Status_req \<lparr>Status_PodSandboxId = Some ''p1''\<rparr>]" test_status]
  by (simp add: test_data_defs render_defs status_ok_def Linux_ok_def Network_ok_def
      digit_char_def)

text \<open>
  C2: With the empty identifier, \<open>StopPodSandbox\<close>, \<open>RemovePodSandbox\<close> and
  \<open>PodSandboxStatus\<close> return the error \<^verbatim>\<open>ID cannot be empty\<close> and leave the world as it
  was: nothing is printed and no request reaches the service.
\<close>

theorem empty_ID_rejected:
  "StopPodSandbox client [] w = (Inl (Err (ErrorString ''ID cannot be empty'')), w) \<and>
   RemovePodSandbox client [] w = (Inl (Err (ErrorString ''ID cannot be empty'')), w) \<and>
   PodSandboxStatus client [] w = (Inl (Err (ErrorString ''ID cannot be empty'')), w)"
  by (simp add: StopPodSandbox_apply RemovePodSandbox_apply PodSandboxStatus_apply)

text \<open>
  C4: For a non-empty identifier, \<open>StopPodSandbox\<close> issues exactly one request,
  which carries the identifier unchanged; an error of the service is returned as it is
  and nothing is printed, and on success the identifier is printed on a line of its own.
\<close>

theorem StopPodSandbox_sends_ID:
  assumes "ID \<noteq> []"
    and "StopPodSandbox_rpc client \<lparr>Stop_PodSandboxId = Some ID\<rparr> (server w) = (reply, s')"
  shows "StopPodSandbox client ID w =
     (case reply of
        Inl e \<Rightarrow> (Inl (Err e), w\<lparr>server := s', rpc_calls := Suc (rpc_calls w)\<rparr>)
      | Inr r \<Rightarrow>
          (Inr (), w\<lparr>stdout := stdout w @ ID @ [LF], server := s',
                     rpc_calls := Suc (rpc_calls w)\<rparr>))"
  using assms by (simp add: StopPodSandbox_apply split: sum.splits)

theorem StopPodSandbox_sends_ID_witness:
  "StopPodSandbox (stand_in ok_replies) ''p1'' (test_world ok_replies) =
     (Inr (), (test_world ok_replies)
        \<lparr>stdout := unlines [''p1''], server := [Stop_req \<lparr>Stop_PodSandboxId = Some ''p1''\<rparr>],
         rpc_calls := 1\<rparr>)"
  using StopPodSandbox_sends_ID [of "''p1''" "stand_in ok_replies" "test_world ok_replies"
      "Inr StopPodSandboxResponse" "[Stop_req \<lparr>Stop_PodSandboxId = Some ''p1''\<rparr>]"]
  by (simp add: test_data_defs)

text \<open>
  C17: For a non-empty identifier, \<open>RemovePodSandbox\<close> issues exactly one request,
  which carries the identifier unchanged; an error of the service is returned as it is
  and nothing is printed, and on success the identifier is printed on a line of its own.
\<close>

theorem RemovePodSandbox_sends_ID:
  assumes "ID \<noteq> []"
    and "RemovePodSandbox_rpc client \<lparr>Remove_PodSandboxId = Some ID\<rparr> (server w) = (reply, s')"
  shows "RemovePodSandbox client ID w =
     (case reply of
        Inl e \<Rightarrow> (Inl (Err e), w\<lparr>server := s', rpc_calls := Suc (rpc_calls w)\<rparr>)
      | Inr r \<Rightarrow>
          (Inr (), w\<lparr>stdout := stdout w @ ID @ [LF], server := s',
                     rpc_calls := Suc (rpc_calls w)\<rparr>))"
  using assms by (simp add: RemovePodSandbox_apply split: sum.splits)

theorem RemovePodSandbox_sends_ID_witness:
  "RemovePodSandbox (stand_in failing_replies) ''p9'' (test_world failing_replies) =
     (Inl (Err (RpcError ''rpc error: no such sandbox'')), (test_world failing_replies)
        \<lparr>server := [Remove_req \<lparr>Remove_PodSandboxId = Some ''p9''\<rparr>], rpc_calls := 1\<rparr>)"
  using RemovePodSandbox_sends_ID [of "''p9''" "stand_in failing_replies"
      "test_world failing_replies" "Inl (RpcError ''rpc error: no such sandbox'')"
      "[Remove_req \<lparr>Remove_PodSandboxId = Some ''p9''\<rparr>]"]
  by (simp add: test_data_defs)

definition run_result ::
  "'s world \<Rightarrow> (error + RunPodSandboxResponse) \<times> 's \<Rightarrow> unit result \<times> 's world" where
  "run_result w a =
     (case a of
        (Inl e, s') \<Rightarrow> (Inl (Err e), w\<lparr>server := s', rpc_calls := Suc (rpc_calls w)\<rparr>)
      | (Inr r, s') \<Rightarrow>
          (case PodSandboxId r of
             None \<Rightarrow> (Inl Panic, w\<lparr>server := s', rpc_calls := Suc (rpc_calls w)\<rparr>)
           | Some x \<Rightarrow>
               (Inr (), w\<lparr>stdout := stdout w @ x @ [LF], server := s',
                          rpc_calls := Suc (rpc_calls w)\<rparr>)))"

lemma RunPodSandbox_run_result:
  "RunPodSandbox client path name w =
     (case files w path of
        Inl e \<Rightarrow> (Inl (Err e), w)
      | Inr config \<Rightarrow>
          (case named_config name config of
             None \<Rightarrow> (Inl Panic, w)
           | Some c \<Rightarrow> run_result w (RunPodSandbox_rpc client \<lparr>Config = Some c\<rparr> (server w))))"
  by (simp add: RunPodSandbox_apply run_result_def split: sum.split option.split)

text \<open>
  C3: When the configuration file has a metadata section and the name given on the
  command line is not empty, the request of \<open>RunPodSandbox\<close> carries the configuration of
  the file with the name in its metadata replaced by the given one, every other field
  as loaded; the run then prints the identifier the service returns.
\<close>

theorem RunPodSandbox_name_override:
  assumes "files w path = Inr config"
    and "PodSandboxConfig.Metadata config = Some md" and "name \<noteq> []"
  shows "RunPodSandbox client path name w =
     run_result w (RunPodSandbox_rpc client
       \<lparr>Config = Some (config\<lparr>PodSandboxConfig.Metadata := Some (md\<lparr>Name := Some name\<rparr>)\<rparr>)\<rparr>
       (server w))"
  using assms by (simp add: RunPodSandbox_run_result named_config_def)

theorem RunPodSandbox_name_override_witness:
  "RunPodSandbox (stand_in ok_replies) ''config.json'' ''B'' (test_world ok_replies) =
     (Inr (), (test_world ok_replies)
        \<lparr>stdout := unlines [''p1''],
         server := [Run_req \<lparr>Config = Some (test_config
           \<lparr>PodSandboxConfig.Metadata := Some (test_metadata\<lparr>Name := Some ''B''\<rparr>)\<rparr>)\<rparr>],
         rpc_calls := 1\<rparr>)"
  using RunPodSandbox_name_override [of "test_world ok_replies" "''config.json''" test_config
      test_metadata "''B''" "stand_in ok_replies"]
  by (simp add: test_files_def test_config_def ok_replies_def run_result_def)

text \<open>
  C18: With the empty name, \<open>RunPodSandbox\<close> sends the configuration exactly as
  loaded, whether or not it has a metadata section.
\<close>

theorem RunPodSandbox_no_override:
  assumes "files w path = Inr config"
  shows "RunPodSandbox client path [] w =
     run_result w (RunPodSandbox_rpc client \<lparr>Config = Some config\<rparr> (server w))"
  using assms by (simp add: RunPodSandbox_run_result named_config_def)

theorem RunPodSandbox_no_override_witness:
  "RunPodSandbox (stand_in ok_replies) ''config.json'' [] (test_world ok_replies) =
     (Inr (), (test_world ok_replies)
        \<lparr>stdout := unlines [''p1''], server := [Run_req \<lparr>Config = Some test_config\<rparr>],
         rpc_calls := 1\<rparr>)"
  using RunPodSandbox_no_override [of "test_world ok_replies" "''config.json''" test_config
      "stand_in ok_replies"]
  by (simp add: test_files_def ok_replies_def run_result_def)

text \<open>
  C8: When the configuration file has no metadata section and a name is given,
  \<open>RunPodSandbox\<close> panics at the assignment \<^verbatim>\<open>config.Metadata.Name = &name\<close>, before any
  request is issued.
\<close>

theorem RunPodSandbox_nil_Metadata_panics:
  assumes "files w path = Inr config"
    and "PodSandboxConfig.Metadata config = None" and "name \<noteq> []"
  shows "RunPodSandbox client path name w = (Inl Panic, w)"
  using assms by (simp add: RunPodSandbox_run_result named_config_def)

theorem RunPodSandbox_nil_Metadata_panics_witness:
  "RunPodSandbox (stand_in ok_replies) ''bare.json'' ''B'' (test_world ok_replies) =
     (Inl Panic, test_world ok_replies)"
  by (rule RunPodSandbox_nil_Metadata_panics [of _ _ bare_config])
    (simp_all add: test_files_def bare_config_def)

text \<open>
  C19: When the configuration file cannot be loaded, \<open>RunPodSandbox\<close> returns the
  error of the loader unchanged; nothing is printed and no request is issued.
\<close>

theorem RunPodSandbox_config_error:
  assumes "files w path = Inl e"
  shows "RunPodSandbox client path name w = (Inl (Err e), w)"
  using assms by (simp add: RunPodSandbox_run_result)

theorem RunPodSandbox_config_error_witness:
  "RunPodSandbox (stand_in ok_replies) ''nowhere.json'' ''B'' (test_world ok_replies) =
     (Inl (Err (ConfigError ''open nowhere.json: no such file or directory'')),
      test_world ok_replies)"
  by (rule RunPodSandbox_config_error) (simp add: test_files_def)


definition list_result ::
  "'s world \<Rightarrow> string list \<Rightarrow> nat \<Rightarrow> 's \<Rightarrow> unit result \<times> 's world" where
  "list_result w ls n s' =
     (Inr (), w\<lparr>stdout := stdout w @ unlines ls, server := s',
                 rpc_calls := Suc (rpc_calls w), ranges := ranges w + n\<rparr>)"

lemma for_each_print_pod_quiet_all:
  assumes "list_all (\<lambda>pod. Id pod \<noteq> None) pods"
  shows "for_each pods (print_pod True) w =
     (Inr (), w\<lparr>stdout := stdout w @ unlines (quiet_lines pods)\<rparr>)"
proof -
  from assms have "takeWhile (\<lambda>pod. Id pod \<noteq> None) pods = pods"
    by (simp add: list_all_iff)
  with assms show ?thesis
    unfolding for_each_print_pod_quiet by (simp only: may_panic_def if_True)
qed

text \<open>
  C5: In quiet mode, when every sandbox of the response has its identifier set,
  \<open>ListPodSandboxes\<close> prints the identifiers, one per line, in the order of the response,
  and nothing else.
\<close>

theorem ListPodSandboxes_quiet:
  assumes "ListPodSandbox_rpc client \<lparr>Filter = None\<rparr> (server w) = (Inr r, s')"
    and "list_all (\<lambda>pod. Id pod \<noteq> None) (Items r)"
  shows "ListPodSandboxes client True w = list_result w (quiet_lines (Items r)) 0 s'"
  using assms
  by (simp add: ListPodSandboxes_apply for_each_print_pod_quiet_all list_result_def
      del: not_None_eq)

theorem ListPodSandboxes_quiet_witness:
  "ListPodSandboxes (stand_in ok_replies) True (test_world ok_replies) =
     (Inr (), (test_world ok_replies)
        \<lparr>stdout := unlines [''s1'', ''s2''], server := [List_req \<lparr>Filter = None\<rparr>],
         rpc_calls := 1\<rparr>)"
  using ListPodSandboxes_quiet [of "stand_in ok_replies" "test_world ok_replies"
      "\<lparr>Items = [test_pod ''s1'', test_pod ''s2'']\<rparr>" "[List_req \<lparr>Filter = None\<rparr>]"]
  by (simp add: ok_replies_def test_pod_def list_result_def quiet_lines_def id_line_def)

text \<open>
  C6: In full mode, when every sandbox of the response has its identifier and its
  creation time set, \<open>ListPodSandboxes\<close> returns without error and prints for each
  sandbox, in the order of the response, the lines of \<open>pod_lines\<close>; the \<open>k\<close>-th map
  printed is in the order of the \<open>k\<close>-th \<^verbatim>\<open>range\<close> statement of the run.
\<close>

theorem ListPodSandboxes_full:
  assumes "ListPodSandbox_rpc client \<lparr>Filter = None\<rparr> (server w) = (Inr r, s')"
    and "list_all pod_ok (Items r)"
  shows "ListPodSandboxes client False w =
     list_result w (pods_lines (pod_lines (local_time w)) (map_order w) (ranges w) (Items r))
       (sum_list (map n_maps (Items r))) s'"
  using assms
  by (simp add: ListPodSandboxes_apply for_each_print_pod_full list_result_def)

theorem ListPodSandboxes_full_witness:
  "ListPodSandboxes (stand_in ok_replies) False (test_world ok_replies) =
     (Inr (), (test_world ok_replies)
        \<lparr>stdout := unlines [''ID: s1'', ''Status: READY'', ''Created: 0 s'',
                           ''ID: s2'', ''Status: READY'', ''Created: 0 s''],
         server := [List_req \<lparr>Filter = None\<rparr>], rpc_calls := 1\<rparr>)"
  using ListPodSandboxes_full [of "stand_in ok_replies" "test_world ok_replies"
      "\<lparr>Items = [test_pod ''s1'', test_pod ''s2'']\<rparr>" "[List_req \<lparr>Filter = None\<rparr>]"]
  by (simp add: ok_replies_def test_pod_def list_result_def pod_ok_def render_defs)

text \<open>
  C10: In full mode \<open>ListPodSandboxes\<close> dereferences the creation time of a sandbox
  without a test: a response with a sandbox whose creation time is not set makes the
  run panic.
\<close>

theorem ListPodSandboxes_panics:
  assumes "ListPodSandbox_rpc client \<lparr>Filter = None\<rparr> (server w) = (Inr r, s')"
    and "pod \<in> set (Items r)" and "CreatedAt pod = None"
  shows "fst (ListPodSandboxes client False w) = Inl Panic"
proof -
  from assms(2,3) have "\<not> list_all pod_ok (Items r)"
    by (auto simp: list_all_iff pod_ok_def)
  with assms(1) show ?thesis
    by (simp add: ListPodSandboxes_apply for_each_print_pod_panics)
qed

theorem ListPodSandboxes_panics_witness:
  "fst (ListPodSandboxes
     (stand_in (ok_replies\<lparr>on_list := Inr \<lparr>Items = [(test_pod ''s1'')\<lparr>CreatedAt := None\<rparr>]\<rparr>\<rparr>))
     False (test_world ok_replies)) = Inl Panic"
  by (rule ListPodSandboxes_panics [of _ _ "\<lparr>Items = [(test_pod ''s1'')\<lparr>CreatedAt := None\<rparr>]\<rparr>"
        "[List_req \<lparr>Filter = None\<rparr>]" "(test_pod ''s1'')\<lparr>CreatedAt := None\<rparr>"])
    simp_all

text \<open>
  C9: A status whose Linux detail is present but lacks the namespaces or the
  network namespace makes the status output panic after the identifier, the metadata,
  the state and the creation time have been printed: the output is left incomplete.
\<close>

theorem print_status_partial_output:
  assumes "Id st \<noteq> None" and "\<not> Linux_ok (Linux st)"
  shows "print_status (Some st) w =
     (Inl Panic, w\<lparr>stdout := stdout w @ unlines (head_lines (local_time w) st)\<rparr>)"
  using assms by (auto simp: print_status_Some)

theorem print_status_partial_output_witness:
  "print_status (Some (test_status\<lparr>Linux := Some \<lparr>Namespaces = None\<rparr>\<rparr>)) (test_world ok_replies) =
     (Inl Panic, (test_world ok_replies)
        \<lparr>stdout := unlines [''ID: p1'', ''Name: A'', ''UID: u-1'', ''Namespace: default'',
           ''Attempt: 1'', ''Status: READY'', ''Created: 0 s'']\<rparr>)"
  using print_status_partial_output [of "test_status\<lparr>Linux := Some \<lparr>Namespaces = None\<rparr>\<rparr>"
      "test_world ok_replies"]
  by (simp add: test_data_defs render_defs Linux_ok_def digit_char_def)

section \<open>Properties of the output\<close>

text \<open>
  C15: Whatever order the runtime picks for the \<^verbatim>\<open>range\<close> statement, as long as it
  visits each entry once, a map that is not nil is printed as its header line followed
  by one line per entry of the map, each entry exactly once: the entries printed are a
  permutation of the entries of the map.
\<close>

theorem print_map_each_entry_once:
  assumes "valid_map_order w"
  shows "\<exists>es. mset es = mset (sorted_list_of_fmap m) \<and>
     print_map header (Some m) w =
       (Inr (), w\<lparr>stdout := stdout w @ unlines (header # map entry_line es),
                  ranges := Suc (ranges w)\<rparr>)"
  using assms
  by (intro exI [of _ "map_order w (ranges w) m"])
    (simp add: print_map_apply valid_map_order_mset n_ranges_def)

theorem print_map_each_entry_once_witness:
  "\<exists>es. mset es = mset [(''app'', ''web''), (''tier'', ''front'')] \<and>
     print_map ''Labels:'' (Some test_labels) (test_world ok_replies) =
       (Inr (), (test_world ok_replies)
          \<lparr>stdout := stdout (test_world ok_replies) @ unlines (''Labels:'' # map entry_line es),
           ranges := Suc (ranges (test_world ok_replies))\<rparr>)"
  using print_map_each_entry_once [of "test_world ok_replies" test_labels "''Labels:''"]
  by simp

text \<open>
  C26: A map that is present but empty is printed as its header line alone: the test
  is against nil, not against emptiness.
\<close>

theorem print_map_empty_header:
  assumes "valid_map_order w"
  shows "print_map header (Some fmempty) w =
     (Inr (), w\<lparr>stdout := stdout w @ header @ [LF], ranges := Suc (ranges w)\<rparr>)"
  using assms by (simp add: print_map_apply valid_map_order_empty n_ranges_def)

theorem print_map_empty_header_witness:
  "print_map ''Labels:'' (Some fmempty) (test_world ok_replies) =
     (Inr (), (test_world ok_replies)\<lparr>stdout := ''Labels:'' @ [LF], ranges := 1\<rparr>)"
  using print_map_empty_header [of "test_world ok_replies" "''Labels:''"]
  by simp

lemma output_of_print_status:
  "status_ok st \<Longrightarrow>
   output_of (print_status (Some st)) w =
     unlines (status_lines (local_time w) (labels_at (map_order w) (ranges w) st)
       (annotations_at (map_order w) (ranges w) st) st)"
  by (auto simp: output_of_def print_status_Some status_ok_def)

text \<open>
  C23: A status without Linux and network detail, with identifier, state and creation
  time set, is printed by the status output exactly as its summary is printed by the
  full list output.
\<close>

theorem status_and_summary_agree:
  assumes "Id st \<noteq> None" and "State st \<noteq> None" and "CreatedAt st \<noteq> None"
    and "Linux st = None" and "Network st = None"
  shows "print_status (Some st) w = print_pod False (summary_of st) w"
  using assms
  by (auto simp: print_status_Some print_pod_full_apply Linux_ok_def Network_ok_def
      status_lines_summary pod_lines_summary_lines summary_lines_def tail_lines_def
      labels_at_def annotations_at_def n_maps_def)

theorem status_and_summary_agree_witness:
  "print_status (Some (test_status\<lparr>Linux := None, Network := None\<rparr>)) (test_world ok_replies) =
   print_pod False (summary_of (test_status\<lparr>Linux := None, Network := None\<rparr>))
     (test_world ok_replies)"
  by (rule status_and_summary_agree) (simp_all add: test_status_def)

text \<open>
  C25: The full list output prints the state line also for a sandbox whose state is
  not set, as \<^verbatim>\<open>Status: <nil>\<close>, where the status output omits the line.
\<close>

theorem list_prints_nil_State:
  assumes "Id pod = Some x" and "CreatedAt pod = Some t" and "State pod = None"
    and "Metadata pod = None" and "Labels pod = None" and "Annotations pod = None"
  shows "print_pod False pod w =
     (Inr (), w\<lparr>stdout := stdout w @
        unlines [''ID: '' @ x, ''Status: <nil>'', ''Created: '' @ local_time w t]\<rparr>)"
  using assms
  by (simp add: print_pod_full_apply pod_lines_def State_line_def Metadata_lines_def
      tail_lines_def labels_at_def annotations_at_def n_maps_def n_ranges_def)

theorem list_prints_nil_State_witness:
  "print_pod False ((test_pod ''s1'')\<lparr>State := None\<rparr>) (test_world ok_replies) =
     (Inr (), (test_world ok_replies)
        \<lparr>stdout := unlines [''ID: s1'', ''Status: <nil>'', ''Created: 0 s'']\<rparr>)"
  using list_prints_nil_State [of "(test_pod ''s1'')\<lparr>State := None\<rparr>" "''s1''" 0
      "test_world ok_replies"]
  by (simp add: test_pod_def)

text \<open>
  C27: A status in which only the identifier and the state \<^verbatim>\<open>READY\<close> are set is
  printed as two lines, the identifier line and the state line, and nothing else
  (the rendering example of section 8 of the specification).
\<close>

theorem status_identifier_and_state_only:
  "print_status
     (Some \<lparr>Id = Some x, Metadata = None, State = Some READY, CreatedAt = None, Labels = None,
            Annotations = None, Network = None, Linux = None\<rparr>) w =
     (Inr (), w\<lparr>stdout := stdout w @ unlines [''ID: '' @ x, ''Status: READY'']\<rparr>)"
  by (simp add: print_status_Some Linux_ok_def Network_ok_def status_lines_def head_lines_def
      Metadata_lines_def tail_lines_def netns_of_def ip_of_def labels_at_def annotations_at_def
      n_maps_def n_ranges_def)

text \<open>
  C28: The attempt counter of the metadata is printed after the other metadata
  fields as \<^verbatim>\<open>Attempt: \<close> followed by its decimal numeral: a text of at most ten digits
  that parses back to the value of the counter.
\<close>

theorem Attempt_line_decimal:
  assumes "Attempt md = Some a"
  shows "\<exists>ds. print_Metadata (Some md) =
       Print (unlines (Metadata_lines (Some (md\<lparr>Attempt := None\<rparr>)) @ [''Attempt: '' @ ds])) \<and>
     parse_decimal ds = Some (unat a) \<and> length ds \<le> 10"
  using assms length_format_v_Uint32 [of a]
  by (intro exI [of _ "decimal (unat a)"])
    (simp add: print_Metadata_eq Metadata_lines_def parse_decimal_decimal)

theorem Attempt_line_decimal_witness:
  "\<exists>ds. print_Metadata (Some test_metadata) =
       Print (unlines [''Name: A'', ''UID: u-1'', ''Namespace: default'', ''Attempt: '' @ ds]) \<and>
     parse_decimal ds = Some 1 \<and> length ds \<le> 10"
  using Attempt_line_decimal [of test_metadata 1]
  by (simp add: test_metadata_def Metadata_lines_def)

end
