(* ===== verification/Commands.thy ===== *)
theory Commands
  imports Sandbox
begin

text \<open>
  The command table of \<^verbatim>\<open>src/cmd/client/sandbox.go\<close>: the command \<^verbatim>\<open>pod\<close> and its five
  subcommands \<^verbatim>\<open>create\<close>, \<^verbatim>\<open>stop\<close>, \<^verbatim>\<open>remove\<close>, \<^verbatim>\<open>status\<close> and \<^verbatim>\<open>list\<close>, each with its
  flags and its action. An action opens the connection, defers its closing, makes the
  client, runs one operation of theory \<open>Sandbox\<close> on the flag values and wraps the
  error of either step in a message of its own. The Go code repeats these statements
  in every action; so do the definitions here, and \<open>with_connection\<close> is the shape
  they share, which the lemmas \<open>action_defs\<close> reduce each action to.

  The lemmas give the result of an action on every branch (\<open>with_connection_apply\<close>),
  show that the number of open connections after an action is what it was before,
  whatever the outcome, and that an action whose connection fails issues no request
  and prints nothing. \<open>run_subcommand\<close> is the dispatch of the command-line
  framework: it finds the subcommand by name and runs its action on a context made of
  the declared flags and the values given.
\<close>

section \<open>Commands\<close>

datatype 's Command =
  Command (cmd_Name: string) (cmd_Usage: string) (cmd_Flags: "Flag list")
    (cmd_Action: "(Context \<Rightarrow> ('s, unit) io) option") (cmd_Subcommands: "'s Command list")

section \<open>The actions\<close>

definition runPodSandboxAction :: "Context \<Rightarrow> ('s, unit) io" where
  "runPodSandboxAction ctx =
     bind (wrap_err ''failed to connect: '' (getClientConnection ctx)) (\<lambda>conn.
     deferred (Close conn)
       (bind (NewRuntimeServiceClient conn) (\<lambda>client.
        wrap_err ''Creating the pod sandbox failed: ''
          (RunPodSandbox client (ctx_String ctx ''config'') (ctx_String ctx ''name'')))))"

definition stopPodSandboxAction :: "Context \<Rightarrow> ('s, unit) io" where
  "stopPodSandboxAction ctx =
     bind (wrap_err ''failed to connect: '' (getClientConnection ctx)) (\<lambda>conn.
     deferred (Close conn)
       (bind (NewRuntimeServiceClient conn) (\<lambda>client.
        wrap_err ''stopping the pod sandbox failed: ''
          (StopPodSandbox client (ctx_String ctx ''id'')))))"

definition removePodSandboxAction :: "Context \<Rightarrow> ('s, unit) io" where
  "removePodSandboxAction ctx =
     bind (wrap_err ''failed to connect: '' (getClientConnection ctx)) (\<lambda>conn.
     deferred (Close conn)
       (bind (NewRuntimeServiceClient conn) (\<lambda>client.
        wrap_err ''removing the pod sandbox failed: ''
          (RemovePodSandbox client (ctx_String ctx ''id'')))))"

definition podSandboxStatusAction :: "Context \<Rightarrow> ('s, unit) io" where
  "podSandboxStatusAction ctx =
     bind (wrap_err ''failed to connect: '' (getClientConnection ctx)) (\<lambda>conn.
     deferred (Close conn)
       (bind (NewRuntimeServiceClient conn) (\<lambda>client.
        wrap_err ''getting the pod sandbox status failed: ''
          (PodSandboxStatus client (ctx_String ctx ''id'')))))"

definition listPodSandboxAction :: "Context \<Rightarrow> ('s, unit) io" where
  "listPodSandboxAction ctx =
     bind (wrap_err ''failed to connect: '' (getClientConnection ctx)) (\<lambda>conn.
     deferred (Close conn)
       (bind (NewRuntimeServiceClient conn) (\<lambda>client.
        wrap_err ''listing pod sandboxes failed: ''
          (ListPodSandboxes client (ctx_Bool ctx ''quiet'')))))"

section \<open>The command table\<close>

definition runPodSandboxFlags :: "Flag list" where
  "runPodSandboxFlags =
     [StringFlag ''config'' ''config.json'' ''the path of a pod sandbox config file'',
      StringFlag ''name'' [] ''the name of the pod sandbox'']"

definition runPodSandboxCommand :: "'s Command" where
  "runPodSandboxCommand =
     Command ''create'' ''create a pod'' runPodSandboxFlags (Some runPodSandboxAction) []"

definition stopPodSandboxFlags :: "Flag list" where
  "stopPodSandboxFlags = [StringFlag ''id'' [] ''id of the pod sandbox'']"

definition stopPodSandboxCommand :: "'s Command" where
  "stopPodSandboxCommand =
     Command ''stop'' ''stop a pod sandbox'' stopPodSandboxFlags (Some stopPodSandboxAction) []"

definition removePodSandboxFlags :: "Flag list" where
  "removePodSandboxFlags = [StringFlag ''id'' [] ''id of the pod sandbox'']"

definition removePodSandboxCommand :: "'s Command" where
  "removePodSandboxCommand =
     Command ''remove'' ''remove a pod sandbox'' removePodSandboxFlags
       (Some removePodSandboxAction) []"

definition podSandboxStatusFlags :: "Flag list" where
  "podSandboxStatusFlags = [StringFlag ''id'' [] ''id of the pod'']"

definition podSandboxStatusCommand :: "'s Command" where
  "podSandboxStatusCommand =
     Command ''status'' ''return the status of a pod'' podSandboxStatusFlags
       (Some podSandboxStatusAction) []"

definition listPodSandboxFlags :: "Flag list" where
  "listPodSandboxFlags = [BoolFlag ''quiet'' ''list only pod IDs'']"

definition listPodSandboxCommand :: "'s Command" where
  "listPodSandboxCommand =
     Command ''list'' ''list pod sandboxes'' listPodSandboxFlags (Some listPodSandboxAction) []"

definition podSandboxCommand :: "'s Command" where
  "podSandboxCommand =
     Command ''pod'' [] [] None
       [runPodSandboxCommand, stopPodSandboxCommand, removePodSandboxCommand,
        podSandboxStatusCommand, listPodSandboxCommand]"

section \<open>Dispatch\<close>

text \<open>
  What the framework does with a parsed command line \<^verbatim>\<open>pod <name> --flag=value ...\<close>:
  it looks the subcommand up by name and calls its action with a context of the
  subcommand's flags and the values given. An unknown name runs nothing.
\<close>

definition run_command :: "'s Command \<Rightarrow> (string \<times> string) list \<Rightarrow> ('s, unit) io" where
  "run_command c args =
     (case cmd_Action c of
        None \<Rightarrow> ret ()
      | Some action \<Rightarrow> action \<lparr>declared = cmd_Flags c, given = args\<rparr>)"

definition run_subcommand ::
  "'s Command \<Rightarrow> string \<Rightarrow> (string \<times> string) list \<Rightarrow> ('s, unit) io option" where
  "run_subcommand parent name args =
     map_option (\<lambda>c. run_command c args) (find (\<lambda>c. cmd_Name c = name) (cmd_Subcommands parent))"

section \<open>The shape the actions share\<close>

definition with_connection ::
  "Context \<Rightarrow> string \<Rightarrow> ('s RuntimeServiceClient \<Rightarrow> ('s, unit) io) \<Rightarrow> ('s, unit) io" where
  "with_connection ctx pre body =
     bind (wrap_err ''failed to connect: '' (getClientConnection ctx)) (\<lambda>conn.
     deferred (Close conn) (bind (NewRuntimeServiceClient conn) (\<lambda>client.
       wrap_err pre (body client))))"

lemma action_defs:
  "runPodSandboxAction ctx =
     with_connection ctx ''Creating the pod sandbox failed: ''
       (\<lambda>client. RunPodSandbox client (ctx_String ctx ''config'') (ctx_String ctx ''name''))"
  "stopPodSandboxAction ctx =
     with_connection ctx ''stopping the pod sandbox failed: ''
       (\<lambda>client. StopPodSandbox client (ctx_String ctx ''id''))"
  "removePodSandboxAction ctx =
     with_connection ctx ''removing the pod sandbox failed: ''
       (\<lambda>client. RemovePodSandbox client (ctx_String ctx ''id''))"
  "podSandboxStatusAction ctx =
     with_connection ctx ''getting the pod sandbox status failed: ''
       (\<lambda>client. PodSandboxStatus client (ctx_String ctx ''id''))"
  "listPodSandboxAction ctx =
     with_connection ctx ''listing pod sandboxes failed: ''
       (\<lambda>client. ListPodSandboxes client (ctx_Bool ctx ''quiet''))"
  by (simp_all add: with_connection_def runPodSandboxAction_def stopPodSandboxAction_def
      removePodSandboxAction_def podSandboxStatusAction_def listPodSandboxAction_def)

text \<open>The world while the connection is open, and after it is closed.\<close>

definition opened :: "'s world \<Rightarrow> 's world" where
  "opened w = w\<lparr>open_conns := Suc (open_conns w)\<rparr>"

definition closed :: "'s world \<Rightarrow> 's world" where
  "closed w = w\<lparr>open_conns := open_conns w - 1\<rparr>"

lemma connect_apply:
  "wrap_err pre (getClientConnection ctx) w =
     (case dial w of
        Some e \<Rightarrow> (Inl (Err (Errorf pre e)), w)
      | None \<Rightarrow> (Inr ClientConn, opened w))"
  by (simp add: wrap_err_def getClientConnection_apply opened_def split: option.splits)

lemma remote_opened [simp]: "remote (opened w) = remote w"
  by (simp add: opened_def)

lemma with_connection_apply:
  "with_connection ctx pre body w =
     (case dial w of
        Some e \<Rightarrow> (Inl (Err (Errorf ''failed to connect: '' e)), w)
      | None \<Rightarrow>
          (fst (wrap_err pre (body (remote w)) (opened w)),
           closed (snd (body (remote w) (opened w)))))"
  by (cases "dial w")
    (simp_all add: with_connection_def bind_apply connect_apply deferred_apply
      NewRuntimeServiceClient_apply gets_apply closed_def Close_def)

lemma with_connection_refused:
  "dial w = Some e \<Longrightarrow>
   with_connection ctx pre body w = (Inl (Err (ErrorString (''failed to connect: '' @ Error e))), w)"
  by (simp add: with_connection_apply Errorf_def)

lemma closed_opened [simp]: "closed (opened w) = w"
  by (simp add: opened_def closed_def)

lemma env_same_opened [simp]:
  "env_same (opened w) w' \<longleftrightarrow>
     open_conns w' = Suc (open_conns w) \<and> dial w' = dial w \<and> files w' = files w \<and>
     remote w' = remote w \<and> local_time w' = local_time w \<and> map_order w' = map_order w"
  by (simp add: env_same_def opened_def)

lemma with_connection_balanced:
  assumes "steps_in env_same (body (remote w))"
  shows "env_same w (snd (with_connection ctx pre body w))"
proof (cases "dial w")
  case None
  from assms have "env_same (opened w) (snd (body (remote w) (opened w)))"
    by (rule steps_inD)
  with None show ?thesis
    by (simp add: with_connection_apply) (simp add: env_same_def closed_def)
next
  case (Some e)
  then show ?thesis by (simp add: with_connection_apply env_same_def)
qed

lemma with_connection_stdout_grows:
  assumes "steps_in stdout_grows (body (remote w))"
  shows "stdout_grows w (snd (with_connection ctx pre body w))"
proof (cases "dial w")
  case None
  from assms have "stdout_grows (opened w) (snd (body (remote w) (opened w)))"
    by (rule steps_inD)
  with None show ?thesis
    by (simp add: with_connection_apply stdout_grows_def opened_def closed_def)
next
  case (Some e)
  then show ?thesis by (simp add: with_connection_apply stdout_grows_def)
qed

section \<open>The table\<close>

lemmas command_defs =
  podSandboxCommand_def runPodSandboxCommand_def stopPodSandboxCommand_def
  removePodSandboxCommand_def podSandboxStatusCommand_def listPodSandboxCommand_def

lemmas flags_defs =
  runPodSandboxFlags_def stopPodSandboxFlags_def removePodSandboxFlags_def
  podSandboxStatusFlags_def listPodSandboxFlags_def

lemma subcommand_names:
  "map cmd_Name (cmd_Subcommands podSandboxCommand) =
     [''create'', ''stop'', ''remove'', ''status'', ''list'']"
  by (simp add: command_defs)

lemma run_subcommand_simps:
  "run_subcommand podSandboxCommand ''create'' args =
     Some (runPodSandboxAction \<lparr>declared = runPodSandboxFlags, given = args\<rparr>)"
  "run_subcommand podSandboxCommand ''stop'' args =
     Some (stopPodSandboxAction \<lparr>declared = stopPodSandboxFlags, given = args\<rparr>)"
  "run_subcommand podSandboxCommand ''remove'' args =
     Some (removePodSandboxAction \<lparr>declared = removePodSandboxFlags, given = args\<rparr>)"
  "run_subcommand podSandboxCommand ''status'' args =
     Some (podSandboxStatusAction \<lparr>declared = podSandboxStatusFlags, given = args\<rparr>)"
  "run_subcommand podSandboxCommand ''list'' args =
     Some (listPodSandboxAction \<lparr>declared = listPodSandboxFlags, given = args\<rparr>)"
  by (simp_all add: run_subcommand_def run_command_def command_defs)

lemma run_subcommand_unknown:
  "name \<notin> set [''create'', ''stop'', ''remove'', ''status'', ''list''] \<Longrightarrow>
   run_subcommand podSandboxCommand name args = None"
  by (auto simp: run_subcommand_def command_defs)

lemma with_connection_calls:
  assumes "steps_in (calls_at_most n) (body (remote w))"
  shows "calls_at_most n w (snd (with_connection ctx pre body w))"
proof (cases "dial w")
  case None
  from assms have "calls_at_most n (opened w) (snd (body (remote w) (opened w)))"
    by (rule steps_inD)
  with None show ?thesis
    by (simp add: with_connection_apply calls_at_most_def opened_def closed_def)
next
  case (Some e)
  then show ?thesis by (simp add: with_connection_apply calls_at_most_def)
qed

lemma with_connection_failure:
  assumes "dial w = None" and "body (remote w) (opened w) = (Inl (Err e), w')"
  shows "with_connection ctx pre body w = (Inl (Err (ErrorString (pre @ Error e))), closed w')"
  using assms by (simp add: with_connection_apply wrap_err_apply Errorf_def)

lemma with_connection_success:
  assumes "dial w = None" and "body (remote w) (opened w) = (Inr (), w')"
  shows "with_connection ctx pre body w = (Inr (), closed w')"
  using assms by (simp add: with_connection_apply wrap_err_apply)

lemma with_connection_panic:
  assumes "dial w = None" and "body (remote w) (opened w) = (Inl Panic, w')"
  shows "with_connection ctx pre body w = (Inl Panic, closed w')"
  using assms by (simp add: with_connection_apply wrap_err_apply)

definition actions :: "(Context \<Rightarrow> ('s, unit) io) list" where
  "actions =
     [runPodSandboxAction, stopPodSandboxAction, removePodSandboxAction,
      podSandboxStatusAction, listPodSandboxAction]"

lemma actions_env_same:
  "env_same w (snd (runPodSandboxAction ctx w))"
  "env_same w (snd (stopPodSandboxAction ctx w))"
  "env_same w (snd (removePodSandboxAction ctx w))"
  "env_same w (snd (podSandboxStatusAction ctx w))"
  "env_same w (snd (listPodSandboxAction ctx w))"
  by (simp_all add: action_defs with_connection_balanced env_same_operations)

lemma actions_stdout_grows:
  "stdout_grows w (snd (runPodSandboxAction ctx w))"
  "stdout_grows w (snd (stopPodSandboxAction ctx w))"
  "stdout_grows w (snd (removePodSandboxAction ctx w))"
  "stdout_grows w (snd (podSandboxStatusAction ctx w))"
  "stdout_grows w (snd (listPodSandboxAction ctx w))"
  by (simp_all add: action_defs with_connection_stdout_grows stdout_grows_operations)

lemma actions_calls:
  "calls_at_most (Suc 0) w (snd (runPodSandboxAction ctx w))"
  "calls_at_most (Suc 0) w (snd (stopPodSandboxAction ctx w))"
  "calls_at_most (Suc 0) w (snd (removePodSandboxAction ctx w))"
  "calls_at_most (Suc 0) w (snd (podSandboxStatusAction ctx w))"
  "calls_at_most (Suc 0) w (snd (listPodSandboxAction ctx w))"
  by (simp_all add: action_defs with_connection_calls one_call_operations)

lemma actions_refused:
  assumes "dial w = Some e"
  shows "list_all (\<lambda>a. a ctx w = (Inl (Err (ErrorString (''failed to connect: '' @ Error e))), w))
    actions"
  using assms by (simp add: actions_def action_defs with_connection_refused)

section \<open>Invocations\<close>

definition invoke ::
  "string \<Rightarrow> (string \<times> string) list \<Rightarrow> 's world \<Rightarrow> (unit result \<times> 's world) option" where
  "invoke name args w = map_option (\<lambda>m. m w) (run_subcommand podSandboxCommand name args)"

lemma invoke_simps:
  "invoke ''create'' args w =
     Some (runPodSandboxAction \<lparr>declared = runPodSandboxFlags, given = args\<rparr> w)"
  "invoke ''stop'' args w =
     Some (stopPodSandboxAction \<lparr>declared = stopPodSandboxFlags, given = args\<rparr> w)"
  "invoke ''remove'' args w =
     Some (removePodSandboxAction \<lparr>declared = removePodSandboxFlags, given = args\<rparr> w)"
  "invoke ''status'' args w =
     Some (podSandboxStatusAction \<lparr>declared = podSandboxStatusFlags, given = args\<rparr> w)"
  "invoke ''list'' args w =
     Some (listPodSandboxAction \<lparr>declared = listPodSandboxFlags, given = args\<rparr> w)"
  by (simp_all add: invoke_def run_subcommand_simps)

lemma flag_values:
  "ctx_String \<lparr>declared = runPodSandboxFlags, given = args\<rparr> ''config'' =
     (case map_of args ''config'' of None \<Rightarrow> ''config.json'' | Some v \<Rightarrow> v)"
  "ctx_String \<lparr>declared = runPodSandboxFlags, given = args\<rparr> ''name'' =
     (case map_of args ''name'' of None \<Rightarrow> [] | Some v \<Rightarrow> v)"
  "ctx_String \<lparr>declared = stopPodSandboxFlags, given = args\<rparr> ''id'' =
     (case map_of args ''id'' of None \<Rightarrow> [] | Some v \<Rightarrow> v)"
  "ctx_String \<lparr>declared = removePodSandboxFlags, given = args\<rparr> ''id'' =
     (case map_of args ''id'' of None \<Rightarrow> [] | Some v \<Rightarrow> v)"
  "ctx_String \<lparr>declared = podSandboxStatusFlags, given = args\<rparr> ''id'' =
     (case map_of args ''id'' of None \<Rightarrow> [] | Some v \<Rightarrow> v)"
  "ctx_Bool \<lparr>declared = listPodSandboxFlags, given = args\<rparr> ''quiet'' \<longleftrightarrow>
     map_of args ''quiet'' = Some ''true''"
  by (simp_all add: ctx_String_def ctx_Bool_def lookup_flag_def flags_defs
      split: option.splits)

lemma closed_opened_update [simp]:
  "closed (opened w\<lparr>server := s, rpc_calls := n\<rparr>) = w\<lparr>server := s, rpc_calls := n\<rparr>"
  "closed (opened w\<lparr>stdout := out, server := s, rpc_calls := n\<rparr>) =
     w\<lparr>stdout := out, server := s, rpc_calls := n\<rparr>"
  "closed (opened w\<lparr>stdout := out, server := s, rpc_calls := n, ranges := k\<rparr>) =
     w\<lparr>stdout := out, server := s, rpc_calls := n, ranges := k\<rparr>"
  by (simp_all add: opened_def closed_def)

lemma opened_simps [simp]:
  "stdout (opened w) = stdout w" "server (opened w) = server w"
  "rpc_calls (opened w) = rpc_calls w" "files (opened w) = files w"
  "ranges (opened w) = ranges w" "map_order (opened w) = map_order w"
  "local_time (opened w) = local_time w" "dial (opened w) = dial w"
  by (simp_all add: opened_def)

section \<open>Properties of the actions\<close>

fun is_ErrorString :: "error \<Rightarrow> bool" where
  "is_ErrorString (ErrorString msg) = True"
| "is_ErrorString e = False"

fun plain_failure :: "'a result \<Rightarrow> bool" where
  "plain_failure (Inl (Err e)) = is_ErrorString e"
| "plain_failure r = True"

lemma plain_failure_with_connection: "plain_failure (fst (with_connection ctx pre body w))"
  by (simp add: with_connection_apply wrap_err_apply Errorf_def
      split: option.split sum.split failure.split)

text \<open>
  C7: Every action closes the connection it opened: after a run of any of the five
  actions, whatever its outcome (return, error or panic), as many connections are open
  as before.
\<close>

theorem actions_release_connection:
  "list_all (\<lambda>a. open_conns (snd (a ctx w)) = open_conns w) actions"
  using actions_env_same [of w ctx] by (simp add: actions_def env_same_def)

text \<open>
  C11: When the connection cannot be established, every action returns the error
  \<^verbatim>\<open>failed to connect: \<close> followed by the message of the cause, and leaves the world as it
  was: no request is issued, nothing is printed, no connection stays open.
\<close>

theorem actions_connect_failure:
  "dial w = Some e \<Longrightarrow>
   list_all (\<lambda>a. a ctx w = (Inl (Err (ErrorString (''failed to connect: '' @ Error e))), w))
     actions"
  by (rule actions_refused)

theorem actions_connect_failure_witness:
  "list_all
     (\<lambda>a. a \<lparr>declared = [], given = []\<rparr>
            ((test_world ok_replies)\<lparr>dial := Some (ConnError ''connection refused'')\<rparr>) =
          (Inl (Err (ErrorString ''failed to connect: connection refused'')),
           (test_world ok_replies)\<lparr>dial := Some (ConnError ''connection refused'')\<rparr>))
     actions"
  using actions_connect_failure [of "(test_world ok_replies)\<lparr>dial := Some (ConnError ''connection refused'')\<rparr>"
      "ConnError ''connection refused''" "\<lparr>declared = [], given = []\<rparr>"]
  by simp

text \<open>
  C16: A run of an action issues at most one request to the service.
\<close>

theorem actions_one_request:
  "list_all (\<lambda>a. rpc_calls (snd (a ctx w)) \<le> Suc (rpc_calls w)) actions"
  using actions_calls [of w ctx] by (simp add: actions_def calls_at_most_def)

text \<open>
  The actions only append to the standard output: what was written before a run
  is a prefix of what is written after it.
\<close>

theorem actions_keep_output:
  "list_all (\<lambda>a. prefix (stdout w) (stdout (snd (a ctx w)))) actions"
  using actions_stdout_grows [of w ctx] by (simp add: actions_def stdout_grows_def)

text \<open>
  C30: Whatever the kind of the error inside (connection, configuration, service or
  validation), the error an action returns is a plain string error made by
  \<^verbatim>\<open>fmt.Errorf\<close>: the kind of the cause cannot be recovered from it.
\<close>

theorem action_errors_are_strings:
  "list_all (\<lambda>a. plain_failure (fst (a ctx w))) actions"
  by (simp add: actions_def action_defs plain_failure_with_connection)

end
