(* ===== verification/Session.thy ===== *)
theory Session
  imports Commands
begin

text \<open>
  Command lines and sequences of them. An invocation \<open>Pod name args\<close> is the command
  line \<^verbatim>\<open>pod name --flag=value ...\<close>; \<open>step\<close> relates the world before an invocation to
  the world after it, \<open>steps\<close> does so for a sequence, and \<open>exec\<close> and \<open>session\<close> are
  the functions that compute them. Each invocation is a process of its own: a panic or
  an error ends the process, not the session, and the world (the terminal, the service)
  goes on. The lemmas: an invocation sends the request of theory \<open>Request_Spec\<close>; the
  frame of one invocation, lifted to sessions by rule induction.
\<close>

section \<open>What an invocation sends\<close>

lemma flag_values_arg:
  "ctx_String \<lparr>declared = runPodSandboxFlags, given = args\<rparr> ''config'' = arg args ''config'' ''config.json''"
  "ctx_String \<lparr>declared = runPodSandboxFlags, given = args\<rparr> ''name'' = arg args ''name'' []"
  "ctx_String \<lparr>declared = stopPodSandboxFlags, given = args\<rparr> ''id'' = arg args ''id'' []"
  "ctx_String \<lparr>declared = removePodSandboxFlags, given = args\<rparr> ''id'' = arg args ''id'' []"
  "ctx_String \<lparr>declared = podSandboxStatusFlags, given = args\<rparr> ''id'' = arg args ''id'' []"
  by (simp_all add: flag_values arg_def)

text \<open>The log of the stand-in after a run of an operation.\<close>

lemma server_prints_only: "steps_in prints_only m \<Longrightarrow> server (snd (m w)) = server w"
  by (auto dest: steps_inD [of _ _ w] simp: prints_only_def)

lemma log_after_operation:
  "server (snd (RunPodSandbox (stand_in rs) path name w)) =
     server w @ sent (case files w path of Inl e \<Rightarrow> None
       | Inr config \<Rightarrow> map_option (\<lambda>c. Run_req \<lparr>Config = Some c\<rparr>) (named_config name config))"
  "server (snd (StopPodSandbox (stand_in rs) ID w)) =
     server w @ sent (if ID = [] then None else Some (Stop_req \<lparr>Stop_PodSandboxId = Some ID\<rparr>))"
  "server (snd (RemovePodSandbox (stand_in rs) ID w)) =
     server w @ sent (if ID = [] then None else Some (Remove_req \<lparr>Remove_PodSandboxId = Some ID\<rparr>))"
  "server (snd (PodSandboxStatus (stand_in rs) ID w)) =
     server w @ sent (if ID = [] then None else Some (Status_req \<lparr>Status_PodSandboxId = Some ID\<rparr>))"
  "server (snd (ListPodSandboxes (stand_in rs) quiet w)) = server w @ [List_req \<lparr>Filter = None\<rparr>]"
proof -
  show "server (snd (RunPodSandbox (stand_in rs) path name w)) =
     server w @ sent (case files w path of Inl e \<Rightarrow> None
       | Inr config \<Rightarrow> map_option (\<lambda>c. Run_req \<lparr>Config = Some c\<rparr>) (named_config name config))"
    by (simp add: RunPodSandbox_apply split: sum.split option.split)
  show "server (snd (StopPodSandbox (stand_in rs) ID w)) =
     server w @ sent (if ID = [] then None else Some (Stop_req \<lparr>Stop_PodSandboxId = Some ID\<rparr>))"
    by (simp add: StopPodSandbox_apply split: sum.split)
  show "server (snd (RemovePodSandbox (stand_in rs) ID w)) =
     server w @ sent (if ID = [] then None else Some (Remove_req \<lparr>Remove_PodSandboxId = Some ID\<rparr>))"
    by (simp add: RemovePodSandbox_apply split: sum.split)
  show "server (snd (PodSandboxStatus (stand_in rs) ID w)) =
     server w @ sent (if ID = [] then None else Some (Status_req \<lparr>Status_PodSandboxId = Some ID\<rparr>))"
    by (simp add: PodSandboxStatus_apply server_prints_only [OF prints_only_print_status]
        split: sum.split)
  show "server (snd (ListPodSandboxes (stand_in rs) quiet w)) = server w @ [List_req \<lparr>Filter = None\<rparr>]"
    by (simp add: ListPodSandboxes_apply server_prints_only [OF prints_only_for_each_print_pod]
        split: sum.split)
qed

lemma server_with_connection:
  "dial w = None \<Longrightarrow>
   server (snd (with_connection ctx pre body w)) = server (snd (body (remote w) (opened w)))"
  by (simp add: with_connection_apply closed_def)

lemma invoke_cases:
  assumes "invoke name args w = Some x"
  obtains "name = ''create''" | "name = ''stop''" | "name = ''remove''" | "name = ''status''"
    | "name = ''list''"
proof (cases "name \<in> set [''create'', ''stop'', ''remove'', ''status'', ''list'']")
  case True
  then have "name = ''create'' \<or> name = ''stop'' \<or> name = ''remove'' \<or> name = ''status'' \<or>
      name = ''list''"
    by (simp only: list.set insert_iff empty_iff simp_thms)
  then show thesis
    by (elim disjE) (rule that, assumption)+
next
  case False
  from run_subcommand_unknown [OF this] have "invoke name args w = None"
    by (simp add: invoke_def)
  with assms show thesis by simp
qed

lemma invoke_sends_built_request_aux:
  assumes "dial w = None" and "remote w = stand_in rs" and "invoke name args w = Some (r, w')"
  shows "server w' = server w @ sent (build_request (files w) name args)"
proof -
  from assms(3) have "w' = snd (the (invoke name args w))"
    by simp
  with assms(1,2) show ?thesis
    by (cases rule: invoke_cases [OF assms(3)])
      (simp_all add: invoke_simps action_defs flag_values_arg build_request_def
        server_with_connection log_after_operation)
qed

text \<open>
  C13: Against the stand-in, a command line sends exactly the request that the
  request builder of the specification assigns to it: after the invocation the log of
  the service is the log before it followed by \<open>build_request\<close> of the configuration
  files, the subcommand and its flags, and by nothing when the builder rejects the
  input.
\<close>

theorem invoke_sends_built_request:
  assumes "dial w = None" and "remote w = stand_in rs" and "invoke name args w = Some (r, w')"
  shows "server w' = server w @ sent (build_request (files w) name args)"
  using assms by (rule invoke_sends_built_request_aux)

theorem invoke_sends_built_request_witness:
  "server (snd (the (invoke ''create'' [(''name'', ''B'')] (test_world ok_replies)))) =
     [Run_req \<lparr>Config = Some (test_config
        \<lparr>PodSandboxConfig.Metadata := Some (test_metadata\<lparr>Name := Some ''B''\<rparr>)\<rparr>)\<rparr>]"
  using invoke_sends_built_request [of "test_world ok_replies" ok_replies "''create''"
      "[(''name'', ''B'')]"
      "fst (the (invoke ''create'' [(''name'', ''B'')] (test_world ok_replies)))"
      "snd (the (invoke ''create'' [(''name'', ''B'')] (test_world ok_replies)))"]
  by (simp add: invoke_simps build_request_def arg_def test_files_def named_config_def
      test_config_def)

section \<open>Sessions\<close>

datatype invocation = Pod string "(string \<times> string) list"

inductive step :: "'s world \<Rightarrow> invocation \<Rightarrow> 's world \<Rightarrow> bool" where
  step_run: "invoke name args w = Some (r, w') \<Longrightarrow> step w (Pod name args) w'"
| step_unknown: "invoke name args w = None \<Longrightarrow> step w (Pod name args) w"

inductive steps :: "'s world \<Rightarrow> invocation list \<Rightarrow> 's world \<Rightarrow> bool" where
  steps_Nil: "steps w [] w"
| steps_Cons: "step w i w' \<Longrightarrow> steps w' is w'' \<Longrightarrow> steps w (i # is) w''"

inductive_cases step_PodE: "step w (Pod name args) w'"
inductive_simps steps_Nil_iff: "steps w [] w'"
inductive_simps steps_Cons_iff: "steps w (i # is) w'"

fun exec :: "invocation \<Rightarrow> 's world \<Rightarrow> 's world" where
  "exec (Pod name args) w = (case invoke name args w of None \<Rightarrow> w | Some (r, w') \<Rightarrow> w')"

definition session :: "invocation list \<Rightarrow> 's world \<Rightarrow> 's world" where
  "session is w = foldl (\<lambda>w i. exec i w) w is"

definition session_requests ::
  "(string \<Rightarrow> error + PodSandboxConfig) \<Rightarrow> invocation list \<Rightarrow> request list" where
  "session_requests fs is =
     concat (map (\<lambda>i. case i of Pod name args \<Rightarrow> sent (build_request fs name args)) is)"

lemma step_exec: "step w i w' \<longleftrightarrow> w' = exec i w"
  by (cases i) (auto elim!: step_PodE intro: step.intros split: option.splits)

lemma steps_session: "steps w is w' \<longleftrightarrow> w' = session is w"
  by (induction "is" arbitrary: w) (auto simp: steps_Nil_iff steps_Cons_iff step_exec session_def)

lemma invoke_action:
  assumes "invoke name args w = Some x"
  shows "\<exists>a \<in> set actions. \<exists>ctx. x = a ctx w"
  using assms by (cases rule: invoke_cases [OF assms]) (auto simp: invoke_simps actions_def)

definition session_frame :: "nat \<Rightarrow> 's world \<Rightarrow> 's world \<Rightarrow> bool" where
  "session_frame n w w' \<longleftrightarrow> env_same w w' \<and> stdout_grows w w' \<and> calls_at_most n w w'"

lemma session_frame_refl [simp]: "session_frame 0 w w"
  by (simp add: session_frame_def calls_at_most_def reflpD)

lemma session_frame_trans:
  "session_frame m w w' \<Longrightarrow> session_frame n w' w'' \<Longrightarrow> session_frame (m + n) w w''"
  by (auto simp: session_frame_def calls_at_most_def env_same_def stdout_grows_def)

lemma actions_frame:
  "a \<in> set actions \<Longrightarrow> session_frame (Suc 0) w (snd (a ctx w))"
  using actions_env_same [of w ctx] actions_stdout_grows [of w ctx] actions_calls [of w ctx]
  by (auto simp: actions_def session_frame_def)

lemma step_frame: "step w i w' \<Longrightarrow> session_frame (Suc 0) w w'"
proof (induction rule: step.induct)
  case (step_run name args w r w')
  then obtain a ctx where "a \<in> set actions" and "(r, w') = a ctx w"
    by (blast dest: invoke_action)
  then show ?case
    using actions_frame [of a w ctx] by (metis snd_conv)
next
  case (step_unknown name args w)
  show ?case
    by (simp add: session_frame_def calls_at_most_def reflpD)
qed

text \<open>
  C14: After any sequence of command lines, known or unknown, failing or not, no
  connection is left open, what was on the standard output before is still there, and
  the service has received at most one request per command line.
\<close>

theorem session_invariant:
  assumes "steps w is w'"
  shows "open_conns w' = open_conns w \<and> prefix (stdout w) (stdout w') \<and>
     rpc_calls w' \<le> rpc_calls w + length is"
proof -
  from assms have "session_frame (length is) w w'"
  proof (induction rule: steps.induct)
    case (steps_Nil w)
    show ?case by simp
  next
    case (steps_Cons w i w' "is" w'')
    from session_frame_trans [OF step_frame [OF steps_Cons.hyps(1)] steps_Cons.IH]
    show ?case by simp
  qed
  then show ?thesis
    by (simp add: session_frame_def env_same_def stdout_grows_def calls_at_most_def)
qed

theorem session_invariant_witness:
  "open_conns (session [Pod ''stop'' [(''id'', ''p1'')], Pod ''help'' [], Pod ''list'' []]
       (test_world ok_replies)) = 0 \<and>
   rpc_calls (session [Pod ''stop'' [(''id'', ''p1'')], Pod ''help'' [], Pod ''list'' []]
       (test_world ok_replies)) \<le> 3"
  using session_invariant [of "test_world ok_replies"
      "[Pod ''stop'' [(''id'', ''p1'')], Pod ''help'' [], Pod ''list'' []]"
      "session [Pod ''stop'' [(''id'', ''p1'')], Pod ''help'' [], Pod ''list'' []]
         (test_world ok_replies)"]
  by (simp add: steps_session)

section \<open>The log of a session\<close>

lemma build_request_unknown:
  "name \<notin> set [''create'', ''stop'', ''remove'', ''status'', ''list''] \<Longrightarrow>
   build_request fs name args = None"
  by (simp add: build_request_def)

lemma invoke_None:
  assumes "invoke name args w = None"
  shows "name \<notin> set [''create'', ''stop'', ''remove'', ''status'', ''list'']"
  using assms invoke_simps [of args w] by auto

lemma exec_log:
  assumes "dial w = None" and "remote w = stand_in rs"
  shows "server (exec (Pod name args) w) = server w @ sent (build_request (files w) name args)"
proof (cases "invoke name args w")
  case None
  then have "build_request (files w) name args = None"
    by (intro build_request_unknown invoke_None)
  with None show ?thesis by simp
next
  case (Some x)
  then have "invoke name args w = Some (fst x, snd x)" by simp
  from invoke_sends_built_request_aux [OF assms this] Some show ?thesis
    by (simp add: case_prod_beta)
qed

text \<open>
  Against the stand-in, with a connection that can be established, the log of
  the service after a sequence of command lines is the sequence of the requests the
  request builder assigns to them, in order; a command line the builder rejects
  contributes nothing.
\<close>

theorem session_log:
  assumes "dial w = None" and "remote w = stand_in rs"
  shows "server (session is w) = server w @ session_requests (files w) is"
  using assms
proof (induction "is" arbitrary: w)
  case Nil
  show ?case by (simp add: session_def session_requests_def)
next
  case (Cons i "is")
  obtain name args where i: "i = Pod name args" by (cases i)
  have "session_frame (Suc 0) w (exec i w)"
    by (rule step_frame) (simp add: step_exec)
  then have env: "dial (exec i w) = dial w" "remote (exec i w) = remote w"
    "files (exec i w) = files w"
    by (simp_all add: session_frame_def env_same_def)
  from Cons.prems env have "server (session is (exec i w)) =
      server (exec i w) @ session_requests (files (exec i w)) is"
    by (intro Cons.IH) simp_all
  then have rest: "server (session is (exec i w)) =
      server (exec i w) @ session_requests (files w) is"
    by (simp only: env)
  have first: "server (exec i w) = server w @ sent (build_request (files w) name args)"
    unfolding i by (rule exec_log [OF Cons.prems])
  have "session (i # is) w = session is (exec i w)"
    by (simp add: session_def)
  moreover have "session_requests (files w) (i # is) =
      sent (build_request (files w) name args) @ session_requests (files w) is"
    by (simp add: session_requests_def i)
  ultimately show ?case
    by (simp only: rest first append_assoc)
qed

theorem session_log_witness:
  "server (session [Pod ''stop'' [(''id'', ''p1'')], Pod ''stop'' [], Pod ''list'' [(''quiet'', ''true'')]]
     (test_world ok_replies)) =
   [Stop_req \<lparr>Stop_PodSandboxId = Some ''p1''\<rparr>, List_req \<lparr>Filter = None\<rparr>]"
  using session_log [of "test_world ok_replies" ok_replies
      "[Pod ''stop'' [(''id'', ''p1'')], Pod ''stop'' [], Pod ''list'' [(''quiet'', ''true'')]]"]
  by (simp add: session_requests_def build_request_def arg_def)

section \<open>The requests of a session are well-formed\<close>

lemma wf_session_requests: "list_all wf_request (session_requests fs is)"
  by (induction "is") (simp_all add: session_requests_def wf_build_request split: invocation.split)

text \<open>
  C34: The client keeps the log of the service well-formed: whatever the command
  lines of a session are, every request it sends has the fields the contract requires,
  a configuration for a create request, an identifier that is not empty for a stop,
  remove or status request, and no filter for a list request.
\<close>

theorem session_sends_wf_requests:
  assumes "dial w = None" and "remote w = stand_in rs" and "list_all wf_request (server w)"
  shows "list_all wf_request (server (session is w))"
  using assms by (simp add: session_log wf_session_requests)

theorem session_sends_wf_requests_witness:
  "list_all wf_request (server (session
     [Pod ''create'' [(''name'', ''B'')], Pod ''stop'' [], Pod ''status'' [(''id'', ''p1'')],
      Pod ''bogus'' [], Pod ''list'' [(''quiet'', ''true'')]] (test_world ok_replies)))"
  by (rule session_sends_wf_requests [where rs = ok_replies]) simp_all

end
