(* ===== verification/Fake_Runtime.thy ===== *)
theory Fake_Runtime
  imports Stand_In Render_Spec
begin

text \<open>
  A runtime service with a state: the sandboxes it holds, in the order of their
  creation, a counter for fresh identifiers and a clock. It implements the five methods
  of the client interface the way section 3 of the specification describes the service:
  it hands out the identifiers, enforces that a sandbox exists before it is stopped,
  removed or inspected, and owns the lifecycle state, \<^verbatim>\<open>READY\<close> after creation and
  \<^verbatim>\<open>NOT_READY\<close> after a stop. The client of \<^verbatim>\<open>sandbox.go\<close> is written against any
  service; this one is the reference used to state what sequences of command lines
  achieve.

  \<open>serve\<close> is the transition function of the service, one request at a time;
  \<open>reachable\<close> are the states it can get into from \<open>init_runtime\<close>. The invariant
  \<open>wf_runtime\<close> says that the identifiers are distinct and were all handed out by the
  counter, and that every status held is \<open>complete\<close>: it has the fields the client
  dereferences. It holds in every reachable state.
\<close>

section \<open>State\<close>

record runtime =
  sandboxes :: "PodSandboxStatus_pb list"
  next_id :: nat
  now :: "64 word"

definition init_runtime :: runtime where
  "init_runtime = \<lparr>sandboxes = [], next_id = 0, now = 0\<rparr>"

definition sandbox_id :: "nat \<Rightarrow> string" where
  "sandbox_id k = ''pod'' @ decimal k"

definition has_id :: "string \<Rightarrow> PodSandboxStatus_pb \<Rightarrow> bool" where
  "has_id x st \<longleftrightarrow> Id st = Some x"

definition id_of :: "PodSandboxStatus_pb \<Rightarrow> string list" where
  "id_of st = (case Id st of None \<Rightarrow> [] | Some x \<Rightarrow> [x])"

definition sandbox_ids :: "runtime \<Rightarrow> string list" where
  "sandbox_ids s = concat (map id_of (sandboxes s))"

definition not_found :: "string \<Rightarrow> error" where
  "not_found x = RpcError (''rpc error: sandbox '' @ x @ '' not found'')"

definition no_id :: error where
  "no_id = RpcError ''rpc error: no sandbox id''"

section \<open>The methods\<close>

definition new_sandbox :: "runtime \<Rightarrow> PodSandboxConfig \<Rightarrow> PodSandboxStatus_pb" where
  "new_sandbox s c =
     \<lparr>Id = Some (sandbox_id (next_id s)),
      Metadata = PodSandboxConfig.Metadata c,
      State = Some READY,
      CreatedAt = Some (now s),
      Labels = PodSandboxConfig.Labels c,
      Annotations = PodSandboxConfig.Annotations c,
      Network = Some \<lparr>Ip = Some (''10.88.0.'' @ decimal (next_id s))\<rparr>,
      Linux = Some \<lparr>Namespaces =
        Some \<lparr>Namespace_pb.Network = Some (''/var/run/netns/'' @ sandbox_id (next_id s))\<rparr>\<rparr>\<rparr>"

definition fake_run :: "(runtime, RunPodSandboxRequest, RunPodSandboxResponse) rpc" where
  "fake_run req s =
     (case Config req of
        None \<Rightarrow> (Inl (RpcError ''rpc error: no sandbox config''), s)
      | Some c \<Rightarrow>
          (Inr \<lparr>PodSandboxId = Some (sandbox_id (next_id s))\<rparr>,
           s\<lparr>sandboxes := sandboxes s @ [new_sandbox s c], next_id := Suc (next_id s),
             now := now s + 1\<rparr>))"

definition stopped :: "string \<Rightarrow> PodSandboxStatus_pb \<Rightarrow> PodSandboxStatus_pb" where
  "stopped x st = (if has_id x st then st\<lparr>State := Some NOT_READY\<rparr> else st)"

definition with_sandbox ::
  "string option \<Rightarrow> runtime \<Rightarrow> (string \<Rightarrow> PodSandboxStatus_pb \<Rightarrow> (error + 'a) \<times> runtime) \<Rightarrow>
   (error + 'a) \<times> runtime" where
  "with_sandbox p s f =
     (case p of
        None \<Rightarrow> (Inl no_id, s)
      | Some x \<Rightarrow>
          (case find (has_id x) (sandboxes s) of
             None \<Rightarrow> (Inl (not_found x), s)
           | Some st \<Rightarrow> f x st))"

definition fake_stop :: "(runtime, StopPodSandboxRequest, StopPodSandboxResponse) rpc" where
  "fake_stop req s =
     with_sandbox (Stop_PodSandboxId req) s (\<lambda>x st.
       (Inr StopPodSandboxResponse, s\<lparr>sandboxes := map (stopped x) (sandboxes s)\<rparr>))"

definition fake_remove :: "(runtime, RemovePodSandboxRequest, RemovePodSandboxResponse) rpc" where
  "fake_remove req s =
     with_sandbox (Remove_PodSandboxId req) s (\<lambda>x st.
       (Inr RemovePodSandboxResponse,
        s\<lparr>sandboxes := filter (\<lambda>st. \<not> has_id x st) (sandboxes s)\<rparr>))"

definition fake_status :: "(runtime, PodSandboxStatusRequest, PodSandboxStatusResponse) rpc" where
  "fake_status req s =
     with_sandbox (Status_PodSandboxId req) s (\<lambda>x st. (Inr \<lparr>Status = Some st\<rparr>, s))"

definition fake_list :: "(runtime, ListPodSandboxRequest, ListPodSandboxResponse) rpc" where
  "fake_list req s = (Inr \<lparr>Items = map summary_of (sandboxes s)\<rparr>, s)"

definition fake_runtime :: "runtime RuntimeServiceClient" where
  "fake_runtime =
     \<lparr>RunPodSandbox_rpc = fake_run, StopPodSandbox_rpc = fake_stop,
      RemovePodSandbox_rpc = fake_remove, PodSandboxStatus_rpc = fake_status,
      ListPodSandbox_rpc = fake_list\<rparr>"

lemma fake_runtime_simps [simp]:
  "RunPodSandbox_rpc fake_runtime = fake_run"
  "StopPodSandbox_rpc fake_runtime = fake_stop"
  "RemovePodSandbox_rpc fake_runtime = fake_remove"
  "PodSandboxStatus_rpc fake_runtime = fake_status"
  "ListPodSandbox_rpc fake_runtime = fake_list"
  by (simp_all add: fake_runtime_def)

section \<open>Transitions and reachable states\<close>

text \<open>What a client does to the state of a service with one request.\<close>

fun apply_request :: "'s RuntimeServiceClient \<Rightarrow> request \<Rightarrow> 's \<Rightarrow> 's" where
  "apply_request c (Run_req r) s = snd (RunPodSandbox_rpc c r s)"
| "apply_request c (Stop_req r) s = snd (StopPodSandbox_rpc c r s)"
| "apply_request c (Remove_req r) s = snd (RemovePodSandbox_rpc c r s)"
| "apply_request c (Status_req r) s = snd (PodSandboxStatus_rpc c r s)"
| "apply_request c (List_req r) s = snd (ListPodSandbox_rpc c r s)"

definition serve :: "request \<Rightarrow> runtime \<Rightarrow> runtime" where
  "serve = apply_request fake_runtime"

inductive reachable :: "runtime \<Rightarrow> bool" where
  reachable_init: "reachable init_runtime"
| reachable_serve: "reachable s \<Longrightarrow> reachable (serve q s)"

section \<open>The invariant\<close>

definition complete :: "PodSandboxStatus_pb \<Rightarrow> bool" where
  "complete st \<longleftrightarrow>
     Id st \<noteq> None \<and> State st \<noteq> None \<and> CreatedAt st \<noteq> None \<and> netns_of st \<noteq> None \<and>
     ip_of st \<noteq> None"

definition issued :: "nat \<Rightarrow> string \<Rightarrow> bool" where
  "issued n x \<longleftrightarrow> (\<exists>k < n. x = sandbox_id k)"

definition wf_runtime :: "runtime \<Rightarrow> bool" where
  "wf_runtime s \<longleftrightarrow>
     list_all complete (sandboxes s) \<and> distinct (sandbox_ids s) \<and>
     list_all (issued (next_id s)) (sandbox_ids s)"

lemma sandbox_id_inj [simp]: "sandbox_id j = sandbox_id k \<longleftrightarrow> j = k"
  by (auto simp: sandbox_id_def dest: decimal_inj)

lemma sandbox_id_nonempty [simp]: "sandbox_id k \<noteq> []"
  by (simp add: sandbox_id_def)

lemma issued_mono: "issued n x \<Longrightarrow> n \<le> m \<Longrightarrow> issued m x"
  by (auto simp: issued_def)

lemma issued_nonempty: "issued n x \<Longrightarrow> x \<noteq> []"
  by (auto simp: issued_def)

lemma not_issued_next [simp]: "\<not> issued n (sandbox_id n)"
  by (simp add: issued_def)

lemma id_of_simps [simp]:
  "id_of (stopped x st) = id_of st"
  "id_of (new_sandbox s c) = [sandbox_id (next_id s)]"
  by (simp_all add: id_of_def stopped_def new_sandbox_def)

lemma complete_stopped [simp]: "complete st \<Longrightarrow> complete (stopped x st)"
  by (simp add: complete_def stopped_def netns_of_def ip_of_def)

lemma complete_new_sandbox [simp]: "complete (new_sandbox s c)"
  by (simp add: complete_def new_sandbox_def netns_of_def ip_of_def)

lemma issued_next [simp]: "issued (Suc n) (sandbox_id n)"
  by (auto simp: issued_def)

lemma find_SomeD: "find P xs = Some x \<Longrightarrow> x \<in> set xs \<and> P x"
  by (induction xs) (auto split: if_splits)

lemma find_append_eq:
  "find P (xs @ ys) = (case find P xs of None \<Rightarrow> find P ys | Some x \<Rightarrow> Some x)"
  by (induction xs) simp_all

lemma sandbox_ids_simps [simp]:
  "sandbox_ids (s\<lparr>sandboxes := xs, next_id := n, now := t\<rparr>) = concat (map id_of xs)"
  "sandbox_ids (s\<lparr>sandboxes := xs\<rparr>) = concat (map id_of xs)"
  by (simp_all add: sandbox_ids_def)


lemma distinct_ids_filter:
  "distinct (concat (map id_of xs)) \<Longrightarrow> distinct (concat (map id_of (filter P xs)))"
  by (induction xs) (auto simp: id_of_def split: option.splits)

lemma set_ids_filter:
  "set (concat (map id_of (filter P xs))) \<subseteq> set (concat (map id_of xs))"
  by (induction xs) auto

lemma wf_runtime_init [simp]: "wf_runtime init_runtime"
  by (simp add: wf_runtime_def init_runtime_def sandbox_ids_def)

lemma wf_runtime_run:
  assumes "wf_runtime s"
  shows "wf_runtime (snd (fake_run req s))"
proof (cases "Config req")
  case None
  with assms show ?thesis by (simp add: fake_run_def)
next
  case (Some c)
  from assms have "sandbox_id (next_id s) \<notin> set (sandbox_ids s)"
    by (auto simp: wf_runtime_def list_all_iff)
  moreover from assms have "list_all (issued (Suc (next_id s))) (sandbox_ids s)"
    by (auto simp: wf_runtime_def list_all_iff intro: issued_mono)
  ultimately show ?thesis
    using assms Some by (simp add: wf_runtime_def fake_run_def sandbox_ids_def)
qed

lemma wf_runtime_stop: "wf_runtime s \<Longrightarrow> wf_runtime (snd (fake_stop req s))"
  by (simp add: wf_runtime_def fake_stop_def with_sandbox_def sandbox_ids_def list_all_iff
      comp_def split: option.splits)

lemma wf_runtime_remove: "wf_runtime s \<Longrightarrow> wf_runtime (snd (fake_remove req s))"
  using set_ids_filter [of "\<lambda>st. \<not> has_id x st" "sandboxes s" for x]
  by (auto simp: wf_runtime_def fake_remove_def with_sandbox_def sandbox_ids_def list_all_iff
      distinct_ids_filter split: option.splits)

lemma wf_runtime_status [simp]: "snd (fake_status req s) = s"
  by (simp add: fake_status_def with_sandbox_def split: option.splits)

lemma wf_runtime_list [simp]: "snd (fake_list req s) = s"
  by (simp add: fake_list_def)

lemma wf_runtime_serve: "wf_runtime s \<Longrightarrow> wf_runtime (serve q s)"
  by (cases q) (simp_all add: serve_def wf_runtime_run wf_runtime_stop wf_runtime_remove)

lemma reachable_wf: "reachable s \<Longrightarrow> wf_runtime s"
  by (induction rule: reachable.induct) (simp_all add: wf_runtime_serve)

section \<open>Looking a sandbox up\<close>

lemma find_has_id_None: "find (has_id x) xs = None \<longleftrightarrow> x \<notin> set (concat (map id_of xs))"
  by (induction xs) (auto simp: has_id_def id_of_def split: option.splits)

lemma find_new_sandbox:
  assumes "wf_runtime s"
  shows "find (has_id (sandbox_id (next_id s))) (sandboxes s @ [new_sandbox s c]) =
    Some (new_sandbox s c)"
proof -
  from assms have "sandbox_id (next_id s) \<notin> set (sandbox_ids s)"
    by (auto simp: wf_runtime_def list_all_iff)
  then have "find (has_id (sandbox_id (next_id s))) (sandboxes s) = None"
    by (simp add: find_has_id_None sandbox_ids_def)
  then show ?thesis
    by (simp add: find_append_eq has_id_def new_sandbox_def)
qed

lemma complete_found:
  "wf_runtime s \<Longrightarrow> find (has_id x) (sandboxes s) = Some st \<Longrightarrow> complete st"
  by (auto simp: wf_runtime_def list_all_iff dest: find_SomeD)

end
