(* ===== verification/Runtime_Spec.thy ===== *)
theory Runtime_Spec
  imports Fake_Runtime
begin

text \<open>
  What the runtime promises, without the list it keeps: the sandboxes as a partial map
  from identifiers to statuses, with the counter and the clock. \<open>spec_apply\<close> is the
  effect of one request on this state and \<open>replay\<close> that of a list of requests.
  \<open>abs_runtime\<close> reads the state of the runtime of theory \<open>Fake_Runtime\<close> as such a
  map; the refinement lemmas say that each method of the runtime does on the list what
  the specification does on the map, and that its answers are those the map determines.
\<close>

section \<open>The specification\<close>

record pods_spec =
  pods :: "string \<rightharpoonup> PodSandboxStatus_pb"
  fresh :: nat
  clock :: "64 word"

definition created :: "nat \<Rightarrow> 64 word \<Rightarrow> PodSandboxConfig \<Rightarrow> PodSandboxStatus_pb" where
  "created k t c = new_sandbox \<lparr>sandboxes = [], next_id = k, now = t\<rparr> c"

fun spec_apply :: "request \<Rightarrow> pods_spec \<Rightarrow> pods_spec" where
  "spec_apply (Run_req r) a =
     (case Config r of
        None \<Rightarrow> a
      | Some c \<Rightarrow>
          a\<lparr>pods := (pods a)(sandbox_id (fresh a) \<mapsto> created (fresh a) (clock a) c),
            fresh := Suc (fresh a), clock := clock a + 1\<rparr>)"
| "spec_apply (Stop_req r) a =
     (case Stop_PodSandboxId r of
        None \<Rightarrow> a
      | Some x \<Rightarrow>
          (case pods a x of
             None \<Rightarrow> a
           | Some st \<Rightarrow> a\<lparr>pods := (pods a)(x \<mapsto> st\<lparr>State := Some NOT_READY\<rparr>)\<rparr>))"
| "spec_apply (Remove_req r) a =
     (case Remove_PodSandboxId r of
        None \<Rightarrow> a
      | Some x \<Rightarrow> a\<lparr>pods := (pods a)(x := None)\<rparr>)"
| "spec_apply (Status_req r) a = a"
| "spec_apply (List_req r) a = a"

definition replay :: "request list \<Rightarrow> pods_spec \<Rightarrow> pods_spec" where
  "replay qs a = foldl (\<lambda>a q. spec_apply q a) a qs"

lemma replay_simps [simp]:
  "replay [] a = a"
  "replay (q # qs) a = replay qs (spec_apply q a)"
  "replay (qs @ qs') a = replay qs' (replay qs a)"
  by (simp_all add: replay_def)

section \<open>The abstraction\<close>

definition lookup :: "PodSandboxStatus_pb list \<Rightarrow> string \<rightharpoonup> PodSandboxStatus_pb" where
  "lookup xs x = find (has_id x) xs"

definition abs_runtime :: "runtime \<Rightarrow> pods_spec" where
  "abs_runtime s = \<lparr>pods = lookup (sandboxes s), fresh = next_id s, clock = now s\<rparr>"

lemma abs_runtime_simps [simp]:
  "pods (abs_runtime s) = lookup (sandboxes s)"
  "fresh (abs_runtime s) = next_id s"
  "clock (abs_runtime s) = now s"
  by (simp_all add: abs_runtime_def)

lemma abs_runtime_init [simp]:
  "abs_runtime init_runtime = \<lparr>pods = Map.empty, fresh = 0, clock = 0\<rparr>"
  by (simp add: abs_runtime_def init_runtime_def lookup_def fun_eq_iff)

lemma new_sandbox_created: "new_sandbox s c = created (next_id s) (now s) c"
  by (simp add: new_sandbox_def created_def)

lemma dom_lookup: "dom (lookup xs) = set (concat (map id_of xs))"
  using find_has_id_None [of _ xs] by (auto simp: lookup_def dom_def)

lemma lookup_stopped:
  "lookup (map (stopped x) xs) =
     (case lookup xs x of
        None \<Rightarrow> lookup xs
      | Some st \<Rightarrow> (lookup xs)(x \<mapsto> st\<lparr>State := Some NOT_READY\<rparr>))"
proof (induction xs)
  case Nil
  show ?case by (simp add: lookup_def)
next
  case (Cons st xs)
  then show ?case
    by (auto simp: lookup_def stopped_def has_id_def fun_eq_iff split: option.splits)
qed

lemma lookup_removed: "lookup (filter (\<lambda>st. \<not> has_id x st) xs) = (lookup xs)(x := None)"
  by (induction xs) (auto simp: lookup_def has_id_def fun_eq_iff)

lemma lookup_new:
  assumes "wf_runtime s"
  shows "lookup (sandboxes s @ [new_sandbox s c]) =
    (lookup (sandboxes s))(sandbox_id (next_id s) \<mapsto> new_sandbox s c)"
proof
  fix x
  from assms have "sandbox_id (next_id s) \<notin> set (sandbox_ids s)"
    by (auto simp: wf_runtime_def list_all_iff)
  then have "lookup (sandboxes s) (sandbox_id (next_id s)) = None"
    by (simp add: lookup_def find_has_id_None sandbox_ids_def)
  then show "lookup (sandboxes s @ [new_sandbox s c]) x =
      ((lookup (sandboxes s))(sandbox_id (next_id s) \<mapsto> new_sandbox s c)) x"
    by (auto simp: lookup_def find_append_eq has_id_def new_sandbox_def split: option.splits)
qed

section \<open>Refinement\<close>

text \<open>Each method changes the list the way the specification changes the map.\<close>

lemma run_refines:
  "wf_runtime s \<Longrightarrow> abs_runtime (snd (fake_run r s)) = spec_apply (Run_req r) (abs_runtime s)"
  by (simp add: fake_run_def abs_runtime_def lookup_new new_sandbox_created [symmetric]
      split: option.split)

lemma stop_refines:
  "abs_runtime (snd (fake_stop r s)) = spec_apply (Stop_req r) (abs_runtime s)"
  by (simp add: fake_stop_def with_sandbox_def abs_runtime_def lookup_stopped
      lookup_def [of "sandboxes s"] split: option.split)

lemma remove_refines:
  "abs_runtime (snd (fake_remove r s)) = spec_apply (Remove_req r) (abs_runtime s)"
  by (auto simp: fake_remove_def with_sandbox_def abs_runtime_def lookup_removed
      lookup_def [of "sandboxes s"] fun_eq_iff split: option.split)

lemma serve_refines:
  "wf_runtime s \<Longrightarrow> abs_runtime (serve q s) = spec_apply q (abs_runtime s)"
  by (cases q) (simp_all add: serve_def run_refines stop_refines remove_refines)

lemma wf_runtime_served: "wf_runtime s \<Longrightarrow> wf_runtime (foldl (\<lambda>s q. serve q s) s qs)"
  by (induction qs arbitrary: s) (simp_all add: wf_runtime_serve)

lemma served_refines:
  "wf_runtime s \<Longrightarrow>
   abs_runtime (foldl (\<lambda>s q. serve q s) s qs) = replay qs (abs_runtime s)"
  by (induction qs arbitrary: s) (simp_all add: serve_refines wf_runtime_serve)

text \<open>The answers are those the map determines.\<close>

lemma status_answer:
  "fst (fake_status \<lparr>Status_PodSandboxId = Some x\<rparr> s) =
     (case pods (abs_runtime s) x of
        None \<Rightarrow> Inl (not_found x)
      | Some st \<Rightarrow> Inr \<lparr>Status = Some st\<rparr>)"
  by (simp add: fake_status_def with_sandbox_def lookup_def split: option.split)

lemma list_answer:
  assumes "wf_runtime s" and "fst (fake_list r s) = Inr resp"
  shows "set (Items resp) = summary_of ` ran (pods (abs_runtime s))"
proof -
  have "ran (lookup xs) = set xs" if "distinct (concat (map id_of xs))"
    and "list_all complete xs" for xs
    using that
  proof (induction xs)
    case Nil
    show ?case by (simp add: lookup_def ran_def)
  next
    case (Cons st xs)
    from Cons.prems obtain x where x: "Id st = Some x"
      by (auto simp: complete_def)
    with Cons.prems have "lookup xs x = None"
      by (simp add: lookup_def find_has_id_None id_of_def)
    moreover from x have "lookup (st # xs) = (lookup xs)(x \<mapsto> st)"
      by (auto simp: lookup_def has_id_def fun_eq_iff)
    ultimately have "ran (lookup (st # xs)) = insert st (ran (lookup xs))"
      by (simp only: ran_map_upd)
    moreover from Cons have "ran (lookup xs) = set xs"
      by simp
    ultimately show ?case
      by simp
  qed
  with assms show ?thesis
    by (auto simp: fake_list_def wf_runtime_def sandbox_ids_def)
qed

end
