(* ===== verification/Rendering.thy ===== *)
theory Rendering
  imports Sandbox
begin

text \<open>
  Further properties of the output of \<^verbatim>\<open>sandbox.go\<close>, on top of the run lemmas of theory
  \<open>Sandbox\<close>: how many lines the status output has at most, that the text written
  splits back into the lines of the rendering specification when no field contains a
  line feed, what the quiet list output has printed when it meets a sandbox without
  identifier, what happens when a response carries no identifier at all, that the
  creation time is printed through the conversion function of the world, and the exact
  output that is left when the status output or the full list output panics.
\<close>

section \<open>The number of lines\<close>

lemma length_head_lines: "length (head_lines lt pod) \<le> 7"
  using length_Metadata_lines [of "Metadata pod"]
  by (simp add: head_lines_def length_field_line)

lemma length_status_lines:
  "length (status_lines lt ls as st) \<le>
     9 + length (map_lines ''Labels:'' ls) + length (map_lines ''Annotations:'' as)"
  using length_head_lines [of lt st]
  by (simp add: status_lines_def tail_lines_def length_field_line)

lemma length_map_order:
  "valid_map_order w \<Longrightarrow> length (map_order w k m) = length (sorted_list_of_fmap m)"
  by (metis size_mset valid_map_order_mset)

definition entries :: "gomap option \<Rightarrow> nat" where
  "entries m = (case m of None \<Rightarrow> 0 | Some x \<Rightarrow> Suc (length (sorted_list_of_fmap x)))"

lemma length_map_lines_at:
  "valid_map_order w \<Longrightarrow>
   length (map_lines header (map_option (map_order w k) m)) = entries m"
  by (cases m) (simp_all add: entries_def length_map_order)

text \<open>
  C39: The status output is bounded: for a status whose dereferenced pointers are
  set, the lines printed are those of the rendering specification, and there are at most
  nine of them for the scalar fields and, for each of the two maps that is present, one
  header line and one line per entry.
\<close>

theorem status_output_bounded:
  assumes "status_ok st" and "valid_map_order w"
  shows "output_of (print_status (Some st)) w =
       unlines (status_lines (local_time w) (labels_at (map_order w) (ranges w) st)
         (annotations_at (map_order w) (ranges w) st) st) \<and>
     length (status_lines (local_time w) (labels_at (map_order w) (ranges w) st)
         (annotations_at (map_order w) (ranges w) st) st) \<le>
       9 + entries (Labels st) + entries (Annotations st)"
proof
  from assms(1) show "output_of (print_status (Some st)) w =
      unlines (status_lines (local_time w) (labels_at (map_order w) (ranges w) st)
        (annotations_at (map_order w) (ranges w) st) st)"
    by (rule output_of_print_status)
  from assms(2) length_status_lines [of "local_time w" "labels_at (map_order w) (ranges w) st"
      "annotations_at (map_order w) (ranges w) st" st]
  show "length (status_lines (local_time w) (labels_at (map_order w) (ranges w) st)
        (annotations_at (map_order w) (ranges w) st) st) \<le>
      9 + entries (Labels st) + entries (Annotations st)"
    by (simp add: labels_at_def annotations_at_def length_map_lines_at)
qed

theorem status_output_bounded_witness:
  "output_of (print_status (Some test_status)) (test_world ok_replies) =
     unlines (status_lines test_clock (Some (sorted_list_of_fmap test_labels)) None test_status) \<and>
   length (status_lines test_clock (Some (sorted_list_of_fmap test_labels)) None test_status)
     \<le> 12"
proof -
  have "status_ok test_status" "valid_map_order (test_world ok_replies)"
    by (simp_all add: status_ok_def Linux_ok_def Network_ok_def test_status_def)
  from status_output_bounded [OF this] show ?thesis
    by (simp add: entries_def test_status_def labels_at_def annotations_at_def)
qed

section \<open>Reading the output back\<close>

text \<open>
  When no line of the rendering contains a line feed, the text the status
  output writes splits at the line feeds into exactly the lines of the rendering
  specification: the lines can be read back from the output.
\<close>

theorem status_output_lines:
  assumes "status_ok st"
    and "\<forall>l \<in> set (status_lines (local_time w) (labels_at (map_order w) (ranges w) st)
        (annotations_at (map_order w) (ranges w) st) st). LF \<notin> set l"
  shows "lines_of (output_of (print_status (Some st)) w) =
     status_lines (local_time w) (labels_at (map_order w) (ranges w) st)
       (annotations_at (map_order w) (ranges w) st) st"
  using assms by (simp add: output_of_print_status lines_of_unlines)

theorem status_output_lines_witness:
  "lines_of (output_of (print_status (Some test_status)) (test_world ok_replies)) =
     [''ID: p1'', ''Name: A'', ''UID: u-1'', ''Namespace: default'', ''Attempt: 1'',
      ''Status: READY'', ''Created: 0 s'', ''Network namespace: /proc/7/ns/net'',
      ''IP Address: 10.0.0.2'', ''Labels:'', TAB # ''app -> web'', TAB # ''tier -> front'']"
  using status_output_lines [of test_status "test_world ok_replies"]
  by (simp add: status_ok_def Linux_ok_def Network_ok_def test_data_defs render_defs
      digit_char_def LF_def TAB_def)

section \<open>The quiet list output and a missing identifier\<close>

lemma takeWhile_prefix:
  "list_all P ps \<Longrightarrow> \<not> P x \<Longrightarrow> takeWhile P (ps @ x # qs) = ps"
  by (induction ps) simp_all

text \<open>
  C38: The quiet list output dereferences the identifier of every sandbox without
  a test: at the first sandbox of the response that has none the run panics, after the
  identifiers of the sandboxes before it have been printed and none of those after it.
\<close>

theorem quiet_list_stops_at_nil_Id:
  assumes "ListPodSandbox_rpc client \<lparr>Filter = None\<rparr> (server w) = (Inr r, s')"
    and "Items r = ps @ pod # qs" and "list_all (\<lambda>p. Id p \<noteq> None) ps" and "Id pod = None"
  shows "ListPodSandboxes client True w =
     (Inl Panic, w\<lparr>stdout := stdout w @ unlines (quiet_lines ps), server := s',
                   rpc_calls := Suc (rpc_calls w)\<rparr>)"
proof -
  from assms(3,4) have "takeWhile (\<lambda>p. Id p \<noteq> None) (ps @ pod # qs) = ps"
    by (intro takeWhile_prefix) simp_all
  with assms show ?thesis
    by (simp add: ListPodSandboxes_apply for_each_print_pod_quiet may_panic_def
        del: not_None_eq)
qed

theorem quiet_list_stops_at_nil_Id_witness:
  "ListPodSandboxes
     (stand_in (ok_replies\<lparr>on_list :=
        Inr \<lparr>Items = [test_pod ''s1'', (test_pod ''s2'')\<lparr>Id := None\<rparr>, test_pod ''s3'']\<rparr>\<rparr>))
     True (test_world ok_replies) =
   (Inl Panic, (test_world ok_replies)
      \<lparr>stdout := unlines [''s1''], server := [List_req \<lparr>Filter = None\<rparr>], rpc_calls := 1\<rparr>)"
  using quiet_list_stops_at_nil_Id [of _ "test_world ok_replies"
      "\<lparr>Items = [test_pod ''s1'', (test_pod ''s2'')\<lparr>Id := None\<rparr>, test_pod ''s3'']\<rparr>"
      "[List_req \<lparr>Filter = None\<rparr>]" "[test_pod ''s1'']" "(test_pod ''s2'')\<lparr>Id := None\<rparr>"
      "[test_pod ''s3'']"]
  by (simp add: test_pod_def id_line_def)

section \<open>Responses without identifier\<close>

text \<open>
  C40: The identifier of a response is dereferenced without a test. When the service
  answers \<^verbatim>\<open>RunPodSandbox\<close> without an identifier the client panics after the request
  was served, so the sandbox exists and its identifier is lost; when the service answers
  \<^verbatim>\<open>PodSandboxStatus\<close> without a status, or with a status without identifier, the client
  panics before it prints anything.
\<close>

theorem response_without_identifier_panics:
  "(files w path = Inr config \<and> named_config name config = Some c \<and>
    RunPodSandbox_rpc client \<lparr>Config = Some c\<rparr> (server w) = (Inr \<lparr>PodSandboxId = None\<rparr>, s') \<longrightarrow>
    RunPodSandbox client path name w =
      (Inl Panic, w\<lparr>server := s', rpc_calls := Suc (rpc_calls w)\<rparr>)) \<and>
   (ID \<noteq> [] \<and>
    PodSandboxStatus_rpc client \<lparr>Status_PodSandboxId = Some ID\<rparr> (server w) = (Inr r, s'') \<and>
    (case Status r of None \<Rightarrow> True | Some st \<Rightarrow> Id st = None) \<longrightarrow>
    PodSandboxStatus client ID w =
      (Inl Panic, w\<lparr>server := s'', rpc_calls := Suc (rpc_calls w)\<rparr>))"
  by (auto simp: RunPodSandbox_apply PodSandboxStatus_apply print_status_None print_status_Some
      fail_with_apply split: option.splits)

theorem response_without_identifier_panics_witness:
  "RunPodSandbox (stand_in (ok_replies\<lparr>on_run := Inr \<lparr>PodSandboxId = None\<rparr>\<rparr>)) ''config.json'' []
     (test_world ok_replies) =
     (Inl Panic, (test_world ok_replies)
        \<lparr>server := [Run_req \<lparr>Config = Some test_config\<rparr>], rpc_calls := 1\<rparr>) \<and>
   PodSandboxStatus (stand_in (ok_replies\<lparr>on_status := Inr \<lparr>Status = None\<rparr>\<rparr>)) ''p1''
     (test_world ok_replies) =
     (Inl Panic, (test_world ok_replies)
        \<lparr>server := [Status_req \<lparr>Status_PodSandboxId = Some ''p1''\<rparr>], rpc_calls := 1\<rparr>)"
  using response_without_identifier_panics [of "test_world ok_replies" "''config.json''"
      test_config "[]" test_config "stand_in (ok_replies\<lparr>on_run := Inr \<lparr>PodSandboxId = None\<rparr>\<rparr>)"
      "[Run_req \<lparr>Config = Some test_config\<rparr>]"]
    response_without_identifier_panics [of "test_world ok_replies" _ _ _ _
      "stand_in (ok_replies\<lparr>on_status := Inr \<lparr>Status = None\<rparr>\<rparr>)" _ "''p1''"
      "\<lparr>Status = None\<rparr>" "[Status_req \<lparr>Status_PodSandboxId = Some ''p1''\<rparr>]"]
  by (simp add: test_files_def named_config_def)

section \<open>The creation time\<close>

text \<open>
  C37: The creation time goes through the conversion function: the status output and
  the list output print, behind \<^verbatim>\<open>Created: \<close>, the text that \<open>Unix\<close> gives for the seconds
  of the response in the world of the run, whatever the time zone of that world; a
  status with only the identifier and the creation time set is printed as those two
  lines. For the seconds \<open>0\<close> the text is the local representation of the epoch.
\<close>

theorem Created_line_uses_Unix:
  assumes "outcome (Unix t) w = Inr ctm"
  shows "print_Created t w = (Inr (), w\<lparr>stdout := stdout w @ ''Created: '' @ ctm @ [LF]\<rparr>) \<and>
    print_status
      (Some \<lparr>Id = Some x, Metadata = None, State = None, CreatedAt = Some t, Labels = None,
             Annotations = None, Network = None, Linux = None\<rparr>) w =
      (Inr (), w\<lparr>stdout := stdout w @ unlines [''ID: '' @ x, ''Created: '' @ ctm]\<rparr>) \<and>
    print_pod False
      \<lparr>Id = Some x, Metadata = None, State = Some s, CreatedAt = Some t, Labels = None,
       Annotations = None\<rparr> w =
      (Inr (), w\<lparr>stdout := stdout w @
         unlines [''ID: '' @ x, ''Status: '' @ State_String s, ''Created: '' @ ctm]\<rparr>)"
proof -
  from assms have "local_time w t = ctm"
    by (simp add: outcome_def Unix_apply)
  then show ?thesis
    by (simp add: print_Created_apply Print_apply print_status_Some print_pod_full_apply
        Linux_ok_def Network_ok_def render_defs pod_lines_def State_line_def n_maps_def
        n_ranges_def labels_at_def annotations_at_def)
qed

theorem Created_line_uses_Unix_witness:
  "print_Created 0 (test_world ok_replies) =
     (Inr (), (test_world ok_replies)\<lparr>stdout := ''Created: 0 s'' @ [LF]\<rparr>) \<and>
   print_status
      (Some \<lparr>Id = Some ''p1'', Metadata = None, State = None, CreatedAt = Some 0, Labels = None,
             Annotations = None, Network = None, Linux = None\<rparr>) (test_world ok_replies) =
      (Inr (), (test_world ok_replies)\<lparr>stdout := unlines [''ID: p1'', ''Created: 0 s'']\<rparr>) \<and>
   print_pod False
      \<lparr>Id = Some ''p1'', Metadata = None, State = Some READY, CreatedAt = Some 0, Labels = None,
       Annotations = None\<rparr> (test_world ok_replies) =
      (Inr (), (test_world ok_replies)\<lparr>stdout :=
         unlines [''ID: p1'', ''Status: READY'', ''Created: 0 s'']\<rparr>)"
proof -
  have "outcome (Unix 0) (test_world ok_replies) = Inr ''0 s''"
    by (simp add: outcome_def Unix_apply test_clock_def digit_char_def)
  from Created_line_uses_Unix [OF this, of "''p1''" READY] show ?thesis
    by simp
qed

section \<open>Partial output before a panic\<close>

text \<open>
  C24: The status output dereferences the address of the network status without a
  test: a status whose network status is present but has no address makes the run
  panic after the identifier, the metadata, the state, the creation time and the
  network namespace have been printed, and before the labels and the annotations.
\<close>

theorem print_status_Network_partial_output:
  assumes "Id st \<noteq> None" and "Linux_ok (Linux st)" and "\<not> Network_ok (Network st)"
  shows "print_status (Some st) w =
     (Inl Panic, w\<lparr>stdout := stdout w @ unlines (head_lines (local_time w) st @
        field_line ''Network namespace'' (netns_of st))\<rparr>)"
  using assms by (simp add: print_status_Some del: not_None_eq)

theorem print_status_Network_partial_output_witness:
  "print_status (Some (test_status\<lparr>Network := Some \<lparr>Ip = None\<rparr>\<rparr>)) (test_world ok_replies) =
     (Inl Panic, (test_world ok_replies)\<lparr>stdout := unlines
        [''ID: p1'', ''Name: A'', ''UID: u-1'', ''Namespace: default'', ''Attempt: 1'',
         ''Status: READY'', ''Created: 0 s'', ''Network namespace: /proc/7/ns/net'']\<rparr>)"
  using print_status_Network_partial_output [of "test_status\<lparr>Network := Some \<lparr>Ip = None\<rparr>\<rparr>"
      "test_world ok_replies"]
  by (simp add: Linux_ok_def Network_ok_def test_data_defs render_defs digit_char_def)

text \<open>
  C35: The full list output stops at the first sandbox without creation time: the
  sandboxes before it are printed in full, of the sandbox itself the identifier, the
  metadata and the state line are printed, then the run panics, and none of the
  sandboxes after it is printed.
\<close>

theorem full_list_stops_at_nil_CreatedAt:
  assumes "ListPodSandbox_rpc client \<lparr>Filter = None\<rparr> (server w) = (Inr r, s')"
    and "Items r = ps @ pod # qs" and "list_all pod_ok ps"
    and "Id pod \<noteq> None" and "CreatedAt pod = None"
  shows "ListPodSandboxes client False w =
     (Inl Panic,
      w\<lparr>stdout := stdout w @
           unlines (pods_lines (pod_lines (local_time w)) (map_order w) (ranges w) ps @
             field_line ''ID'' (Id pod) @ Metadata_lines (Metadata pod) @
             [State_line (State pod)]),
        server := s', rpc_calls := Suc (rpc_calls w),
        ranges := ranges w + sum_list (map n_maps ps)\<rparr>)"
  using assms
  by (simp add: ListPodSandboxes_apply for_each_append seq_apply for_each_print_pod_full
      print_pod_full_apply unlines_append del: not_None_eq)

theorem full_list_stops_at_nil_CreatedAt_witness:
  "ListPodSandboxes
     (stand_in (ok_replies\<lparr>on_list :=
        Inr \<lparr>Items = [test_pod ''s1'', (test_pod ''s2'')\<lparr>CreatedAt := None\<rparr>, test_pod ''s3'']\<rparr>\<rparr>))
     False (test_world ok_replies) =
   (Inl Panic, (test_world ok_replies)
      \<lparr>stdout := unlines [''ID: s1'', ''Status: READY'', ''Created: 0 s'', ''ID: s2'',
         ''Status: READY''],
       server := [List_req \<lparr>Filter = None\<rparr>], rpc_calls := 1\<rparr>)"
  using full_list_stops_at_nil_CreatedAt [of _ "test_world ok_replies"
      "\<lparr>Items = [test_pod ''s1'', (test_pod ''s2'')\<lparr>CreatedAt := None\<rparr>, test_pod ''s3'']\<rparr>"
      "[List_req \<lparr>Filter = None\<rparr>]" "[test_pod ''s1'']" "(test_pod ''s2'')\<lparr>CreatedAt := None\<rparr>"
      "[test_pod ''s3'']"]
  by (simp add: pod_ok_def test_pod_def render_defs pod_lines_def State_line_def
      labels_at_def annotations_at_def n_maps_def n_ranges_def digit_char_def)

end
