(* ===== verification/Lifecycle.thy ===== *)
theory Lifecycle
  imports Session Runtime_Spec Rendering
begin

text \<open>
  The client against a service with a state. The first part holds for every service:
  what a command line does to the state of the service is what the service does with
  the request that \<open>build_request\<close> assigns to the command line. The second part is
  about the runtime of theory \<open>Fake_Runtime\<close>: the client never panics on its answers, a sandbox that was created can be inspected under the
  identifier the client printed, every sandbox can be removed, sessions refine the
  map-based specification of theory \<open>Runtime_Spec\<close>, and the quiet list prints the
  identifiers the runtime holds.
\<close>

section \<open>A world with the runtime\<close>

definition fake_world :: "runtime world" where
  "fake_world =
     \<lparr>stdout = [], server = init_runtime, remote = fake_runtime, rpc_calls = 0, dial = None,
      open_conns = 0, files = test_files, ranges = 0,
      map_order = (\<lambda>k. sorted_list_of_fmap), local_time = test_clock\<rparr>"

lemma fake_world_simps [simp]:
  "stdout fake_world = []"
  "server fake_world = init_runtime"
  "remote fake_world = fake_runtime"
  "rpc_calls fake_world = 0"
  "dial fake_world = None"
  "open_conns fake_world = 0"
  "files fake_world = test_files"
  "ranges fake_world = 0"
  "map_order fake_world k = sorted_list_of_fmap"
  "local_time fake_world = test_clock"
  by (simp_all add: fake_world_def)

section \<open>What a command line does to the service\<close>

declare exec.simps [simp del]

definition after :: "'s RuntimeServiceClient \<Rightarrow> request option \<Rightarrow> 's \<Rightarrow> 's" where
  "after c q s = (case q of None \<Rightarrow> s | Some x \<Rightarrow> apply_request c x s)"

lemma after_simps [simp]:
  "after c None s = s"
  "after c (Some q) s = apply_request c q s"
  by (simp_all add: after_def)

lemma server_after_operation:
  "server (snd (RunPodSandbox c path name w)) =
     after c (case files w path of Inl e \<Rightarrow> None
       | Inr config \<Rightarrow> map_option (\<lambda>x. Run_req \<lparr>Config = Some x\<rparr>) (named_config name config))
       (server w)"
  "server (snd (StopPodSandbox c ID w)) =
     after c (if ID = [] then None else Some (Stop_req \<lparr>Stop_PodSandboxId = Some ID\<rparr>)) (server w)"
  "server (snd (RemovePodSandbox c ID w)) =
     after c (if ID = [] then None else Some (Remove_req \<lparr>Remove_PodSandboxId = Some ID\<rparr>))
       (server w)"
  "server (snd (PodSandboxStatus c ID w)) =
     after c (if ID = [] then None else Some (Status_req \<lparr>Status_PodSandboxId = Some ID\<rparr>))
       (server w)"
  "server (snd (ListPodSandboxes c quiet w)) = after c (Some (List_req \<lparr>Filter = None\<rparr>)) (server w)"
proof -
  show "server (snd (RunPodSandbox c path name w)) =
     after c (case files w path of Inl e \<Rightarrow> None
       | Inr config \<Rightarrow> map_option (\<lambda>x. Run_req \<lparr>Config = Some x\<rparr>) (named_config name config))
       (server w)"
    by (simp add: RunPodSandbox_apply split: sum.split option.split prod.split)
  show "server (snd (StopPodSandbox c ID w)) =
     after c (if ID = [] then None else Some (Stop_req \<lparr>Stop_PodSandboxId = Some ID\<rparr>)) (server w)"
    by (simp add: StopPodSandbox_apply split: sum.split prod.split)
  show "server (snd (RemovePodSandbox c ID w)) =
     after c (if ID = [] then None else Some (Remove_req \<lparr>Remove_PodSandboxId = Some ID\<rparr>))
       (server w)"
    by (simp add: RemovePodSandbox_apply split: sum.split prod.split)
  show "server (snd (PodSandboxStatus c ID w)) =
     after c (if ID = [] then None else Some (Status_req \<lparr>Status_PodSandboxId = Some ID\<rparr>))
       (server w)"
    by (simp add: PodSandboxStatus_apply server_prints_only [OF prints_only_print_status]
        split: sum.split prod.split)
  show "server (snd (ListPodSandboxes c quiet w)) = after c (Some (List_req \<lparr>Filter = None\<rparr>)) (server w)"
    by (simp add: ListPodSandboxes_apply server_prints_only [OF prints_only_for_each_print_pod]
        split: sum.split prod.split)
qed

lemma invoke_serves:
  assumes "dial w = None" and "invoke name args w = Some x"
  shows "server (snd x) = after (remote w) (build_request (files w) name args) (server w)"
proof -
  from assms(2) have "x = the (invoke name args w)"
    by simp
  with assms(1) show ?thesis
    by (cases rule: invoke_cases [OF assms(2)])
      (simp_all add: invoke_simps action_defs flag_values_arg build_request_def
        server_with_connection server_after_operation)
qed

lemma exec_serves:
  assumes "dial w = None"
  shows "server (exec (Pod name args) w) =
    after (remote w) (build_request (files w) name args) (server w)"
proof (cases "invoke name args w")
  case None
  then have "build_request (files w) name args = None"
    by (intro build_request_unknown invoke_None)
  with None show ?thesis by (simp add: exec.simps)
next
  case (Some x)
  with invoke_serves [OF assms Some] show ?thesis
    by (simp add: exec.simps case_prod_beta)
qed

lemma exec_refused:
  assumes "dial w = Some e"
  shows "exec (Pod name args) w = w"
proof (cases "invoke name args w")
  case None
  then show ?thesis by (simp add: exec.simps)
next
  case (Some x)
  then obtain a ctx where "a \<in> set actions" and "x = a ctx w"
    by (blast dest: invoke_action)
  with actions_refused [OF assms, of ctx] have "snd x = w"
    by (auto simp: list_all_iff)
  with Some show ?thesis
    by (simp add: exec.simps case_prod_beta)
qed

lemma session_Nil [simp]: "session [] w = w"
  by (simp add: session_def)

lemma session_Cons [simp]: "session (i # is) w = session is (exec i w)"
  by (simp add: session_def)

lemma exec_env:
  "dial (exec i w) = dial w" "remote (exec i w) = remote w" "files (exec i w) = files w"
proof -
  have "session_frame (Suc 0) w (exec i w)"
    by (rule step_frame) (simp add: step_exec)
  then show "dial (exec i w) = dial w" "remote (exec i w) = remote w"
    "files (exec i w) = files w"
    by (simp_all add: session_frame_def env_same_def)
qed

lemma session_env:
  "dial (session is w) = dial w" "remote (session is w) = remote w"
  "files (session is w) = files w"
  by (induction "is" arbitrary: w) (simp_all add: exec_env)

text \<open>
  C33: For every service, a command line changes the state of the service exactly
  as the service itself does when it is handed the request that the request builder
  of the specification assigns to the command line; a command line the builder rejects
  leaves the service as it was.
\<close>

theorem invoke_serves_built_request:
  assumes "dial w = None" and "invoke name args w = Some (r, w')"
  shows "server w' = after (remote w) (build_request (files w) name args) (server w)"
  using invoke_serves [OF assms] by simp

theorem invoke_serves_built_request_witness:
  "server (snd (the (invoke ''create'' [] fake_world))) =
   \<lparr>sandboxes = [new_sandbox init_runtime test_config], next_id = 1, now = 1\<rparr>"
  using invoke_serves_built_request [of fake_world "''create''" "[]"
      "fst (the (invoke ''create'' [] fake_world))"
      "snd (the (invoke ''create'' [] fake_world))"]
  by (simp add: invoke_simps build_request_def arg_def test_files_def fake_run_def
      init_runtime_def new_sandbox_def)

section \<open>Sessions against the runtime\<close>

lemma exec_wf:
  assumes "remote w = fake_runtime" and "wf_runtime (server w)"
  shows "wf_runtime (server (exec i w))"
proof (cases i)
  case (Pod name args)
  show ?thesis
  proof (cases "dial w")
    case None
    from assms show ?thesis
      unfolding Pod exec_serves [OF None]
      by (cases "build_request (files w) name args")
        (simp_all add: wf_runtime_serve [unfolded serve_def])
  next
    case (Some e)
    with assms show ?thesis
      by (simp add: Pod exec_refused)
  qed
qed

section \<open>The answers of the runtime are safe to print\<close>

lemma complete_status_ok: "complete st \<Longrightarrow> status_ok st"
  by (auto simp: complete_def status_ok_def Linux_ok_def Network_ok_def netns_of_def ip_of_def
      split: option.splits)

lemma complete_pod_ok: "complete st \<Longrightarrow> pod_ok (summary_of st)"
  by (simp add: complete_def pod_ok_def)

lemma wf_pods_ok: "wf_runtime s \<Longrightarrow> list_all pod_ok (map summary_of (sandboxes s))"
  by (auto simp: wf_runtime_def list_all_iff complete_pod_ok)

lemma quiet_lines_summaries: "quiet_lines (map summary_of xs) = concat (map id_of xs)"
  by (induction xs) (simp_all add: id_line_def id_of_def)

lemma print_status_complete:
  "complete st \<Longrightarrow> fst (print_status (Some st) w) = Inr ()"
  using complete_status_ok [of st] by (auto simp: print_status_Some status_ok_def)

lemma status_no_panic:
  "wf_runtime (server w) \<Longrightarrow> \<not> panics (fst (PodSandboxStatus fake_runtime ID w))"
  by (auto simp: PodSandboxStatus_apply fake_status_def with_sandbox_def print_status_complete
      dest: complete_found split: option.splits)

lemma list_no_panic:
  "wf_runtime (server w) \<Longrightarrow> fst (ListPodSandboxes fake_runtime quiet w) = Inr ()"
proof (cases quiet)
  case True
  assume "wf_runtime (server w)"
  then have "list_all (\<lambda>pod. Id pod \<noteq> None) (map summary_of (sandboxes (server w)))"
    using wf_pods_ok [of "server w"] by (auto simp: list_all_iff pod_ok_def)
  with True show ?thesis
    by (simp add: ListPodSandboxes_apply fake_list_def for_each_print_pod_quiet_all
        del: not_None_eq)
next
  case False
  assume "wf_runtime (server w)"
  with False show ?thesis
    by (simp add: ListPodSandboxes_apply fake_list_def for_each_print_pod_full wf_pods_ok)
qed

lemma run_panics_iff:
  "panics (fst (RunPodSandbox fake_runtime path name w)) \<longleftrightarrow>
     (\<exists>c. files w path = Inr c \<and> named_config name c = None)"
  by (simp add: RunPodSandbox_apply fake_run_def split: sum.split option.split)

text \<open>
  C32: The client does not panic on the answers of a well-formed runtime: the
  status output, the list output in both modes, and the stop and remove operations end
  in a return or in an error, whatever the identifier asked for. The create operation
  panics in one case only, which is the client's own: a name is given and the
  configuration that was loaded has no metadata to put it in.
\<close>

theorem no_panic_on_wf_runtime:
  assumes "wf_runtime (server w)"
  shows "\<not> panics (fst (PodSandboxStatus fake_runtime ID w)) \<and>
    \<not> panics (fst (ListPodSandboxes fake_runtime quiet w)) \<and>
    \<not> panics (fst (StopPodSandbox fake_runtime ID w)) \<and>
    \<not> panics (fst (RemovePodSandbox fake_runtime ID w)) \<and>
    (panics (fst (RunPodSandbox fake_runtime path name w)) \<longleftrightarrow>
       (\<exists>c. files w path = Inr c \<and> named_config name c = None))"
  using assms
  by (simp add: status_no_panic list_no_panic StopPodSandbox_apply RemovePodSandbox_apply
      run_panics_iff split: prod.split sum.split)

theorem no_panic_on_wf_runtime_witness:
  "\<not> panics (fst (PodSandboxStatus fake_runtime ''pod7'' fake_world)) \<and>
   \<not> panics (fst (ListPodSandboxes fake_runtime False fake_world)) \<and>
   \<not> panics (fst (StopPodSandbox fake_runtime ''pod7'' fake_world)) \<and>
   \<not> panics (fst (RemovePodSandbox fake_runtime ''pod7'' fake_world)) \<and>
   \<not> panics (fst (RunPodSandbox fake_runtime ''config.json'' ''B'' fake_world)) \<and>
   panics (fst (RunPodSandbox fake_runtime ''bare.json'' ''B'' fake_world))"
proof -
  have "wf_runtime (server fake_world)"
    by simp
  from no_panic_on_wf_runtime [OF this, of "''pod7''" False "''config.json''" "''B''"]
    no_panic_on_wf_runtime [OF this, of "''pod7''" False "''bare.json''" "''B''"]
  show ?thesis
    by (simp add: test_files_def named_config_def test_config_def bare_config_def)
qed

section \<open>Lifecycle of a sandbox\<close>

lemma fake_status_found:
  "find (has_id x) (sandboxes s) = Some st \<Longrightarrow>
   fake_status \<lparr>Status_PodSandboxId = Some x\<rparr> s = (Inr \<lparr>Status = Some st\<rparr>, s)"
  by (simp add: fake_status_def with_sandbox_def)

lemma find_stopped:
  "find (has_id x) xs = Some st \<Longrightarrow>
   find (has_id x) (map (stopped x) xs) = Some (st\<lparr>State := Some NOT_READY\<rparr>)"
  by (induction xs) (auto simp: stopped_def has_id_def split: if_splits)

lemma status_of_complete:
  assumes "complete st" and "x \<noteq> []"
    and "fake_status \<lparr>Status_PodSandboxId = Some x\<rparr> (server w) = (Inr \<lparr>Status = Some st\<rparr>, server w)"
  shows "PodSandboxStatus fake_runtime x w =
     (Inr (),
      w\<lparr>stdout := stdout w @
           unlines (status_lines (local_time w) (labels_at (map_order w) (ranges w) st)
             (annotations_at (map_order w) (ranges w) st) st),
        rpc_calls := Suc (rpc_calls w), ranges := ranges w + n_maps st\<rparr>)"
  using assms complete_status_ok [of st]
  by (auto simp: PodSandboxStatus_apply print_status_Some status_ok_def)

text \<open>
  C31: A sandbox that was created can be inspected under the identifier the client
  printed: \<^verbatim>\<open>pod create\<close> followed by \<^verbatim>\<open>pod status\<close> with that identifier prints the
  identifier and then the status of the new sandbox, which is \<^verbatim>\<open>READY\<close> and carries
  the metadata, the labels and the annotations of the configuration that was sent.
\<close>

theorem create_then_status:
  assumes "wf_runtime (server w)" and "files w path = Inr config"
    and "named_config name config = Some c"
  shows "seq (RunPodSandbox fake_runtime path name)
       (PodSandboxStatus fake_runtime (sandbox_id (next_id (server w)))) w =
     (Inr (),
      w\<lparr>stdout := stdout w @
           unlines (sandbox_id (next_id (server w)) #
             status_lines (local_time w)
               (labels_at (map_order w) (ranges w) (new_sandbox (server w) c))
               (annotations_at (map_order w) (ranges w) (new_sandbox (server w) c))
               (new_sandbox (server w) c)),
        server := snd (fake_run \<lparr>Config = Some c\<rparr> (server w)),
        rpc_calls := Suc (Suc (rpc_calls w)),
        ranges := ranges w + n_maps (new_sandbox (server w) c)\<rparr>)"
proof -
  let ?x = "sandbox_id (next_id (server w))"
  let ?s = "snd (fake_run \<lparr>Config = Some c\<rparr> (server w))"
  let ?w = "w\<lparr>stdout := stdout w @ ?x @ [LF], server := ?s, rpc_calls := Suc (rpc_calls w)\<rparr>"
  from assms(2,3) have run: "RunPodSandbox fake_runtime path name w = (Inr (), ?w)"
    by (simp add: RunPodSandbox_run_result run_result_def fake_run_def)
  from assms(1) have "fake_status \<lparr>Status_PodSandboxId = Some ?x\<rparr> (server ?w) =
      (Inr \<lparr>Status = Some (new_sandbox (server w) c)\<rparr>, server ?w)"
    by (simp add: fake_status_found find_new_sandbox fake_run_def)
  then have "PodSandboxStatus fake_runtime ?x ?w =
      (Inr (),
       ?w\<lparr>stdout := stdout ?w @
            unlines (status_lines (local_time ?w)
              (labels_at (map_order ?w) (ranges ?w) (new_sandbox (server w) c))
              (annotations_at (map_order ?w) (ranges ?w) (new_sandbox (server w) c))
              (new_sandbox (server w) c)),
          rpc_calls := Suc (rpc_calls ?w),
          ranges := ranges ?w + n_maps (new_sandbox (server w) c)\<rparr>)"
    by (intro status_of_complete) simp_all
  with run show ?thesis
    by (simp add: seq_apply)
qed

theorem create_then_status_witness:
  "seq (RunPodSandbox fake_runtime ''config.json'' ''B'')
       (PodSandboxStatus fake_runtime ''pod0'') fake_world =
     (Inr (),
      fake_world\<lparr>stdout := unlines
           [''pod0'', ''ID: pod0'', ''Name: B'', ''UID: u-1'', ''Namespace: default'',
            ''Attempt: 1'', ''Status: READY'', ''Created: 0 s'',
            ''Network namespace: /var/run/netns/pod0'', ''IP Address: 10.88.0.0'',
            ''Labels:'', TAB # ''app -> web'', TAB # ''tier -> front''],
        server := \<lparr>sandboxes =
            [new_sandbox init_runtime
               (test_config\<lparr>PodSandboxConfig.Metadata := Some (test_metadata\<lparr>Name := Some ''B''\<rparr>)\<rparr>)],
          next_id = 1, now = 1\<rparr>,
        rpc_calls := 2, ranges := 1\<rparr>)"
proof -
  have "wf_runtime (server fake_world)"
    by simp
  from create_then_status [OF this, of "''config.json''" test_config "''B''"
      "test_config\<lparr>PodSandboxConfig.Metadata := Some (test_metadata\<lparr>Name := Some ''B''\<rparr>)\<rparr>"]
  show ?thesis
    by (simp add: test_files_def named_config_def test_config_def test_metadata_def
        init_runtime_def sandbox_id_def digit_char_def fake_run_def new_sandbox_def render_defs
        numeral_2_eq_2)
qed

text \<open>
  The runtime owns the lifecycle state and the client shows it: after
  \<^verbatim>\<open>pod stop\<close> on a sandbox the runtime holds, \<^verbatim>\<open>pod status\<close> of the same identifier
  prints the status of that sandbox with the state \<^verbatim>\<open>NOT_READY\<close> and every other field
  as before.
\<close>

theorem stop_then_status:
  assumes "wf_runtime (server w)" and "find (has_id x) (sandboxes (server w)) = Some st"
    and "x \<noteq> []"
  shows "seq (StopPodSandbox fake_runtime x) (PodSandboxStatus fake_runtime x) w =
     (Inr (),
      w\<lparr>stdout := stdout w @
           unlines (x # status_lines (local_time w)
             (labels_at (map_order w) (ranges w) st) (annotations_at (map_order w) (ranges w) st)
             (st\<lparr>State := Some NOT_READY\<rparr>)),
        server := (server w)\<lparr>sandboxes := map (stopped x) (sandboxes (server w))\<rparr>,
        rpc_calls := Suc (Suc (rpc_calls w)), ranges := ranges w + n_maps st\<rparr>)"
proof -
  let ?s = "(server w)\<lparr>sandboxes := map (stopped x) (sandboxes (server w))\<rparr>"
  let ?w = "w\<lparr>stdout := stdout w @ x @ [LF], server := ?s, rpc_calls := Suc (rpc_calls w)\<rparr>"
  let ?st = "st\<lparr>State := Some NOT_READY\<rparr>"
  from assms(2,3) have stop: "StopPodSandbox fake_runtime x w = (Inr (), ?w)"
    by (simp add: StopPodSandbox_apply fake_stop_def with_sandbox_def)
  from assms(1,2) have "complete st"
    by (rule complete_found)
  then have "complete ?st"
    by (simp add: complete_def netns_of_def ip_of_def)
  moreover from assms(2) have "fake_status \<lparr>Status_PodSandboxId = Some x\<rparr> (server ?w) =
      (Inr \<lparr>Status = Some ?st\<rparr>, server ?w)"
    by (simp add: fake_status_found find_stopped)
  ultimately have "PodSandboxStatus fake_runtime x ?w =
      (Inr (),
       ?w\<lparr>stdout := stdout ?w @
            unlines (status_lines (local_time ?w) (labels_at (map_order ?w) (ranges ?w) ?st)
              (annotations_at (map_order ?w) (ranges ?w) ?st) ?st),
          rpc_calls := Suc (rpc_calls ?w), ranges := ranges ?w + n_maps ?st\<rparr>)"
    using assms(3) by (intro status_of_complete) simp_all
  with stop show ?thesis
    by (simp add: seq_apply labels_at_def annotations_at_def n_maps_def)
qed

theorem stop_then_status_witness:
  "stdout (snd (seq (StopPodSandbox fake_runtime ''pod0'') (PodSandboxStatus fake_runtime ''pod0'')
       (fake_world\<lparr>server := snd (fake_run \<lparr>Config = Some bare_config\<rparr> init_runtime)\<rparr>))) =
     unlines [''pod0'', ''ID: pod0'', ''Status: NOT_READY'', ''Created: 0 s'',
       ''Network namespace: /var/run/netns/pod0'', ''IP Address: 10.88.0.0'']"
proof -
  let ?w = "fake_world\<lparr>server := snd (fake_run \<lparr>Config = Some bare_config\<rparr> init_runtime)\<rparr>"
  have wf: "wf_runtime (server ?w)"
    by (simp add: wf_runtime_run)
  have found: "find (has_id ''pod0'') (sandboxes (server ?w)) =
      Some (new_sandbox init_runtime bare_config)"
    by (simp add: fake_run_def init_runtime_def has_id_def new_sandbox_def sandbox_id_def
        digit_char_def)
  have "''pod0'' \<noteq> []"
    by simp
  from stop_then_status [OF wf found this] show ?thesis
    by (simp add: new_sandbox_def init_runtime_def bare_config_def sandbox_id_def
        digit_char_def render_defs)
qed

definition remove_all :: "string list \<Rightarrow> invocation list" where
  "remove_all xs = map (\<lambda>x. Pod ''remove'' [(''id'', x)]) xs"

lemma sandboxes_after_remove:
  "sandboxes (snd (fake_remove \<lparr>Remove_PodSandboxId = Some x\<rparr> s)) =
     filter (\<lambda>st. \<not> has_id x st) (sandboxes s)"
proof (cases "find (has_id x) (sandboxes s)")
  case None
  then have "filter (\<lambda>st. \<not> has_id x st) (sandboxes s) = sandboxes s"
    by (auto simp: find_None_iff filter_id_conv)
  with None show ?thesis
    by (simp add: fake_remove_def with_sandbox_def)
next
  case (Some st)
  then show ?thesis
    by (simp add: fake_remove_def with_sandbox_def)
qed

lemma exec_remove:
  assumes "dial w = None" and "remote w = fake_runtime" and "x \<noteq> []"
  shows "sandboxes (server (exec (Pod ''remove'' [(''id'', x)]) w)) =
    filter (\<lambda>st. \<not> has_id x st) (sandboxes (server w))"
  using assms
  by (simp add: exec_serves build_request_def arg_def sandboxes_after_remove)

lemma session_remove_all:
  assumes "dial w = None" and "remote w = fake_runtime" and "list_all (\<lambda>x. x \<noteq> []) xs"
  shows "sandboxes (server (session (remove_all xs) w)) =
    filter (\<lambda>st. \<forall>x \<in> set xs. \<not> has_id x st) (sandboxes (server w))"
  using assms
proof (induction xs arbitrary: w)
  case Nil
  show ?case by (simp add: remove_all_def)
next
  case (Cons x xs)
  let ?w = "exec (Pod ''remove'' [(''id'', x)]) w"
  from Cons.prems have "sandboxes (server (session (remove_all xs) ?w)) =
      filter (\<lambda>st. \<forall>x \<in> set xs. \<not> has_id x st) (sandboxes (server ?w))"
    by (intro Cons.IH) (simp_all add: exec_env)
  moreover have "session (remove_all (x # xs)) w = session (remove_all xs) ?w"
    by (simp add: remove_all_def)
  moreover from Cons.prems have "sandboxes (server ?w) =
      filter (\<lambda>st. \<not> has_id x st) (sandboxes (server w))"
    by (intro exec_remove) simp_all
  ultimately show ?case
    by (auto simp: conj_commute intro: filter_cong)
qed

text \<open>
  C36: Every sandbox can be removed: from any well-formed state of the runtime,
  the session that runs \<^verbatim>\<open>pod remove --id\<close> for each identifier the runtime holds ends
  in a state without sandboxes.
\<close>

theorem every_sandbox_can_be_removed:
  assumes "dial w = None" and "remote w = fake_runtime" and "wf_runtime (server w)"
  shows "sandboxes (server (session (remove_all (sandbox_ids (server w))) w)) = []"
proof -
  from assms(3) have "list_all (\<lambda>x. x \<noteq> []) (sandbox_ids (server w))"
    by (auto simp: wf_runtime_def list_all_iff dest: issued_nonempty)
  moreover have "\<exists>x \<in> set (sandbox_ids (server w)). has_id x st"
    if "st \<in> set (sandboxes (server w))" for st
  proof -
    from assms(3) that obtain x where "Id st = Some x"
      by (auto simp: wf_runtime_def list_all_iff complete_def)
    with that show ?thesis
      by (auto simp: sandbox_ids_def id_of_def has_id_def intro!: bexI [of _ st])
  qed
  ultimately show ?thesis
    using assms(1,2) by (auto simp: session_remove_all filter_empty_conv)
qed

theorem every_sandbox_can_be_removed_witness:
  "sandboxes (server (session (remove_all [''pod0'', ''pod1''])
     (session [Pod ''create'' [], Pod ''create'' [(''name'', ''B'')]] fake_world))) = []"
proof -
  let ?w = "session [Pod ''create'' [], Pod ''create'' [(''name'', ''B'')]] fake_world"
  have ids: "sandbox_ids (server ?w) = [''pod0'', ''pod1'']"
    by (simp add: exec_serves exec_env build_request_def arg_def test_files_def
        named_config_def test_config_def fake_run_def init_runtime_def sandbox_ids_def
        sandbox_id_def digit_char_def)
  have "dial ?w = None" "remote ?w = fake_runtime" "wf_runtime (server ?w)"
    by (simp_all add: exec_env exec_wf)
  from every_sandbox_can_be_removed [OF this] show ?thesis
    unfolding ids .
qed

section \<open>Sessions refine the specification of the runtime\<close>

lemma session_requests_simps [simp]:
  "session_requests fs [] = []"
  "session_requests fs (Pod name args # is) =
     sent (build_request fs name args) @ session_requests fs is"
  by (simp_all add: session_requests_def)

lemma session_serves:
  assumes "dial w = None"
  shows "server (session is w) =
    foldl (\<lambda>s q. apply_request (remote w) q s) (server w) (session_requests (files w) is)"
  using assms
proof (induction "is" arbitrary: w)
  case Nil
  show ?case by simp
next
  case (Cons i "is")
  obtain name args where i: "i = Pod name args"
    by (cases i)
  from Cons.prems Cons.IH [of "exec i w"] have "server (session is (exec i w)) =
      foldl (\<lambda>s q. apply_request (remote w) q s) (server (exec i w))
        (session_requests (files w) is)"
    by (simp add: exec_env)
  with Cons.prems show ?case
    by (cases "build_request (files w) name args") (simp_all add: i exec_serves)
qed

text \<open>
  C29: Sessions of the client against the runtime refine the specification of the
  runtime: seen as a map from identifiers to statuses, the state of the runtime after a
  sequence of command lines is the state the specification reaches by replaying the
  requests that the request specification assigns to the command lines.
\<close>

theorem session_refines_spec:
  assumes "dial w = None" and "remote w = fake_runtime" and "wf_runtime (server w)"
  shows "abs_runtime (server (session is w)) =
    replay (session_requests (files w) is) (abs_runtime (server w))"
  using assms by (simp add: session_serves serve_def [symmetric] served_refines)

theorem session_refines_spec_witness:
  "map_option State
     (pods (abs_runtime (server (session
        [Pod ''create'' [], Pod ''create'' [(''name'', ''B'')], Pod ''stop'' [(''id'', ''pod0'')],
         Pod ''remove'' [(''id'', ''pod1'')]] fake_world))) ''pod0'') = Some (Some NOT_READY) \<and>
   dom (pods (abs_runtime (server (session
        [Pod ''create'' [], Pod ''create'' [(''name'', ''B'')], Pod ''stop'' [(''id'', ''pod0'')],
         Pod ''remove'' [(''id'', ''pod1'')]] fake_world)))) = {''pod0''}"
proof -
  let ?is = "[Pod ''create'' [], Pod ''create'' [(''name'', ''B'')],
    Pod ''stop'' [(''id'', ''pod0'')], Pod ''remove'' [(''id'', ''pod1'')]]"
  have eq: "abs_runtime (server (session ?is fake_world)) =
      replay (session_requests (files fake_world) ?is) (abs_runtime (server fake_world))"
    by (rule session_refines_spec) simp_all
  show ?thesis
    unfolding eq
    by (simp add: build_request_def arg_def test_files_def named_config_def test_config_def
        sandbox_id_def digit_char_def created_def new_sandbox_def)
qed

section \<open>Listing what the runtime holds\<close>

lemma fake_list_quiet:
  assumes "wf_runtime (server w)"
  shows "ListPodSandboxes fake_runtime True w =
    (Inr (), w\<lparr>stdout := stdout w @ unlines (sandbox_ids (server w)),
               server := server w, rpc_calls := Suc (rpc_calls w)\<rparr>)"
proof -
  from assms have "list_all (\<lambda>pod. Id pod \<noteq> None) (map summary_of (sandboxes (server w)))"
    using wf_pods_ok [of "server w"] by (auto simp: list_all_iff pod_ok_def)
  then show ?thesis
    by (simp add: ListPodSandboxes_apply fake_list_def for_each_print_pod_quiet_all
        quiet_lines_summaries sandbox_ids_def del: not_None_eq)
qed

text \<open>
  The command line \<^verbatim>\<open>pod list --quiet\<close> against a well-formed runtime prints
  exactly the identifiers of the sandboxes the runtime holds, one per line in the order
  of their creation, with one request, and leaves the runtime and the connection as they
  were.
\<close>

lemma list_quiet_prints_ids:
  assumes "dial w = None" and "remote w = fake_runtime" and "wf_runtime (server w)"
  shows "invoke ''list'' [(''quiet'', ''true'')] w =
    Some (Inr (), w\<lparr>stdout := stdout w @ unlines (sandbox_ids (server w)),
                     rpc_calls := Suc (rpc_calls w)\<rparr>)"
proof -
  from assms(3) have "wf_runtime (server (opened w))"
    by simp
  from fake_list_quiet [OF this] assms(1,2) show ?thesis
    by (simp add: invoke_simps action_defs flag_values
        with_connection_success [where w' = "opened w\<lparr>stdout := stdout w @
          unlines (sandbox_ids (server w)), server := server w,
          rpc_calls := Suc (rpc_calls w)\<rparr>"])
qed

lemma list_quiet_prints_ids_example:
  "invoke ''list'' [(''quiet'', ''true'')]
     (fake_world\<lparr>server := snd (fake_run \<lparr>Config = Some bare_config\<rparr> init_runtime)\<rparr>) =
   Some (Inr (), fake_world\<lparr>stdout := unlines [''pod0''],
     server := snd (fake_run \<lparr>Config = Some bare_config\<rparr> init_runtime), rpc_calls := 1\<rparr>)"
proof -
  let ?w = "fake_world\<lparr>server := snd (fake_run \<lparr>Config = Some bare_config\<rparr> init_runtime)\<rparr>"
  have "dial ?w = None" "remote ?w = fake_runtime" "wf_runtime (server ?w)"
    by (simp_all add: wf_runtime_run)
  from list_quiet_prints_ids [OF this] show ?thesis
    by (simp add: fake_run_def init_runtime_def sandbox_id_def digit_char_def sandbox_ids_def
        id_of_def new_sandbox_def)
qed

end
