(* ===== verification/Errors.thy ===== *)
theory Errors
  imports Commands
begin

text \<open>
  Errors and output. The operations of \<^verbatim>\<open>sandbox.go\<close> return an error only before they
  print: the guard on the identifier, the loading of the configuration and the request
  come first, and the print statements that follow can panic but cannot return an
  error. \<open>never_errs\<close> is the property of a program that no run of it returns an error;
  it is lifted through the combinators by the rules collected in \<open>never_errs_intros\<close>.
  The results are that an operation, and hence an action, that returns an error has
  printed nothing.
\<close>

section \<open>Programs that never return an error\<close>

named_theorems never_errs_intros \<open>rules that show that a program never returns an error\<close>

fun errs :: "'a result \<Rightarrow> bool" where
  "errs (Inl (Err e)) = True"
| "errs r = False"

definition never_errs :: "('w, 'a) prog \<Rightarrow> bool" where
  "never_errs m \<longleftrightarrow> (\<forall>w. \<not> errs (fst (m w)))"

lemma never_errsD: "never_errs m \<Longrightarrow> \<not> errs (fst (m w))"
  by (simp add: never_errs_def)

lemma never_errs_ret [never_errs_intros]: "never_errs (ret x)"
  by (simp add: never_errs_def ret_apply)

lemma never_errs_panic [never_errs_intros]: "never_errs (fail_with Panic)"
  by (simp add: never_errs_def fail_with_apply)

lemma never_errs_modify [never_errs_intros]: "never_errs (modify f)"
  by (simp add: never_errs_def modify_apply)

lemma never_errs_gets [never_errs_intros]: "never_errs (gets f)"
  by (simp add: never_errs_def gets_apply)

lemma never_errs_bind [never_errs_intros]:
  assumes "never_errs m" and "\<And>x. never_errs (f x)"
  shows "never_errs (bind m f)"
  unfolding never_errs_def
proof
  fix w
  obtain r w' where mw: "m w = (r, w')"
    by (cases "m w")
  show "\<not> errs (fst (bind m f w))"
  proof (cases r)
    case (Inl e)
    with never_errsD [OF assms(1), of w] mw have "e = Panic"
      by (cases e) simp_all
    with mw Inl show ?thesis
      by (simp add: bind_apply_Inl)
  next
    case (Inr x)
    with mw show ?thesis
      by (simp add: bind_apply_Inr never_errsD [OF assms(2)])
  qed
qed

lemma never_errs_seq [never_errs_intros]:
  "never_errs m \<Longrightarrow> never_errs n \<Longrightarrow> never_errs (seq m n)"
  by (simp add: seq_def never_errs_bind)

lemma never_errs_deref [never_errs_intros]: "never_errs (deref p)"
  by (cases p) (simp_all add: deref_def never_errs_intros)

lemma never_errs_if_then [never_errs_intros]: "never_errs m \<Longrightarrow> never_errs (if_then c m)"
  by (simp add: if_then_def never_errs_intros)

lemma never_errs_if_set [never_errs_intros]:
  "(\<And>x. never_errs (f x)) \<Longrightarrow> never_errs (if_set p f)"
  by (cases p) (simp_all add: if_set_def never_errs_intros)

lemma never_errs_for_each [never_errs_intros]:
  "(\<And>x. never_errs (f x)) \<Longrightarrow> never_errs (for_each xs f)"
  by (induction xs) (simp_all add: never_errs_intros)

lemma never_errs_case_prod [never_errs_intros]:
  "(\<And>a b. never_errs (f a b)) \<Longrightarrow> never_errs (case p of (a, b) \<Rightarrow> f a b)"
  by (cases p) simp

lemma never_errs_Print [never_errs_intros]: "never_errs (Print s)"
  by (simp add: never_errs_def Print_apply)

lemma never_errs_Printf [never_errs_intros]: "never_errs (Printf ps)"
  by (simp add: never_errs_def Printf_apply)

lemma never_errs_Println [never_errs_intros]: "never_errs (Println s)"
  by (simp add: never_errs_def Println_apply)

lemma never_errs_Unix [never_errs_intros]: "never_errs (Unix sec)"
  by (simp add: never_errs_def Unix_apply)

lemma never_errs_range_map [never_errs_intros]:
  "(\<And>k v. never_errs (body k v)) \<Longrightarrow> never_errs (range_map m body)"
  unfolding range_map_def by (intro never_errs_intros)

section \<open>The print statements never return an error\<close>

lemma never_errs_print_status: "never_errs (print_status status)"
  unfolding print_defs block.simps by (intro never_errs_intros)

lemma never_errs_print_pod: "never_errs (print_pod quiet pod)"
  unfolding print_defs block.simps by (cases quiet) (simp_all, (intro never_errs_intros)+)

lemma never_errs_for_each_print_pod: "never_errs (for_each pods (print_pod quiet))"
  by (intro never_errs_for_each never_errs_print_pod)

section \<open>An operation that returns an error has printed nothing\<close>

definition silent_errors :: "('s, 'a) io \<Rightarrow> bool" where
  "silent_errors m \<longleftrightarrow> (\<forall>w. errs (fst (m w)) \<longrightarrow> stdout (snd (m w)) = stdout w)"

lemma silent_errorsD: "silent_errors m \<Longrightarrow> errs (fst (m w)) \<Longrightarrow> stdout (snd (m w)) = stdout w"
  by (simp add: silent_errors_def)

lemma silent_errors_operations:
  "silent_errors (RunPodSandbox client path name)"
  "silent_errors (StopPodSandbox client ID)"
  "silent_errors (RemovePodSandbox client ID)"
  "silent_errors (PodSandboxStatus client ID)"
  "silent_errors (ListPodSandboxes client quiet)"
proof -
  show "silent_errors (RunPodSandbox client path name)"
    by (simp add: silent_errors_def RunPodSandbox_apply split: sum.split option.split prod.split)
  show "silent_errors (StopPodSandbox client ID)"
    by (simp add: silent_errors_def StopPodSandbox_apply split: sum.split prod.split)
  show "silent_errors (RemovePodSandbox client ID)"
    by (simp add: silent_errors_def RemovePodSandbox_apply split: sum.split prod.split)
  show "silent_errors (PodSandboxStatus client ID)"
    by (simp add: silent_errors_def PodSandboxStatus_apply never_errsD [OF never_errs_print_status]
        split: sum.split prod.split)
  show "silent_errors (ListPodSandboxes client quiet)"
    by (simp add: silent_errors_def ListPodSandboxes_apply
        never_errsD [OF never_errs_for_each_print_pod] split: sum.split prod.split)
qed

lemma errs_wrap_err [simp]: "errs (fst (wrap_err pre m w)) = errs (fst (m w))"
  by (cases "m w" rule: prod.exhaust [case_names Pair])
    (auto simp: wrap_err_apply split: sum.splits failure.splits)

lemma silent_errors_with_connection:
  assumes "\<And>client. silent_errors (body client)"
  shows "silent_errors (with_connection ctx pre body)"
  unfolding silent_errors_def
proof (intro allI impI)
  fix w
  assume err: "errs (fst (with_connection ctx pre body w))"
  show "stdout (snd (with_connection ctx pre body w)) = stdout w"
  proof (cases "dial w")
    case (Some e)
    then show ?thesis by (simp add: with_connection_apply)
  next
    case None
    with err have "errs (fst (body (remote w) (opened w)))"
      by (simp add: with_connection_apply)
    with assms have "stdout (snd (body (remote w) (opened w))) = stdout (opened w)"
      by (rule silent_errorsD)
    with None show ?thesis
      by (simp add: with_connection_apply closed_def)
  qed
qed

lemma silent_errors_actions:
  "silent_errors (runPodSandboxAction ctx)"
  "silent_errors (stopPodSandboxAction ctx)"
  "silent_errors (removePodSandboxAction ctx)"
  "silent_errors (podSandboxStatusAction ctx)"
  "silent_errors (listPodSandboxAction ctx)"
  by (simp_all add: action_defs silent_errors_with_connection silent_errors_operations)

text \<open>
  C22: No partial success on an error: an action that returns an error has printed
  nothing. Whatever the service answers and whatever the flags are, the text on the
  standard output after a failed action is the text that was there before it.
\<close>

theorem errors_print_nothing:
  "list_all (\<lambda>a. errs (fst (a ctx w)) \<longrightarrow> stdout (snd (a ctx w)) = stdout w) actions"
  using silent_errors_actions [of ctx, THEN silent_errorsD, of w]
  by (simp add: actions_def)

theorem errors_print_nothing_witness:
  "errs (fst (podSandboxStatusAction \<lparr>declared = podSandboxStatusFlags, given = [(''id'', ''p9'')]\<rparr>
     (test_world failing_replies))) \<and>
   stdout (snd (podSandboxStatusAction
     \<lparr>declared = podSandboxStatusFlags, given = [(''id'', ''p9'')]\<rparr>
     (test_world failing_replies))) = []"
proof -
  let ?ctx = "\<lparr>declared = podSandboxStatusFlags, given = [(''id'', ''p9'')]\<rparr>"
  have e: "errs (fst (podSandboxStatusAction ?ctx (test_world failing_replies)))"
    by (simp add: action_defs with_connection_apply PodSandboxStatus_apply flag_values
        failing_replies_def)
  with errors_print_nothing [of ?ctx "test_world failing_replies"] show ?thesis
    by (simp add: actions_def)
qed

end
