(* ===== verification/Spec2Isabelle.thy ===== *)
theory Spec2Isabelle
  imports Lifecycle Errors
begin

text \<open>
  \<^bold>\<open>The program.\<close> \<^verbatim>\<open>src/cmd/client/sandbox.go\<close> is the pod sandbox part of the command-line
  client of a container runtime. It declares the command \<^verbatim>\<open>pod\<close> with the subcommands
  \<^verbatim>\<open>create\<close>, \<^verbatim>\<open>stop\<close>, \<^verbatim>\<open>remove\<close>, \<^verbatim>\<open>status\<close> and \<^verbatim>\<open>list\<close>. The action of a subcommand opens a
  connection to the runtime service, defers its closing, and calls one of the functions
  \<^verbatim>\<open>RunPodSandbox\<close>, \<^verbatim>\<open>StopPodSandbox\<close>, \<^verbatim>\<open>RemovePodSandbox\<close>, \<^verbatim>\<open>PodSandboxStatus\<close> and
  \<^verbatim>\<open>ListPodSandboxes\<close>, which build one request, send it, and print the response to the
  standard output. Errors are returned to the framework, wrapped in a message per
  subcommand; a nil pointer that the code dereferences without a test ends the run in a
  panic.

  \<^bold>\<open>The model.\<close> A run is a function from a world to an outcome and a world
  (\<open>('w, 'a) prog\<close>): the outcome is a value, a Go error (\<open>Err\<close>) or a panic. The
  theories, in the order of their imports:

  \<^item> \<open>Go_Prelude\<close>: the vocabulary every later theory uses. Go errors as a datatype
    with the method \<open>Error\<close> and \<open>Errorf\<close>; the combinators \<open>ret\<close>, \<open>bind\<close>, \<open>seq\<close>,
    \<open>block\<close>, \<open>for_each\<close>, \<open>deref\<close> (a dereference that panics on nil), \<open>if_set\<close>
    (\<^verbatim>\<open>if p != nil\<close>), \<open>deferred\<close> (\<^verbatim>\<open>defer\<close>) and \<open>wrap_err\<close>
    (\<^verbatim>\<open>if err != nil { return fmt.Errorf(...) }\<close>); the monad laws; the rules that run a
    combinator on a state; \<open>steps_in R m\<close>, which says that every run of \<open>m\<close> relates
    the initial to the final state by \<open>R\<close>, with one introduction rule per combinator.
  \<^item> \<open>Fmt\<close>: \<^verbatim>\<open>fmt.Sprintf\<close> for the verbs \<^verbatim>\<open>%s\<close> and \<^verbatim>\<open>%v\<close> on the operands the program
    prints, decimal numerals with their parser, and the splitting of text into lines.
  \<^item> \<open>Runtime_API\<close>: the messages of package \<^verbatim>\<open>pb\<close> as records whose pointer fields
    are options, the sandbox states as an enumeration (an instance of class \<open>enum\<close>)
    with their names and the inverse \<open>State_of_name\<close>, and the client interface as a
    record of five functions on the state of the service.
  \<^item> \<open>Cli\<close>: flags, and the context from which an action reads a flag value.
  \<^item> \<open>World\<close>: the record \<open>world\<close> of everything outside the program (standard
    output, the service and its state, the number of requests issued, the connection,
    the configuration files, the order of map iteration, the time zone), the primitive
    operations on it, and the frame relations \<open>stdout_grows\<close>, \<open>env_same\<close>,
    \<open>prints_only\<close> and \<open>calls_at_most\<close>.
  \<^item> \<open>Stand_In\<close>: a service that logs the requests it receives and answers with fixed
    replies, and the concrete world and messages on which the theorems are applied.
  \<^item> \<open>Request_Spec\<close>: the specification of the requests: the configuration a
    create request carries (\<open>named_config\<close>) and the request of a command line
    (\<open>build_request\<close>).
  \<^item> \<open>Render_Spec\<close>: the specification of the output as lists of lines
    (\<open>status_lines\<close>, \<open>summary_lines\<close>, \<open>pods_lines\<close>, \<open>quiet_lines\<close>), without any state.
  \<^item> \<open>Sandbox\<close>: the five functions of \<^verbatim>\<open>sandbox.go\<close> (lines 163 to 309) under their
    own names, and the print statements they consist of: \<open>print_ID\<close>,
    \<open>print_Metadata\<close>, \<open>print_State\<close>, \<open>print_Created\<close>, \<open>print_Linux\<close>,
    \<open>print_Network\<close>, \<open>print_map\<close>, composed by \<open>print_status\<close> for the status
    output and by \<open>print_pod\<close> for one item of the list output.
  \<^item> \<open>Commands\<close>: the command table (lines 12 to 161): \<open>podSandboxCommand\<close>, the five
    subcommands with their flags (\<open>runPodSandboxFlags\<close> and so on) and their actions
    (\<open>runPodSandboxAction\<close> and so on), the dispatch of the framework
    (\<open>run_subcommand\<close>) and the result of a command line (\<open>invoke\<close>).
  \<^item> \<open>Errors\<close>: programs that never return an error (\<open>never_errs\<close>, with one rule
    per combinator), the print statements as such programs, and operations and actions
    whose errors come before any output (\<open>silent_errors\<close>).
  \<^item> \<open>Session\<close>: command lines as a datatype, the step relation \<open>step\<close> of one
    invocation and \<open>steps\<close> of a sequence of them, with the functions \<open>exec\<close> and
    \<open>session\<close> that compute them.
  \<^item> \<open>Rendering\<close>: further properties of the output: a bound on the number of
    lines of the status output, the lines read back from the text, and the quiet list
    output at a sandbox without identifier.
  \<^item> \<open>Fake_Runtime\<close>: a runtime service with a state of its own, as a test double
    for the service the client talks to: the record \<open>runtime\<close> of the sandboxes it
    holds, a counter for identifiers and a clock; the five methods \<open>fake_run\<close>,
    \<open>fake_stop\<close>, \<open>fake_remove\<close>, \<open>fake_status\<close> and \<open>fake_list\<close>; the effect of a
    request on the state of a service (\<open>apply_request\<close>); the states the runtime
    reaches (\<open>reachable\<close>) and its invariant \<open>wf_runtime\<close>.
  \<^item> \<open>Runtime_Spec\<close>: what that runtime promises, as a partial map from
    identifiers to statuses (\<open>pods_spec\<close>, \<open>spec_apply\<close>, \<open>replay\<close>), the abstraction
    \<open>abs_runtime\<close> from the list the runtime keeps to the map, and the refinement
    lemmas per method (\<open>run_refines\<close>, \<open>stop_refines\<close>, \<open>remove_refines\<close>,
    \<open>serve_refines\<close>) and for its answers (\<open>status_answer\<close>, \<open>list_answer\<close>).
  \<^item> \<open>Lifecycle\<close>: the client composed with that runtime: the world \<open>fake_world\<close>,
    the state of the service after a command line (\<open>after\<close>), and the properties of
    sequences of command lines.
  \<^item> this theory: the properties of single command lines that span the framework,
    the command table, the operations and the service.

  \<^bold>\<open>The lemmas.\<close> For each operation a lemma named after it with the suffix \<open>_apply\<close>
  gives the result of a run on an arbitrary world, on every branch: the outcome and the
  final world. \<open>print_status_Some\<close> and \<open>print_pod_full_apply\<close> do so for the
  output: they relate the text appended to the standard output to the lines of
  \<open>Render_Spec\<close>, and say where a run panics and what it has printed by then. The
  properties are stated on top of these lemmas:
  \<^item> refinement of the rendering specification by the status and the list output;
  \<^item> the functional behaviour of the request builders: the guard on the empty
    identifier, the identifier carried unchanged, the name override and its precedence,
    the error of the loader and of the service passed on;
  \<^item> the panics on nil pointers that the code does not test for, with the exact
    partial output they leave: in the status output at the network namespace and at the
    address, in the list output at the first sandbox without identifier or without
    creation time;
  \<^item> the protocol of an action: the connection is released on every exit, a failed
    connection leaves the world untouched, at most one request is issued, errors carry
    the prefix of the subcommand, the standard output only grows;
  \<^item> no partial success on an error: an action that returns an error has printed
    nothing (a panic, in contrast, can leave a partial output);
  \<^item> independence of the output from the order of map iteration up to the order of
    the entry lines;
  \<^item> refinement of the request builder: against the stand-in, the log of the service
    after a command line, and after a session, is what \<open>build_request\<close> says;
  \<^item> the invariants of a session, by rule induction on \<open>steps\<close>: no connection stays
    open, the standard output only grows, at most one request per command line; every
    request a session sends is well-formed (\<open>wf_request\<close>);
  \<^item> the decimal rendering of the attempt counter and its inverse; the creation
    time printed as the text the conversion \<open>Unix\<close> gives in the world of the run;
  \<^item> refinement against any service: the state of the service after a command line
    is its state after the request of \<open>build_request\<close>, or unchanged when the command
    line sends none;
  \<^item> the invariant \<open>wf_runtime\<close> of the runtime (distinct identifiers handed out
    by the counter, every status complete), kept by each method and by every reachable
    state; it is a property of the test double and serves as the hypothesis of the
    properties of the client composed with it;
  \<^item> against a well-formed runtime no operation of the client panics; a sandbox
    that was created is shown by \<^verbatim>\<open>pod status\<close> under the identifier printed, a stopped one
    as \<^verbatim>\<open>NOT_READY\<close>; removing every identifier leaves the runtime empty;
  \<^item> refinement of the specification of the runtime by sessions: the state of the
    runtime after a sequence of command lines, read through \<open>abs_runtime\<close>, is
    \<open>replay\<close> of the requests of the command lines; \<^verbatim>\<open>pod list --quiet\<close> prints the
    identifiers the runtime holds;
  \<^item> responses that break the contract: without identifier, the client panics after
    a create request was served and before a status is printed;
  \<^item> bounds: the status output has at most nine lines and one per map header and
    map entry.

  \<^bold>\<open>Choices and bounds.\<close> The identifiers, names and map entries are strings of any
  length; the attempt counter is a \<open>32 word\<close> and the creation time a \<open>64 word\<close>, as
  \<^verbatim>\<open>uint32\<close> and \<^verbatim>\<open>int64\<close> are. All loops are over finite lists (the items of a response,
  the entries of a map) and are structural recursions, so every run terminates and no
  fuel is needed; for the same reason the development states no termination theorem,
  and none about running the renderer twice: in this model a renderer is a function of
  the response, the time zone and the map orders it is given, which is what the
  refinement of the rendering specification says. Go leaves the order of iteration over a map unspecified: the world
  supplies it (\<open>map_order\<close>) per \<^verbatim>\<open>range\<close> statement, and theorems that need it assume
  only \<open>valid_map_order\<close>, that an order lists each entry once.

  The runtime of \<open>Fake_Runtime\<close> is one service that honours the contract of the
  client interface; it is not taken from code of the repository. Its identifiers are
  \<^verbatim>\<open>pod0\<close>, \<^verbatim>\<open>pod1\<close> and so on from a counter that never goes back, its clock is a
  \<open>64 word\<close> that advances by one per sandbox; a request without configuration, or
  for an identifier the runtime does not hold, is answered with an error and changes
  nothing (sections 3 and 6 of the specification).

  \<^bold>\<open>Not modelled.\<close> Every declaration and every statement of \<^verbatim>\<open>sandbox.go\<close> has its
  definition; the lines without one are the package clause, the imports and the
  comments. Four simplifications of what lies behind those statements: the items of a
  list response are records, so that a nil element of \<^verbatim>\<open>r.Items\<close>, which would panic at
  the first dereference of \<^verbatim>\<open>pod.Id\<close>, is not expressed; \<open>State_String\<close> names the three
  states of the specification and has no numeral for a value outside them;
  \<open>getClientConnection\<close> ignores its context, whether the connection can be
  established being the parameter \<open>dial\<close> of the world; and \<open>run_subcommand\<close> runs
  nothing for an unknown subcommand, the help and error output of the framework being
  left out. What is left out lies outside that file: the inner working of a real runtime
  service (namespaces, cgroups, scheduling; the client theorems allow any service, and
  the stand-in and the runtime of \<open>Fake_Runtime\<close> are two), the transport and its
  deadlines, the parsing of the argument vector and of the configuration file, and the
  calendar arithmetic of package \<^verbatim>\<open>time\<close>: the text of a time in the local zone is the
  parameter \<open>local_time\<close> of the world.
  Package \<^verbatim>\<open>pb\<close>, the framework \<^verbatim>\<open>cli\<close> and the helpers \<^verbatim>\<open>getClientConnection\<close> and
  \<^verbatim>\<open>loadPodSandboxConfig\<close> are not part of the sources; they are modelled from the
  specification of the client and from the way \<^verbatim>\<open>sandbox.go\<close> uses them. The names of
  the sandbox states are those of the specification.
\<close>

section \<open>Invocations of the command line\<close>

text \<open>
  C21: The command line \<^verbatim>\<open>pod create\<close> without flags loads the file \<^verbatim>\<open>config.json\<close>, the
  default of the flag \<^verbatim>\<open>config\<close>, and sends its configuration unchanged, the default of
  the flag \<^verbatim>\<open>name\<close> being empty; when the service answers with an identifier the
  invocation prints it on a line of its own, after one request and with the connection
  closed.
\<close>

theorem create_uses_flag_defaults:
  assumes "dial w = None" and "files w ''config.json'' = Inr config"
    and "RunPodSandbox_rpc (remote w) \<lparr>Config = Some config\<rparr> (server w) =
      (Inr \<lparr>PodSandboxId = Some x\<rparr>, s')"
  shows "invoke ''create'' [] w =
    Some (Inr (), w\<lparr>stdout := stdout w @ x @ [LF], server := s',
                     rpc_calls := Suc (rpc_calls w)\<rparr>)"
  using assms
  by (simp add: invoke_simps action_defs flag_values named_config_def RunPodSandbox_apply
      with_connection_success [where w' = "opened w\<lparr>stdout := stdout w @ x @ [LF], server := s',
        rpc_calls := Suc (rpc_calls w)\<rparr>"])

theorem create_uses_flag_defaults_witness:
  "invoke ''create'' [] (test_world ok_replies) =
    Some (Inr (), (test_world ok_replies)\<lparr>stdout := ''p1'' @ [LF],
       server := [Run_req \<lparr>Config = Some test_config\<rparr>], rpc_calls := 1\<rparr>)"
  using create_uses_flag_defaults [of "test_world ok_replies" test_config "''p1''"
      "[Run_req \<lparr>Config = Some test_config\<rparr>]"]
  by (simp add: test_files_def ok_replies_def)

text \<open>
  C20: The command line \<^verbatim>\<open>pod stop\<close> without the flag \<^verbatim>\<open>id\<close> fails with the message
  \<^verbatim>\<open>stopping the pod sandbox failed: ID cannot be empty\<close>; the connection is opened and
  closed again, no request is issued and nothing is printed.
\<close>

theorem stop_without_id:
  assumes "dial w = None"
  shows "invoke ''stop'' [] w =
     Some (Inl (Err (ErrorString ''stopping the pod sandbox failed: ID cannot be empty'')), w)"
  using assms
  by (simp add: invoke_simps action_defs flag_values
      with_connection_failure [where e = "ErrorString ''ID cannot be empty''" and w' = "opened w"]
      StopPodSandbox_apply)

theorem stop_without_id_witness:
  "invoke ''stop'' [] (test_world ok_replies) =
     Some (Inl (Err (ErrorString ''stopping the pod sandbox failed: ID cannot be empty'')),
           test_world ok_replies)"
  by (rule stop_without_id) simp

text \<open>
  C12: When the service rejects the request of \<^verbatim>\<open>pod stop --id ID\<close>, the invocation
  fails with the message of the service behind the prefix
  \<^verbatim>\<open>stopping the pod sandbox failed: \<close>, after exactly one request, with nothing printed and
  the connection closed.
\<close>

theorem remote_error_is_wrapped:
  assumes "dial w = None" and "ID \<noteq> []"
    and "StopPodSandbox_rpc (remote w) \<lparr>Stop_PodSandboxId = Some ID\<rparr> (server w) = (Inl e, s')"
  shows "invoke ''stop'' [(''id'', ID)] w =
     Some (Inl (Err (ErrorString (''stopping the pod sandbox failed: '' @ Error e))),
           w\<lparr>server := s', rpc_calls := Suc (rpc_calls w)\<rparr>)"
  using assms
  by (simp add: invoke_simps action_defs flag_values
      with_connection_failure [where e = e and w' = "opened w\<lparr>server := s', rpc_calls := Suc (rpc_calls w)\<rparr>"]
      StopPodSandbox_apply)

theorem remote_error_is_wrapped_witness:
  "invoke ''stop'' [(''id'', ''p9'')] (test_world failing_replies) =
     Some (Inl (Err (ErrorString ''stopping the pod sandbox failed: rpc error: no such sandbox'')),
           (test_world failing_replies)
             \<lparr>server := [Stop_req \<lparr>Stop_PodSandboxId = Some ''p9''\<rparr>], rpc_calls := 1\<rparr>)"
  using remote_error_is_wrapped [of "test_world failing_replies" "''p9''"
      "RpcError ''rpc error: no such sandbox''" "[Stop_req \<lparr>Stop_PodSandboxId = Some ''p9''\<rparr>]"]
  by (simp add: failing_replies_def)

end
